(* ===== verification/TT_Prelude.thy ===== *)
theory TT_Prelude
  imports Complex_Main "HOL-Library.AList" "HOL-Library.Multiset"
begin

text \<open>
  Shared vocabulary of the talent-tracker development.

  \<^item> A Python number is modelled by its value, a rational (\<open>num\<close>): every literal of
    the source tables is a finite decimal and every double is a rational. The
    operations of this theory on numbers are those of the rationals; the rounding of
    Python's float arithmetic is the subject of theory \<open>Binary64\<close>.
  \<^item> A Python \<open>dict\<close> is an association list in insertion order (\<open>pydict\<close>):
    \<open>k in d\<close> is \<open>dict_contains\<close>, \<open>d.get(k, default)\<close> is \<open>dict_get\<close>,
    \<open>d[k] = v\<close> is \<open>dict_store\<close> (an existing key keeps its position, a new key is
    appended), a dict comprehension is \<open>dict_comprehension\<close>.
  \<^item> A subscript \<open>d[k]\<close> that the source does not guard is \<open>dict_subscript\<close>, with
    the \<^verbatim>\<open>KeyError\<close> as a value; \<open>sorted(xs, reverse=True)\<close> is \<open>sorted_reverse\<close>.
  \<^item> An operation that may raise returns \<open>py_error + 'a\<close> (\<open>Inl\<close> the exception class);
    \<open>and_then\<close> sequences two such statements, so that the first exception ends the
    computation as it does in Python.
  \<^item> \<open>find_range\<close> is the shared shape of the two first-match scans of the program
    (age ranges, percentile brackets): the value of the first closed range that
    contains the argument.
  \<^item> \<open>weighted_sum\<close> and \<open>weight_sum\<close> are the reference for the accumulator loop
    of the sport scorer.
  \<^item> \<open>string_of_int\<close> is Python's decimal \<open>str\<close> of an integer, as used by f-strings.
\<close>

section \<open>Fact collections\<close>

named_theorems tt_defs "defining equations of the modelled operations"
named_theorems tt_data "defining equations of the static tables"

section \<open>Numbers and dictionaries\<close>

type_synonym num = rat
type_synonym ('k, 'v) pydict = "('k \<times> 'v) list"

definition dict_keys :: "('k, 'v) pydict \<Rightarrow> 'k list" where
  "dict_keys d = map fst d"

definition dict_contains :: "('k, 'v) pydict \<Rightarrow> 'k \<Rightarrow> bool" where
  "dict_contains d k = (map_of d k \<noteq> None)"

definition dict_get :: "('k, 'v) pydict \<Rightarrow> 'k \<Rightarrow> 'v \<Rightarrow> 'v" where
  "dict_get d k dflt = (case map_of d k of None \<Rightarrow> dflt | Some v \<Rightarrow> v)"

definition dict_store :: "('k, 'v) pydict \<Rightarrow> 'k \<Rightarrow> 'v \<Rightarrow> ('k, 'v) pydict" where
  "dict_store d k v = AList.update k v d"

definition dict_comprehension :: "('a \<Rightarrow> 'k) \<Rightarrow> ('a \<Rightarrow> 'v) \<Rightarrow> 'a list \<Rightarrow> ('k, 'v) pydict" where
  "dict_comprehension f g xs = foldl (\<lambda>d x. dict_store d (f x) (g x)) [] xs"

definition wf_dict :: "('k, 'v) pydict \<Rightarrow> bool" where
  "wf_dict d = distinct (map fst d)"

datatype py_error = KeyError | TypeError | ValueError | AttributeError | ZeroDivisionError

definition dict_subscript :: "('k, 'v) pydict \<Rightarrow> 'k \<Rightarrow> py_error + 'v" where
  "dict_subscript d k = (case map_of d k of None \<Rightarrow> Inl KeyError | Some v \<Rightarrow> Inr v)"

definition and_then :: "'e + 'a \<Rightarrow> ('a \<Rightarrow> 'e + 'b) \<Rightarrow> 'e + 'b" where
  "and_then m f = (case m of Inl e \<Rightarrow> Inl e | Inr x \<Rightarrow> f x)"

definition sorted_reverse :: "'a::linorder list \<Rightarrow> 'a list" where
  "sorted_reverse xs = rev (sort xs)"

section \<open>First-match search in a table of closed ranges\<close>

fun find_range :: "(('a::linorder \<times> 'a) \<times> 'b) list \<Rightarrow> 'a \<Rightarrow> 'b option" where
  "find_range [] x = None"
| "find_range (((lo, hi), v) # rs) x =
     (if lo \<le> x \<and> x \<le> hi then Some v else find_range rs x)"

definition covers :: "('a::linorder \<times> 'a) \<times> 'b \<Rightarrow> 'a \<Rightarrow> bool" where
  "covers r x = (fst (fst r) \<le> x \<and> x \<le> snd (fst r))"

fun ranges_disjoint :: "(('a::linorder \<times> 'a) \<times> 'b) list \<Rightarrow> bool" where
  "ranges_disjoint [] = True"
| "ranges_disjoint (r # rs) =
     (list_all (\<lambda>r'. snd (fst r) < fst (fst r') \<or> snd (fst r') < fst (fst r)) rs
      \<and> ranges_disjoint rs)"

section \<open>Weighted means\<close>

definition weighted_sum :: "(num \<times> num) list \<Rightarrow> num" where
  "weighted_sum ps = (\<Sum>(s, w)\<leftarrow>ps. s * w)"

definition weight_sum :: "(num \<times> num) list \<Rightarrow> num" where
  "weight_sum ps = (\<Sum>(s, w)\<leftarrow>ps. w)"

section \<open>Decimal printing of integers\<close>

definition digit_char :: "nat \<Rightarrow> char" where
  "digit_char d = ''0123456789'' ! d"

fun string_of_nat :: "nat \<Rightarrow> string" where
  "string_of_nat n =
     (if n < 10 then [digit_char n]
      else string_of_nat (n div 10) @ [digit_char (n mod 10)])"

definition string_of_int :: "int \<Rightarrow> string" where
  "string_of_int i = (if i < 0 then CHR ''-'' # string_of_nat (nat (- i)) else string_of_nat (nat i))"

declare string_of_nat.simps [simp del]

section \<open>Facts about dictionaries\<close>

lemma dict_contains_iff: "dict_contains d k \<longleftrightarrow> k \<in> set (dict_keys d)"
  by (simp add: dict_contains_def dict_keys_def map_of_eq_None_iff)

lemma dict_contains_Nil [simp]: "\<not> dict_contains [] k"
  by (simp add: dict_contains_def)

lemma dict_contains_Cons [simp]:
  "dict_contains ((k', v) # d) k \<longleftrightarrow> k = k' \<or> dict_contains d k"
  by (auto simp: dict_contains_def)

lemma dict_get_Nil [simp]: "dict_get [] k dflt = dflt"
  by (simp add: dict_get_def)

lemma dict_get_Cons [simp]:
  "dict_get ((k', v) # d) k dflt = (if k = k' then v else dict_get d k dflt)"
  by (simp add: dict_get_def)

lemma dict_get_absent: "\<not> dict_contains d k \<Longrightarrow> dict_get d k dflt = dflt"
  by (simp add: dict_get_def dict_contains_def)

lemma dict_get_present: "map_of d k = Some v \<Longrightarrow> dict_get d k dflt = v"
  by (simp add: dict_get_def)

lemma map_of_dict_store [simp]: "map_of (dict_store d k v) = (map_of d)(k \<mapsto> v)"
  by (simp add: dict_store_def update_conv')

lemma dict_keys_store:
  "dict_keys (dict_store d k v) = (if k \<in> set (dict_keys d) then dict_keys d else dict_keys d @ [k])"
  by (simp add: dict_store_def dict_keys_def update_keys)

lemma wf_dict_store [intro]: "wf_dict d \<Longrightarrow> wf_dict (dict_store d k v)"
  by (simp add: wf_dict_def dict_store_def distinct_update)

lemma dict_store_fresh:
  "k \<notin> set (dict_keys d) \<Longrightarrow> dict_store d k v = d @ [(k, v)]"
  by (induction d) (auto simp: dict_store_def dict_keys_def)

lemma foldl_dict_store_fresh:
  "distinct (map f xs) \<Longrightarrow> set (map f xs) \<inter> set (dict_keys d) = {} \<Longrightarrow>
   foldl (\<lambda>d x. dict_store d (f x) (g x)) d xs = d @ map (\<lambda>x. (f x, g x)) xs"
proof (induction xs arbitrary: d)
  case Nil
  then show ?case by simp
next
  case (Cons x xs)
  from Cons.prems have fresh: "f x \<notin> set (dict_keys d)" by auto
  from Cons.prems have "set (map f xs) \<inter> set (dict_keys (d @ [(f x, g x)])) = {}"
    by (auto simp: dict_keys_def)
  with Cons.prems Cons.IH [of "d @ [(f x, g x)]"] fresh show ?case
    by (simp add: dict_store_fresh)
qed

lemma dict_comprehension_distinct:
  "distinct (map f xs) \<Longrightarrow> dict_comprehension f g xs = map (\<lambda>x. (f x, g x)) xs"
  using foldl_dict_store_fresh [of f xs "[]" g]
  by (simp add: dict_comprehension_def dict_keys_def)

lemma wf_dict_foldl_store:
  "wf_dict d \<Longrightarrow> wf_dict (foldl (\<lambda>d x. dict_store d (f x) (g x)) d xs)"
  by (induction xs arbitrary: d) auto

lemma dict_values_lookup:
  "wf_dict d \<Longrightarrow> map (\<lambda>k. the (map_of d k)) (dict_keys d) = map snd d"
  by (induction d) (force simp: wf_dict_def dict_keys_def)+

lemma wf_dict_Nil [simp]: "wf_dict []"
  by (simp add: wf_dict_def)

lemma wf_dict_comprehension [simp]: "wf_dict (dict_comprehension f g xs)"
  by (simp add: dict_comprehension_def wf_dict_foldl_store)

lemma set_dict_keys_foldl_store:
  "set (dict_keys (foldl (\<lambda>d x. dict_store d (f x) (g x)) d xs)) = set (dict_keys d) \<union> f ` set xs"
  by (induction xs arbitrary: d) (auto simp: dict_keys_store)

lemma dict_keys_Nil [simp]: "dict_keys [] = []"
  by (simp add: dict_keys_def)

lemma set_dict_keys_comprehension:
  "set (dict_keys (dict_comprehension f g xs)) = f ` set xs"
  by (simp add: dict_comprehension_def set_dict_keys_foldl_store)

lemma dict_subscript_Inr_iff: "dict_subscript d k = Inr v \<longleftrightarrow> map_of d k = Some v"
  by (simp add: dict_subscript_def split: option.splits)

lemma dict_subscript_key: "k \<in> set (dict_keys d) \<Longrightarrow> \<exists>v. dict_subscript d k = Inr v"
  by (cases "map_of d k") (auto simp: dict_subscript_def dict_keys_def map_of_eq_None_iff)

lemma set_sorted_reverse [simp]: "set (sorted_reverse xs) = set xs"
  by (simp add: sorted_reverse_def)

lemma sorted_sorted_reverse: "sorted (rev (sorted_reverse xs))"
  by (simp add: sorted_reverse_def)

lemma dict_get_list_all:
  "list_all (\<lambda>e. P (snd e)) d \<Longrightarrow> P dflt \<Longrightarrow> P (dict_get d k dflt)"
  by (induction d) auto

lemma dict_get_cong: "map_of d k = map_of d' k \<Longrightarrow> dict_get d k dflt = dict_get d' k dflt"
  by (simp add: dict_get_def)

lemma dict_contains_cong: "map_of d k = map_of d' k \<Longrightarrow> dict_contains d k = dict_contains d' k"
  by (simp add: dict_contains_def)

lemma dict_comprehension_cong:
  "(\<And>x. x \<in> set xs \<Longrightarrow> g x = g' x) \<Longrightarrow> dict_comprehension f g xs = dict_comprehension f g' xs"
proof -
  have "(\<And>x. x \<in> set xs \<Longrightarrow> g x = g' x) \<Longrightarrow>
        foldl (\<lambda>d x. dict_store d (f x) (g x)) d xs = foldl (\<lambda>d x. dict_store d (f x) (g' x)) d xs" for d
    by (induction xs arbitrary: d) simp_all
  then show "(\<And>x. x \<in> set xs \<Longrightarrow> g x = g' x) \<Longrightarrow> ?thesis"
    by (simp add: dict_comprehension_def)
qed

section \<open>Facts about first-match search\<close>

lemma find_range_Some_covers:
  "find_range rs x = Some v \<Longrightarrow> \<exists>r \<in> set rs. covers r x \<and> snd r = v"
  by (induction rs x rule: find_range.induct) (auto simp: covers_def split: if_splits)

lemma find_range_None_iff:
  "find_range rs x = None \<longleftrightarrow> (\<forall>r \<in> set rs. \<not> covers r x)"
  by (induction rs x rule: find_range.induct) (auto simp: covers_def)

lemma find_range_skip:
  "\<not> covers r x \<Longrightarrow> find_range (r # rs) x = find_range rs x"
  by (cases r) (auto simp: covers_def)

lemma find_range_hit:
  "covers r x \<Longrightarrow> find_range (r # rs) x = Some (snd r)"
  by (cases r) (auto simp: covers_def)

lemma ranges_disjoint_covers_unique:
  "ranges_disjoint rs \<Longrightarrow> r \<in> set rs \<Longrightarrow> r' \<in> set rs \<Longrightarrow> covers r x \<Longrightarrow> covers r' x \<Longrightarrow> r = r'"
proof (induction rs)
  case Nil
  then show ?case by simp
next
  case (Cons a rs)
  have clash: False if "q \<in> set rs" "covers a x" "covers q x" for q
    using that Cons.prems(1) by (fastforce simp: covers_def list_all_iff)
  from Cons show ?case by (auto dest: clash)
qed

lemma find_range_unique_iff:
  assumes "\<forall>r \<in> set rs. \<forall>r' \<in> set rs. covers r x \<and> covers r' x \<longrightarrow> snd r = snd r'"
  shows "find_range rs x = Some v \<longleftrightarrow> (\<exists>r \<in> set rs. covers r x \<and> snd r = v)"
proof
  assume "find_range rs x = Some v"
  then show "\<exists>r \<in> set rs. covers r x \<and> snd r = v" by (rule find_range_Some_covers)
next
  assume "\<exists>r \<in> set rs. covers r x \<and> snd r = v"
  then obtain r where r: "r \<in> set rs" "covers r x" "snd r = v" by blast
  then have "find_range rs x \<noteq> None" by (auto simp: find_range_None_iff)
  then obtain v' where v': "find_range rs x = Some v'" by blast
  then obtain r' where "r' \<in> set rs" "covers r' x" "snd r' = v'"
    by (blast dest: find_range_Some_covers)
  with r assms have "v = v'" by blast
  with v' show "find_range rs x = Some v" by simp
qed

lemma find_range_disjoint_iff:
  "ranges_disjoint rs \<Longrightarrow>
   find_range rs x = Some v \<longleftrightarrow> (\<exists>r \<in> set rs. covers r x \<and> snd r = v)"
  by (rule find_range_unique_iff) (blast dest: ranges_disjoint_covers_unique)

lemma find_range_permute:
  assumes "ranges_disjoint rs" and "mset rs' = mset rs"
  shows "find_range rs' x = find_range rs x"
proof -
  have s: "set rs' = set rs" using assms(2) by (rule mset_eq_setD)
  have u: "\<forall>r \<in> set rs'. \<forall>r' \<in> set rs'. covers r x \<and> covers r' x \<longrightarrow> snd r = snd r'"
    unfolding s using assms(1) by (blast dest: ranges_disjoint_covers_unique)
  have "find_range rs' x = Some v \<longleftrightarrow> find_range rs x = Some v" for v
    by (simp add: find_range_unique_iff [OF u] find_range_disjoint_iff [OF assms(1)] s)
  then show ?thesis by (cases "find_range rs x"; cases "find_range rs' x") auto
qed

section \<open>Facts about weighted means\<close>

lemma weighted_sum_Nil [simp]: "weighted_sum [] = 0"
  by (simp add: weighted_sum_def)

lemma weighted_sum_Cons [simp]: "weighted_sum ((s, w) # ps) = s * w + weighted_sum ps"
  by (simp add: weighted_sum_def)

lemma weight_sum_Nil [simp]: "weight_sum [] = 0"
  by (simp add: weight_sum_def)

lemma weight_sum_Cons [simp]: "weight_sum ((s, w) # ps) = w + weight_sum ps"
  by (simp add: weight_sum_def)

lemma weighted_sum_append [simp]: "weighted_sum (ps @ qs) = weighted_sum ps + weighted_sum qs"
  by (simp add: weighted_sum_def)

lemma weight_sum_append [simp]: "weight_sum (ps @ qs) = weight_sum ps + weight_sum qs"
  by (simp add: weight_sum_def)

lemma weight_sum_nonneg: "\<forall>p \<in> set ps. 0 \<le> snd p \<Longrightarrow> 0 \<le> weight_sum ps"
  by (induction ps) auto

lemma weight_sum_pos:
  assumes "ps \<noteq> []" and "\<forall>p \<in> set ps. 0 < snd p"
  shows "0 < weight_sum ps"
proof -
  from assms(1) obtain s w qs where ps: "ps = (s, w) # qs" by (cases ps) auto
  with assms(2) have "0 < w" and "0 \<le> weight_sum qs"
    by (auto intro: weight_sum_nonneg less_imp_le)
  with ps show ?thesis by (simp add: add_pos_nonneg)
qed

lemma weighted_sum_lower:
  "\<forall>p \<in> set ps. 0 \<le> snd p \<and> lo \<le> fst p \<Longrightarrow> lo * weight_sum ps \<le> weighted_sum ps"
proof (induction ps)
  case Nil
  then show ?case by simp
next
  case (Cons p ps)
  obtain s w where p: "p = (s, w)" by (cases p)
  with Cons.prems have "lo * w \<le> s * w" by (simp add: mult_right_mono)
  with Cons p show ?case by (simp add: algebra_simps)
qed

lemma weighted_sum_upper:
  "\<forall>p \<in> set ps. 0 \<le> snd p \<and> fst p \<le> hi \<Longrightarrow> weighted_sum ps \<le> hi * weight_sum ps"
proof (induction ps)
  case Nil
  then show ?case by simp
next
  case (Cons p ps)
  obtain s w where p: "p = (s, w)" by (cases p)
  with Cons.prems have "s * w \<le> hi * w" by (simp add: mult_right_mono)
  with Cons p show ?case by (simp add: algebra_simps)
qed

lemma weighted_mean_bounds:
  assumes "0 < weight_sum ps" and "\<forall>p \<in> set ps. 0 \<le> snd p \<and> lo \<le> fst p \<and> fst p \<le> hi"
  shows "lo \<le> weighted_sum ps / weight_sum ps \<and> weighted_sum ps / weight_sum ps \<le> hi"
  using assms weighted_sum_lower [of ps lo] weighted_sum_upper [of ps hi]
  by (simp add: pos_le_divide_eq pos_divide_le_eq)

section \<open>Sequencing of statements that may raise\<close>

lemma and_then_Inl [simp]: "and_then (Inl e) f = Inl e"
  by (simp add: and_then_def)

lemma and_then_Inr [simp]: "and_then (Inr x) f = f x"
  by (simp add: and_then_def)

lemma and_then_eq_Inr_iff: "and_then m f = Inr y \<longleftrightarrow> (\<exists>x. m = Inr x \<and> f x = Inr y)"
  by (cases m) simp_all

lemma and_then_eq_Inl_iff:
  "and_then m f = Inl e \<longleftrightarrow> m = Inl e \<or> (\<exists>x. m = Inr x \<and> f x = Inl e)"
  by (cases m) simp_all

lemma and_then_cong [fundef_cong]:
  "m = m' \<Longrightarrow> (\<And>x. m' = Inr x \<Longrightarrow> f x = f' x) \<Longrightarrow> and_then m f = and_then m' f'"
  by (cases m') simp_all

section \<open>Facts about decimal printing\<close>

lemma string_of_nat_digit: "n < 10 \<Longrightarrow> string_of_nat n = [digit_char n]"
  by (simp add: string_of_nat.simps)

lemma string_of_nat_step:
  "10 \<le> n \<Longrightarrow> string_of_nat n = string_of_nat (n div 10) @ [digit_char (n mod 10)]"
  by (subst string_of_nat.simps) simp

lemma length_string_of_nat_pos: "0 < length (string_of_nat n)"
  by (subst string_of_nat.simps) simp

lemma string_of_int_nonneg: "0 \<le> i \<Longrightarrow> string_of_int i = string_of_nat (nat i)"
  by (simp add: string_of_int_def)

end
