(* ===== verification/Benchmark_Tables.thy ===== *)
theory Benchmark_Tables
  imports TT_Prelude
begin

text \<open>
  The static benchmark data of \<^verbatim>\<open>src/TalentTrakker/data/benchmarks.py\<close>: the table
  \<^verbatim>\<open>PERFORMANCE_BENCHMARKS\<close>, one definition per test type, nested as in the source
  (test type, age group, gender, metric, four-tier thresholds), and the guarded triple
  subscript by which \<^verbatim>\<open>get_benchmark\<close> reads it. The lemmas show that every table
  is well formed (distinct keys at every level, thresholds ordered
  poor \<le> average \<le> good \<le> excellent) and complete (all five age groups, both
  genders in each), and that a successful lookup returns a well-formed metric table.
\<close>

section \<open>Data model\<close>

record tiers =
  excellent :: num
  good :: num
  average :: num
  poor :: num

type_synonym metric_table = "(string, tiers) pydict"
type_synonym gender_table = "(string, metric_table) pydict"
type_synonym age_table = "(string, gender_table) pydict"
type_synonym benchmark_table = "(string, age_table) pydict"

section \<open>The tables\<close>

definition vertical_jump_benchmarks :: age_table where
  [tt_data]: "vertical_jump_benchmarks =
     [(''Youth'',
       [(''Male'',
         [(''jump_height'', \<lparr>excellent = 45, good = 35, average = 25, poor = 15\<rparr>),
          (''flight_time'', \<lparr>excellent = 0.8, good = 0.6, average = 0.4, poor = 0.2\<rparr>),
          (''technique_score'', \<lparr>excellent = 90, good = 75, average = 60, poor = 40\<rparr>)]),
        (''Female'',
         [(''jump_height'', \<lparr>excellent = 40, good = 30, average = 22, poor = 12\<rparr>),
          (''flight_time'', \<lparr>excellent = 0.7, good = 0.55, average = 0.35, poor = 0.18\<rparr>),
          (''technique_score'', \<lparr>excellent = 90, good = 75, average = 60, poor = 40\<rparr>)])]),
      (''Junior'',
       [(''Male'',
         [(''jump_height'', \<lparr>excellent = 55, good = 45, average = 35, poor = 20\<rparr>),
          (''flight_time'', \<lparr>excellent = 0.9, good = 0.7, average = 0.5, poor = 0.25\<rparr>),
          (''technique_score'', \<lparr>excellent = 90, good = 75, average = 60, poor = 40\<rparr>)]),
        (''Female'',
         [(''jump_height'', \<lparr>excellent = 48, good = 38, average = 28, poor = 18\<rparr>),
          (''flight_time'', \<lparr>excellent = 0.8, good = 0.6, average = 0.4, poor = 0.22\<rparr>),
          (''technique_score'', \<lparr>excellent = 90, good = 75, average = 60, poor = 40\<rparr>)])]),
      (''Adult'',
       [(''Male'',
         [(''jump_height'', \<lparr>excellent = 60, good = 50, average = 40, poor = 25\<rparr>),
          (''flight_time'', \<lparr>excellent = 1.0, good = 0.8, average = 0.6, poor = 0.3\<rparr>),
          (''technique_score'', \<lparr>excellent = 90, good = 75, average = 60, poor = 40\<rparr>)]),
        (''Female'',
         [(''jump_height'', \<lparr>excellent = 52, good = 42, average = 32, poor = 22\<rparr>),
          (''flight_time'', \<lparr>excellent = 0.85, good = 0.65, average = 0.45, poor = 0.25\<rparr>),
          (''technique_score'', \<lparr>excellent = 90, good = 75, average = 60, poor = 40\<rparr>)])]),
      (''Senior'',
       [(''Male'',
         [(''jump_height'', \<lparr>excellent = 55, good = 45, average = 35, poor = 22\<rparr>),
          (''flight_time'', \<lparr>excellent = 0.9, good = 0.7, average = 0.5, poor = 0.28\<rparr>),
          (''technique_score'', \<lparr>excellent = 90, good = 75, average = 60, poor = 40\<rparr>)]),
        (''Female'',
         [(''jump_height'', \<lparr>excellent = 48, good = 38, average = 28, poor = 18\<rparr>),
          (''flight_time'', \<lparr>excellent = 0.8, good = 0.6, average = 0.4, poor = 0.22\<rparr>),
          (''technique_score'', \<lparr>excellent = 90, good = 75, average = 60, poor = 40\<rparr>)])]),
      (''Masters'',
       [(''Male'',
         [(''jump_height'', \<lparr>excellent = 50, good = 40, average = 30, poor = 20\<rparr>),
          (''flight_time'', \<lparr>excellent = 0.8, good = 0.6, average = 0.45, poor = 0.25\<rparr>),
          (''technique_score'', \<lparr>excellent = 90, good = 75, average = 60, poor = 40\<rparr>)]),
        (''Female'',
         [(''jump_height'', \<lparr>excellent = 42, good = 32, average = 24, poor = 16\<rparr>),
          (''flight_time'', \<lparr>excellent = 0.7, good = 0.5, average = 0.35, poor = 0.2\<rparr>),
          (''technique_score'', \<lparr>excellent = 90, good = 75, average = 60, poor = 40\<rparr>)])])]"

definition situps_benchmarks :: age_table where
  [tt_data]: "situps_benchmarks =
     [(''Youth'',
       [(''Male'',
         [(''rep_count'', \<lparr>excellent = 45, good = 35, average = 25, poor = 15\<rparr>),
          (''cadence'', \<lparr>excellent = 50, good = 40, average = 30, poor = 20\<rparr>),
          (''form_score'', \<lparr>excellent = 90, good = 75, average = 60, poor = 40\<rparr>)]),
        (''Female'',
         [(''rep_count'', \<lparr>excellent = 40, good = 30, average = 22, poor = 12\<rparr>),
          (''cadence'', \<lparr>excellent = 45, good = 35, average = 26, poor = 16\<rparr>),
          (''form_score'', \<lparr>excellent = 90, good = 75, average = 60, poor = 40\<rparr>)])]),
      (''Junior'',
       [(''Male'',
         [(''rep_count'', \<lparr>excellent = 55, good = 45, average = 35, poor = 20\<rparr>),
          (''cadence'', \<lparr>excellent = 60, good = 50, average = 40, poor = 25\<rparr>),
          (''form_score'', \<lparr>excellent = 90, good = 75, average = 60, poor = 40\<rparr>)]),
        (''Female'',
         [(''rep_count'', \<lparr>excellent = 50, good = 40, average = 30, poor = 18\<rparr>),
          (''cadence'', \<lparr>excellent = 55, good = 45, average = 35, poor = 22\<rparr>),
          (''form_score'', \<lparr>excellent = 90, good = 75, average = 60, poor = 40\<rparr>)])]),
      (''Adult'',
       [(''Male'',
         [(''rep_count'', \<lparr>excellent = 60, good = 50, average = 40, poor = 25\<rparr>),
          (''cadence'', \<lparr>excellent = 65, good = 55, average = 45, poor = 30\<rparr>),
          (''form_score'', \<lparr>excellent = 90, good = 75, average = 60, poor = 40\<rparr>)]),
        (''Female'',
         [(''rep_count'', \<lparr>excellent = 55, good = 45, average = 35, poor = 22\<rparr>),
          (''cadence'', \<lparr>excellent = 60, good = 50, average = 40, poor = 26\<rparr>),
          (''form_score'', \<lparr>excellent = 90, good = 75, average = 60, poor = 40\<rparr>)])]),
      (''Senior'',
       [(''Male'',
         [(''rep_count'', \<lparr>excellent = 55, good = 45, average = 35, poor = 22\<rparr>),
          (''cadence'', \<lparr>excellent = 60, good = 50, average = 40, poor = 28\<rparr>),
          (''form_score'', \<lparr>excellent = 90, good = 75, average = 60, poor = 40\<rparr>)]),
        (''Female'',
         [(''rep_count'', \<lparr>excellent = 48, good = 38, average = 28, poor = 18\<rparr>),
          (''cadence'', \<lparr>excellent = 55, good = 45, average = 35, poor = 24\<rparr>),
          (''form_score'', \<lparr>excellent = 90, good = 75, average = 60, poor = 40\<rparr>)])]),
      (''Masters'',
       [(''Male'',
         [(''rep_count'', \<lparr>excellent = 50, good = 40, average = 30, poor = 20\<rparr>),
          (''cadence'', \<lparr>excellent = 55, good = 45, average = 35, poor = 25\<rparr>),
          (''form_score'', \<lparr>excellent = 90, good = 75, average = 60, poor = 40\<rparr>)]),
        (''Female'',
         [(''rep_count'', \<lparr>excellent = 42, good = 32, average = 24, poor = 16\<rparr>),
          (''cadence'', \<lparr>excellent = 48, good = 38, average = 28, poor = 20\<rparr>),
          (''form_score'', \<lparr>excellent = 90, good = 75, average = 60, poor = 40\<rparr>)])])]"

definition sprint_benchmarks :: age_table where
  [tt_data]: "sprint_benchmarks =
     [(''Youth'',
       [(''Male'',
         [(''speed'', \<lparr>excellent = 12, good = 10, average = 8, poor = 6\<rparr>),
          (''acceleration'', \<lparr>excellent = 90, good = 75, average = 60, poor = 40\<rparr>),
          (''technique_score'', \<lparr>excellent = 90, good = 75, average = 60, poor = 40\<rparr>)]),
        (''Female'',
         [(''speed'', \<lparr>excellent = 10, good = 8.5, average = 7, poor = 5\<rparr>),
          (''acceleration'', \<lparr>excellent = 90, good = 75, average = 60, poor = 40\<rparr>),
          (''technique_score'', \<lparr>excellent = 90, good = 75, average = 60, poor = 40\<rparr>)])]),
      (''Junior'',
       [(''Male'',
         [(''speed'', \<lparr>excellent = 15, good = 12, average = 10, poor = 7\<rparr>),
          (''acceleration'', \<lparr>excellent = 90, good = 75, average = 60, poor = 40\<rparr>),
          (''technique_score'', \<lparr>excellent = 90, good = 75, average = 60, poor = 40\<rparr>)]),
        (''Female'',
         [(''speed'', \<lparr>excellent = 13, good = 10.5, average = 8.5, poor = 6\<rparr>),
          (''acceleration'', \<lparr>excellent = 90, good = 75, average = 60, poor = 40\<rparr>),
          (''technique_score'', \<lparr>excellent = 90, good = 75, average = 60, poor = 40\<rparr>)])]),
      (''Adult'',
       [(''Male'',
         [(''speed'', \<lparr>excellent = 18, good = 15, average = 12, poor = 8\<rparr>),
          (''acceleration'', \<lparr>excellent = 90, good = 75, average = 60, poor = 40\<rparr>),
          (''technique_score'', \<lparr>excellent = 90, good = 75, average = 60, poor = 40\<rparr>)]),
        (''Female'',
         [(''speed'', \<lparr>excellent = 15, good = 12, average = 10, poor = 7\<rparr>),
          (''acceleration'', \<lparr>excellent = 90, good = 75, average = 60, poor = 40\<rparr>),
          (''technique_score'', \<lparr>excellent = 90, good = 75, average = 60, poor = 40\<rparr>)])]),
      (''Senior'',
       [(''Male'',
         [(''speed'', \<lparr>excellent = 16, good = 13, average = 10, poor = 7\<rparr>),
          (''acceleration'', \<lparr>excellent = 90, good = 75, average = 60, poor = 40\<rparr>),
          (''technique_score'', \<lparr>excellent = 90, good = 75, average = 60, poor = 40\<rparr>)]),
        (''Female'',
         [(''speed'', \<lparr>excellent = 13, good = 10.5, average = 8.5, poor = 6\<rparr>),
          (''acceleration'', \<lparr>excellent = 90, good = 75, average = 60, poor = 40\<rparr>),
          (''technique_score'', \<lparr>excellent = 90, good = 75, average = 60, poor = 40\<rparr>)])]),
      (''Masters'',
       [(''Male'',
         [(''speed'', \<lparr>excellent = 14, good = 11, average = 9, poor = 6\<rparr>),
          (''acceleration'', \<lparr>excellent = 90, good = 75, average = 60, poor = 40\<rparr>),
          (''technique_score'', \<lparr>excellent = 90, good = 75, average = 60, poor = 40\<rparr>)]),
        (''Female'',
         [(''speed'', \<lparr>excellent = 11, good = 9, average = 7.5, poor = 5\<rparr>),
          (''acceleration'', \<lparr>excellent = 90, good = 75, average = 60, poor = 40\<rparr>),
          (''technique_score'', \<lparr>excellent = 90, good = 75, average = 60, poor = 40\<rparr>)])])]"

definition pushups_benchmarks :: age_table where
  [tt_data]: "pushups_benchmarks =
     [(''Youth'',
       [(''Male'',
         [(''rep_count'', \<lparr>excellent = 35, good = 25, average = 18, poor = 10\<rparr>),
          (''form_score'', \<lparr>excellent = 90, good = 75, average = 60, poor = 40\<rparr>),
          (''endurance'', \<lparr>excellent = 85, good = 70, average = 55, poor = 35\<rparr>)]),
        (''Female'',
         [(''rep_count'', \<lparr>excellent = 25, good = 18, average = 12, poor = 6\<rparr>),
          (''form_score'', \<lparr>excellent = 90, good = 75, average = 60, poor = 40\<rparr>),
          (''endurance'', \<lparr>excellent = 85, good = 70, average = 55, poor = 35\<rparr>)])]),
      (''Junior'',
       [(''Male'',
         [(''rep_count'', \<lparr>excellent = 45, good = 35, average = 25, poor = 15\<rparr>),
          (''form_score'', \<lparr>excellent = 90, good = 75, average = 60, poor = 40\<rparr>),
          (''endurance'', \<lparr>excellent = 85, good = 70, average = 55, poor = 35\<rparr>)]),
        (''Female'',
         [(''rep_count'', \<lparr>excellent = 30, good = 22, average = 16, poor = 8\<rparr>),
          (''form_score'', \<lparr>excellent = 90, good = 75, average = 60, poor = 40\<rparr>),
          (''endurance'', \<lparr>excellent = 85, good = 70, average = 55, poor = 35\<rparr>)])]),
      (''Adult'',
       [(''Male'',
         [(''rep_count'', \<lparr>excellent = 50, good = 40, average = 30, poor = 18\<rparr>),
          (''form_score'', \<lparr>excellent = 90, good = 75, average = 60, poor = 40\<rparr>),
          (''endurance'', \<lparr>excellent = 85, good = 70, average = 55, poor = 35\<rparr>)]),
        (''Female'',
         [(''rep_count'', \<lparr>excellent = 35, good = 25, average = 18, poor = 10\<rparr>),
          (''form_score'', \<lparr>excellent = 90, good = 75, average = 60, poor = 40\<rparr>),
          (''endurance'', \<lparr>excellent = 85, good = 70, average = 55, poor = 35\<rparr>)])]),
      (''Senior'',
       [(''Male'',
         [(''rep_count'', \<lparr>excellent = 45, good = 35, average = 25, poor = 15\<rparr>),
          (''form_score'', \<lparr>excellent = 90, good = 75, average = 60, poor = 40\<rparr>),
          (''endurance'', \<lparr>excellent = 85, good = 70, average = 55, poor = 35\<rparr>)]),
        (''Female'',
         [(''rep_count'', \<lparr>excellent = 30, good = 22, average = 16, poor = 8\<rparr>),
          (''form_score'', \<lparr>excellent = 90, good = 75, average = 60, poor = 40\<rparr>),
          (''endurance'', \<lparr>excellent = 85, good = 70, average = 55, poor = 35\<rparr>)])]),
      (''Masters'',
       [(''Male'',
         [(''rep_count'', \<lparr>excellent = 40, good = 30, average = 22, poor = 12\<rparr>),
          (''form_score'', \<lparr>excellent = 90, good = 75, average = 60, poor = 40\<rparr>),
          (''endurance'', \<lparr>excellent = 85, good = 70, average = 55, poor = 35\<rparr>)]),
        (''Female'',
         [(''rep_count'', \<lparr>excellent = 25, good = 18, average = 12, poor = 6\<rparr>),
          (''form_score'', \<lparr>excellent = 90, good = 75, average = 60, poor = 40\<rparr>),
          (''endurance'', \<lparr>excellent = 85, good = 70, average = 55, poor = 35\<rparr>)])])]"

definition flexibility_benchmarks :: age_table where
  [tt_data]: "flexibility_benchmarks =
     [(''Youth'',
       [(''Male'',
         [(''reach_distance'', \<lparr>excellent = 15, good = 10, average = 5, poor = 0\<rparr>),
          (''stability'', \<lparr>excellent = 95, good = 85, average = 70, poor = 50\<rparr>),
          (''technique_score'', \<lparr>excellent = 90, good = 75, average = 60, poor = 40\<rparr>)]),
        (''Female'',
         [(''reach_distance'', \<lparr>excellent = 18, good = 13, average = 8, poor = 2\<rparr>),
          (''stability'', \<lparr>excellent = 95, good = 85, average = 70, poor = 50\<rparr>),
          (''technique_score'', \<lparr>excellent = 90, good = 75, average = 60, poor = 40\<rparr>)])]),
      (''Junior'',
       [(''Male'',
         [(''reach_distance'', \<lparr>excellent = 18, good = 13, average = 8, poor = 2\<rparr>),
          (''stability'', \<lparr>excellent = 95, good = 85, average = 70, poor = 50\<rparr>),
          (''technique_score'', \<lparr>excellent = 90, good = 75, average = 60, poor = 40\<rparr>)]),
        (''Female'',
         [(''reach_distance'', \<lparr>excellent = 22, good = 17, average = 12, poor = 5\<rparr>),
          (''stability'', \<lparr>excellent = 95, good = 85, average = 70, poor = 50\<rparr>),
          (''technique_score'', \<lparr>excellent = 90, good = 75, average = 60, poor = 40\<rparr>)])]),
      (''Adult'',
       [(''Male'',
         [(''reach_distance'', \<lparr>excellent = 20, good = 15, average = 10, poor = 3\<rparr>),
          (''stability'', \<lparr>excellent = 95, good = 85, average = 70, poor = 50\<rparr>),
          (''technique_score'', \<lparr>excellent = 90, good = 75, average = 60, poor = 40\<rparr>)]),
        (''Female'',
         [(''reach_distance'', \<lparr>excellent = 25, good = 20, average = 15, poor = 8\<rparr>),
          (''stability'', \<lparr>excellent = 95, good = 85, average = 70, poor = 50\<rparr>),
          (''technique_score'', \<lparr>excellent = 90, good = 75, average = 60, poor = 40\<rparr>)])]),
      (''Senior'',
       [(''Male'',
         [(''reach_distance'', \<lparr>excellent = 18, good = 13, average = 8, poor = 2\<rparr>),
          (''stability'', \<lparr>excellent = 95, good = 85, average = 70, poor = 50\<rparr>),
          (''technique_score'', \<lparr>excellent = 90, good = 75, average = 60, poor = 40\<rparr>)]),
        (''Female'',
         [(''reach_distance'', \<lparr>excellent = 22, good = 17, average = 12, poor = 5\<rparr>),
          (''stability'', \<lparr>excellent = 95, good = 85, average = 70, poor = 50\<rparr>),
          (''technique_score'', \<lparr>excellent = 90, good = 75, average = 60, poor = 40\<rparr>)])]),
      (''Masters'',
       [(''Male'',
         [(''reach_distance'', \<lparr>excellent = 15, good = 10, average = 5, poor = 0\<rparr>),
          (''stability'', \<lparr>excellent = 95, good = 85, average = 70, poor = 50\<rparr>),
          (''technique_score'', \<lparr>excellent = 90, good = 75, average = 60, poor = 40\<rparr>)]),
        (''Female'',
         [(''reach_distance'', \<lparr>excellent = 18, good = 13, average = 8, poor = 2\<rparr>),
          (''stability'', \<lparr>excellent = 95, good = 85, average = 70, poor = 50\<rparr>),
          (''technique_score'', \<lparr>excellent = 90, good = 75, average = 60, poor = 40\<rparr>)])])]"

definition PERFORMANCE_BENCHMARKS :: benchmark_table where
  [tt_data]: "PERFORMANCE_BENCHMARKS =
     [(''Vertical Jump'', vertical_jump_benchmarks),
      (''Sit-ups (1 minute)'', situps_benchmarks),
      (''50m Sprint'', sprint_benchmarks),
      (''Push-ups'', pushups_benchmarks),
      (''Flexibility Test'', flexibility_benchmarks)]"

section \<open>Lookup\<close>

definition benchmark_lookup ::
  "benchmark_table \<Rightarrow> string \<Rightarrow> string \<Rightarrow> string \<Rightarrow> metric_table option" where
  "benchmark_lookup tbl test_type age_group gender =
     (case map_of tbl test_type of
        None \<Rightarrow> None
      | Some by_age \<Rightarrow>
          (case map_of by_age age_group of
             None \<Rightarrow> None
           | Some by_gender \<Rightarrow> map_of by_gender gender))"

section \<open>Well-formedness\<close>

definition wf_tiers :: "tiers \<Rightarrow> bool" where
  "wf_tiers t = (poor t \<le> average t \<and> average t \<le> good t \<and> good t \<le> excellent t)"

definition wf_metric_table :: "metric_table \<Rightarrow> bool" where
  "wf_metric_table m = (wf_dict m \<and> m \<noteq> [] \<and> list_all (\<lambda>e. wf_tiers (snd e)) m)"

definition wf_gender_table :: "gender_table \<Rightarrow> bool" where
  "wf_gender_table g = (wf_dict g \<and> list_all (\<lambda>e. wf_metric_table (snd e)) g)"

definition wf_age_table :: "age_table \<Rightarrow> bool" where
  "wf_age_table a = (wf_dict a \<and> list_all (\<lambda>e. wf_gender_table (snd e)) a)"

definition wf_benchmarks :: "benchmark_table \<Rightarrow> bool" where
  "wf_benchmarks b = (wf_dict b \<and> list_all (\<lambda>e. wf_age_table (snd e)) b)"

definition complete_age_table :: "age_table \<Rightarrow> bool" where
  "complete_age_table a =
     (dict_keys a = [''Youth'', ''Junior'', ''Adult'', ''Senior'', ''Masters'']
      \<and> list_all (\<lambda>e. dict_keys (snd e) = [''Male'', ''Female'']) a)"

definition complete_benchmarks :: "benchmark_table \<Rightarrow> bool" where
  "complete_benchmarks b = list_all (\<lambda>e. complete_age_table (snd e)) b"

lemmas wf_table_defs =
  wf_tiers_def wf_metric_table_def wf_gender_table_def wf_age_table_def wf_dict_def

section \<open>Generic facts about lookups in well-formed tables\<close>

lemma map_of_list_all:
  "map_of d k = Some v \<Longrightarrow> list_all (\<lambda>e. P (snd e)) d \<Longrightarrow> P v"
  by (fastforce simp: list_all_iff dest: map_of_SomeD)

lemma benchmark_lookup_Some_iff:
  "benchmark_lookup tbl t a g = Some m \<longleftrightarrow>
   (\<exists>by_age by_gender. map_of tbl t = Some by_age \<and> map_of by_age a = Some by_gender
      \<and> map_of by_gender g = Some m)"
  by (auto simp: benchmark_lookup_def split: option.splits)

lemma benchmark_lookup_wf:
  assumes "wf_benchmarks tbl" and "benchmark_lookup tbl t a g = Some m"
  shows "wf_metric_table m"
proof -
  from assms(2) obtain by_age by_gender where
    l: "map_of tbl t = Some by_age" "map_of by_age a = Some by_gender" "map_of by_gender g = Some m"
    by (auto simp: benchmark_lookup_Some_iff)
  from assms(1) l(1) have "wf_age_table by_age"
    by (auto simp: wf_benchmarks_def intro: map_of_list_all)
  with l(2) have "wf_gender_table by_gender"
    by (auto simp: wf_age_table_def intro: map_of_list_all)
  with l(3) show ?thesis
    by (auto simp: wf_gender_table_def intro: map_of_list_all)
qed

lemma map_of_keys_Some:
  "k \<in> set (dict_keys d) \<Longrightarrow> \<exists>v. map_of d k = Some v \<and> (k, v) \<in> set d"
  by (induction d) (auto simp: dict_keys_def)

lemma benchmark_lookup_complete:
  assumes "complete_benchmarks tbl" and "dict_contains tbl t"
    and "a \<in> set [''Youth'', ''Junior'', ''Adult'', ''Senior'', ''Masters'']"
    and "g \<in> set [''Male'', ''Female'']"
  shows "\<exists>m. benchmark_lookup tbl t a g = Some m"
proof -
  from assms(2) obtain by_age where t: "map_of tbl t = Some by_age"
    by (auto simp: dict_contains_def)
  with assms(1) have c: "complete_age_table by_age"
    by (auto simp: complete_benchmarks_def intro: map_of_list_all)
  with assms(3) have "a \<in> set (dict_keys by_age)" by (simp add: complete_age_table_def)
  then obtain by_gender where a: "map_of by_age a = Some by_gender"
    by (blast dest: map_of_keys_Some)
  with c have "dict_keys by_gender = [''Male'', ''Female'']"
    by (auto simp: complete_age_table_def dest: map_of_list_all [where P = "\<lambda>x. dict_keys x = [''Male'', ''Female'']"])
  with assms(4) have "g \<in> set (dict_keys by_gender)" by simp
  then obtain m where "map_of by_gender g = Some m" by (blast dest: map_of_keys_Some)
  with t a show ?thesis by (simp add: benchmark_lookup_def)
qed

lemma benchmark_lookup_gender:
  assumes "complete_benchmarks tbl" and "benchmark_lookup tbl t a g = Some m"
  shows "g \<in> set [''Male'', ''Female'']"
proof -
  from assms(2) obtain by_age by_gender where
    l: "map_of tbl t = Some by_age" "map_of by_age a = Some by_gender" "map_of by_gender g = Some m"
    by (auto simp: benchmark_lookup_Some_iff)
  from assms(1) l(1) have "complete_age_table by_age"
    by (auto simp: complete_benchmarks_def intro: map_of_list_all)
  with l(2) have "dict_keys by_gender = [''Male'', ''Female'']"
    by (auto simp: complete_age_table_def dest: map_of_list_all [where P = "\<lambda>x. dict_keys x = [''Male'', ''Female'']"])
  moreover from l(3) have "g \<in> set (dict_keys by_gender)"
    by (auto simp: dict_keys_def dest: map_of_SomeD intro: rev_image_eqI)
  ultimately show ?thesis by simp
qed

section \<open>The source tables are well formed and complete\<close>

lemma wf_vertical_jump: "wf_age_table vertical_jump_benchmarks"
  by (simp add: vertical_jump_benchmarks_def wf_table_defs)

lemma wf_situps: "wf_age_table situps_benchmarks"
  by (simp add: situps_benchmarks_def wf_table_defs)

lemma wf_sprint: "wf_age_table sprint_benchmarks"
  by (simp add: sprint_benchmarks_def wf_table_defs)

lemma wf_pushups: "wf_age_table pushups_benchmarks"
  by (simp add: pushups_benchmarks_def wf_table_defs)

lemma wf_flexibility: "wf_age_table flexibility_benchmarks"
  by (simp add: flexibility_benchmarks_def wf_table_defs)

lemmas wf_test_tables = wf_vertical_jump wf_situps wf_sprint wf_pushups wf_flexibility

lemma wf_PERFORMANCE_BENCHMARKS: "wf_benchmarks PERFORMANCE_BENCHMARKS"
  by (simp add: wf_benchmarks_def PERFORMANCE_BENCHMARKS_def wf_test_tables wf_dict_def)

lemma complete_PERFORMANCE_BENCHMARKS: "complete_benchmarks PERFORMANCE_BENCHMARKS"
  by (simp add: complete_benchmarks_def complete_age_table_def dict_keys_def tt_data)

lemma dict_keys_PERFORMANCE_BENCHMARKS:
  "dict_keys PERFORMANCE_BENCHMARKS =
   [''Vertical Jump'', ''Sit-ups (1 minute)'', ''50m Sprint'', ''Push-ups'', ''Flexibility Test'']"
  by (simp add: PERFORMANCE_BENCHMARKS_def dict_keys_def)

end
