(* ===== verification/Benchmark_Repository.thy ===== *)
theory Benchmark_Repository
  imports Benchmark_Tables
begin

text \<open>
  The benchmark repository of \<^verbatim>\<open>src/TalentTrakker/data/benchmarks.py\<close>: the tables
  \<^verbatim>\<open>AGE_GROUPS\<close> and \<^verbatim>\<open>GENDER_FACTORS\<close> and the function \<^verbatim>\<open>get_benchmark\<close>.

  \<^item> \<open>age_group_scan\<close> is the \<^verbatim>\<open>for\<close> loop of \<^verbatim>\<open>get_benchmark\<close> over the items of
    \<^verbatim>\<open>AGE_GROUPS\<close>, with the \<^verbatim>\<open>break\<close> at the first range that contains the age;
    \<open>age_group_of\<close> runs it from the default \<^verbatim>\<open>"Adult"\<close>.
  \<^item> \<open>get_benchmark\<close> is the whole function. Its result is a Python dict of one of
    two shapes, which the datatype \<open>benchmark\<close> keeps apart: the metric table of
    the triple, or the flat default thresholds.
  \<^item> \<open>resolveAgeGroup\<close> over the datatype \<open>age_group\<close> is the abstract
    specification of the age classification, which the loop is shown to refine.
\<close>

section \<open>Data\<close>

definition AGE_GROUPS :: "(int \<times> int, string) pydict" where
  [tt_data]: "AGE_GROUPS =
     [((12, 15), ''Youth''),
      ((16, 19), ''Junior''),
      ((20, 25), ''Adult''),
      ((26, 30), ''Senior''),
      ((31, 40), ''Masters'')]"

definition GENDER_FACTORS :: "(string, num) pydict" where
  [tt_data]: "GENDER_FACTORS =
     [(''Male'', 1.0),
      (''Female'', 0.9),
      (''Other'', 0.95)]"

definition default_benchmark :: tiers where
  "default_benchmark = \<lparr>excellent = 90, good = 75, average = 60, poor = 40\<rparr>"

datatype benchmark = MetricBenchmarks metric_table | DefaultBenchmark tiers

section \<open>Operations\<close>

fun age_group_scan :: "(int \<times> int, string) pydict \<Rightarrow> int \<Rightarrow> string \<Rightarrow> string" where
  "age_group_scan [] age age_group = age_group"
| "age_group_scan (((min_age, max_age), group_name) # rest) age age_group =
     (if min_age \<le> age \<and> age \<le> max_age then group_name
      else age_group_scan rest age age_group)"

definition age_group_of :: "int \<Rightarrow> string" where
  "age_group_of age = age_group_scan AGE_GROUPS age ''Adult''"

definition get_benchmark :: "string \<Rightarrow> int \<Rightarrow> string \<Rightarrow> benchmark" where
  "get_benchmark test_type age gender =
     (let age_group = age_group_of age in
      case benchmark_lookup PERFORMANCE_BENCHMARKS test_type age_group gender of
        Some metrics \<Rightarrow> MetricBenchmarks metrics
      | None \<Rightarrow> DefaultBenchmark default_benchmark)"

section \<open>Abstract specification\<close>

datatype age_group = Youth | Junior | Adult | Senior | Masters

fun age_group_name :: "age_group \<Rightarrow> string" where
  "age_group_name Youth = ''Youth''"
| "age_group_name Junior = ''Junior''"
| "age_group_name Adult = ''Adult''"
| "age_group_name Senior = ''Senior''"
| "age_group_name Masters = ''Masters''"

definition resolveAgeGroup :: "int \<Rightarrow> age_group" where
  "resolveAgeGroup a =
     (if 12 \<le> a \<and> a \<le> 15 then Youth
      else if 16 \<le> a \<and> a \<le> 19 then Junior
      else if 20 \<le> a \<and> a \<le> 25 then Adult
      else if 26 \<le> a \<and> a \<le> 30 then Senior
      else if 31 \<le> a \<and> a \<le> 40 then Masters
      else Adult)"

fun wf_benchmark :: "benchmark \<Rightarrow> bool" where
  "wf_benchmark (MetricBenchmarks m) = wf_metric_table m"
| "wf_benchmark (DefaultBenchmark t) = wf_tiers t"

definition age_group_names :: "string list" where
  "age_group_names = [''Youth'', ''Junior'', ''Adult'', ''Senior'', ''Masters'']"

section \<open>The age-group scan\<close>

lemma age_group_scan_find_range:
  "age_group_scan rs age d = (case find_range rs age of None \<Rightarrow> d | Some g \<Rightarrow> g)"
  by (induction rs age d rule: age_group_scan.induct) auto

lemma ranges_disjoint_AGE_GROUPS: "ranges_disjoint AGE_GROUPS"
  by (simp add: AGE_GROUPS_def)

lemma covers_AGE_GROUPS: "(\<exists>r \<in> set AGE_GROUPS. covers r a) \<longleftrightarrow> 12 \<le> a \<and> a \<le> 40"
  by (auto simp: AGE_GROUPS_def covers_def)

lemma age_group_name_in_names: "age_group_name g \<in> set age_group_names"
  by (cases g) (simp_all add: age_group_names_def)

lemma age_group_of_cases:
  "age_group_of a =
     (if 12 \<le> a \<and> a \<le> 15 then ''Youth''
      else if 16 \<le> a \<and> a \<le> 19 then ''Junior''
      else if 20 \<le> a \<and> a \<le> 25 then ''Adult''
      else if 26 \<le> a \<and> a \<le> 30 then ''Senior''
      else if 31 \<le> a \<and> a \<le> 40 then ''Masters''
      else ''Adult'')"
  by (simp add: age_group_of_def AGE_GROUPS_def)

lemma age_group_of_in_names: "age_group_of a \<in> set age_group_names"
  by (simp add: age_group_of_cases age_group_names_def)

lemma age_group_of_outside: "a < 12 \<or> 40 < a \<Longrightarrow> age_group_of a = ''Adult''"
  by (auto simp: age_group_of_cases)

text \<open>
  C8 (refinement). The loop of \<^verbatim>\<open>get_benchmark\<close> over \<^verbatim>\<open>AGE_GROUPS\<close> implements the
  specified age classification for every integer age: Youth on [12,15], Junior on
  [16,19], Adult on [20,25], Senior on [26,30], Masters on [31,40], and the default
  Adult for every other age, negative and large ages included.
\<close>

theorem age_group_of_spec: "age_group_of a = age_group_name (resolveAgeGroup a)"
  by (simp add: age_group_of_cases resolveAgeGroup_def)

text \<open>
  C30 (equivalence). The ranges of \<^verbatim>\<open>AGE_GROUPS\<close> are pairwise disjoint, so the
  first-match scan does not depend on the iteration order of the dict: scanning any
  reordering of the table gives the same group for every age and default.
\<close>

theorem age_group_order_irrelevant:
  "mset rs = mset AGE_GROUPS \<Longrightarrow> age_group_scan rs age d = age_group_scan AGE_GROUPS age d"
  by (simp add: age_group_scan_find_range
      find_range_permute [OF ranges_disjoint_AGE_GROUPS, of rs age])

theorem age_group_order_irrelevant_witness:
  "mset (rev AGE_GROUPS) = mset AGE_GROUPS
   \<and> age_group_scan (rev AGE_GROUPS) 17 ''Adult'' = ''Junior''"
proof -
  have m: "mset (rev AGE_GROUPS) = mset AGE_GROUPS" by simp
  have "age_group_scan AGE_GROUPS 17 ''Adult'' = ''Junior''" by (simp add: AGE_GROUPS_def)
  with m age_group_order_irrelevant [OF m, of 17 "''Adult''"] show ?thesis by simp
qed

section \<open>The lookup\<close>

lemma get_benchmark_cases:
  "get_benchmark t a g =
     (case benchmark_lookup PERFORMANCE_BENCHMARKS t (age_group_of a) g of
        Some m \<Rightarrow> MetricBenchmarks m | None \<Rightarrow> DefaultBenchmark default_benchmark)"
  by (simp add: get_benchmark_def)

lemma wf_default_benchmark: "wf_tiers default_benchmark"
  by (simp add: default_benchmark_def wf_tiers_def)

lemma benchmark_lookup_absent:
  assumes "\<not> dict_contains PERFORMANCE_BENCHMARKS t \<or> g \<notin> set [''Male'', ''Female'']"
  shows "benchmark_lookup PERFORMANCE_BENCHMARKS t ag g = None"
proof (cases "benchmark_lookup PERFORMANCE_BENCHMARKS t ag g")
  case None
  then show ?thesis .
next
  case (Some m)
  then have "g \<in> set [''Male'', ''Female'']"
    by (rule benchmark_lookup_gender [OF complete_PERFORMANCE_BENCHMARKS])
  moreover from Some have "dict_contains PERFORMANCE_BENCHMARKS t"
    by (auto simp: benchmark_lookup_Some_iff dict_contains_def)
  ultimately show ?thesis using assms by blast
qed

text \<open>
  C5 (functional). For a test type of \<^verbatim>\<open>PERFORMANCE_BENCHMARKS\<close> and the gender
  \<^verbatim>\<open>Male\<close> or \<^verbatim>\<open>Female\<close>, \<^verbatim>\<open>get_benchmark\<close> returns, for every age, the metric
  table stored under the test type, the age group of the age and the gender; the
  age-group membership test of the source never fails for such inputs.
\<close>

theorem get_benchmark_found:
  assumes "dict_contains PERFORMANCE_BENCHMARKS t" and "g \<in> set [''Male'', ''Female'']"
  shows "\<exists>m. get_benchmark t a g = MetricBenchmarks m
            \<and> benchmark_lookup PERFORMANCE_BENCHMARKS t (age_group_of a) g = Some m"
proof -
  have "age_group_of a \<in> set [''Youth'', ''Junior'', ''Adult'', ''Senior'', ''Masters'']"
    using age_group_of_in_names [of a] by (simp add: age_group_names_def)
  with assms obtain m where
    "benchmark_lookup PERFORMANCE_BENCHMARKS t (age_group_of a) g = Some m"
    using benchmark_lookup_complete [OF complete_PERFORMANCE_BENCHMARKS] by blast
  then show ?thesis by (simp add: get_benchmark_cases)
qed

theorem get_benchmark_found_witness:
  "dict_contains PERFORMANCE_BENCHMARKS ''Vertical Jump''
   \<and> ''Male'' \<in> set [''Male'', ''Female'']
   \<and> (\<exists>m. get_benchmark ''Vertical Jump'' 20 ''Male'' = MetricBenchmarks m
        \<and> map_of m ''jump_height''
            = Some \<lparr>excellent = 60, good = 50, average = 40, poor = 25\<rparr>)"
proof -
  have t: "dict_contains PERFORMANCE_BENCHMARKS ''Vertical Jump''"
    by (simp add: PERFORMANCE_BENCHMARKS_def)
  have g: "''Male'' \<in> set [''Male'', ''Female'']" by simp
  from get_benchmark_found [OF t g, of 20] obtain m where
    m: "get_benchmark ''Vertical Jump'' 20 ''Male'' = MetricBenchmarks m"
    and l: "benchmark_lookup PERFORMANCE_BENCHMARKS ''Vertical Jump'' (age_group_of 20) ''Male'' = Some m"
    by blast
  from l have "map_of m ''jump_height'' = Some \<lparr>excellent = 60, good = 50, average = 40, poor = 25\<rparr>"
    by (auto simp: benchmark_lookup_def age_group_of_cases
        PERFORMANCE_BENCHMARKS_def vertical_jump_benchmarks_def)
  with t g m show ?thesis by blast
qed

text \<open>
  C7 (error). Every other input falls back silently: for a test type that is not a key
  of \<^verbatim>\<open>PERFORMANCE_BENCHMARKS\<close>, or a gender other than \<^verbatim>\<open>Male\<close> and \<^verbatim>\<open>Female\<close>,
  \<^verbatim>\<open>get_benchmark\<close> returns the flat default thresholds 90/75/60/40, whatever the
  age. No input raises.
\<close>

theorem get_benchmark_default:
  assumes "\<not> dict_contains PERFORMANCE_BENCHMARKS t \<or> g \<notin> set [''Male'', ''Female'']"
  shows "get_benchmark t a g = DefaultBenchmark default_benchmark"
  using assms by (simp add: get_benchmark_cases benchmark_lookup_absent)

theorem get_benchmark_default_witness:
  "get_benchmark ''Unknown Test'' 20 ''Male''
     = DefaultBenchmark \<lparr>excellent = 90, good = 75, average = 60, poor = 40\<rparr>"
proof -
  have "\<not> dict_contains PERFORMANCE_BENCHMARKS ''Unknown Test'' \<or> ''Male'' \<notin> set [''Male'', ''Female'']"
    by (simp add: PERFORMANCE_BENCHMARKS_def)
  from get_benchmark_default [OF this, of 20] show ?thesis
    by (simp add: default_benchmark_def)
qed

text \<open>
  C19 (invariant). Whatever the arguments, the result of \<^verbatim>\<open>get_benchmark\<close> is well
  formed: a non-empty metric table with distinct metric names whose thresholds are
  ordered poor \<le> average \<le> good \<le> excellent, or default thresholds ordered the
  same way.
\<close>

theorem get_benchmark_wf: "wf_benchmark (get_benchmark t a g)"
  by (auto simp: get_benchmark_cases wf_default_benchmark split: option.splits
      intro: benchmark_lookup_wf [OF wf_PERFORMANCE_BENCHMARKS])

lemma get_benchmark_same_group:
  "age_group_of a = age_group_of a' \<Longrightarrow> get_benchmark t a g = get_benchmark t a' g"
  by (simp add: get_benchmark_cases)

end
