(* ===== verification/Sport_Scorer.thy ===== *)
theory Sport_Scorer
  imports TT_Prelude
begin

text \<open>
  The sport scorer of \<^verbatim>\<open>src/TalentTrakker/data/benchmarks.py\<close>: the table
  \<^verbatim>\<open>SPORT_SPECIFIC_BENCHMARKS\<close> and the function \<^verbatim>\<open>get_sport_specific_assessment\<close>.

  \<^item> \<open>score_loop\<close> is the \<^verbatim>\<open>for\<close> loop over the critical tests with its two
    accumulators; \<open>talent_of\<close> is the \<^verbatim>\<open>if\<close>/\<^verbatim>\<open>elif\<close> chain that picks the talent
    level and the recommendation; \<open>assess_sport\<close> is the body of the function for a
    recognised sport and \<open>get_sport_specific_assessment\<close> the whole function, with
    the sentinel result \<open>unknown_sport\<close> for an unrecognised one.
  \<^item> The reference for the loop is the weighted mean \<open>weighted_mean\<close> of
    \<open>scored_pairs\<close>, the (score, weight) pairs of the critical tests that have a
    score. The abstract tier is the ordered datatype \<open>talent_tier\<close> with
    \<open>classify_tier\<close>.
  \<^item> The arithmetic of this theory is exact: \<^verbatim>\<open>+\<close>, \<^verbatim>\<open>*\<close> and \<^verbatim>\<open>/\<close> are the
    operations of the rationals, and \<open>x / 0\<close> is 0. This is the function that the
    specification describes, a weighted mean. Theory \<open>Sport_Scorer_F64\<close> holds the
    function in the double precision arithmetic of Python and relates the two.
  \<^item> \<open>wf_sport_config\<close> is the invariant of a sport profile: at least one critical
    test, no test twice, a positive weight for exactly the critical tests, and
    thresholds with 60 \<le> talent \<le> elite \<le> 100.
\<close>

section \<open>Data model\<close>

record sport_config =
  critical_tests :: "string list"
  weight_factors :: "(string, num) pydict"
  elite_threshold :: num
  talent_threshold :: num

record assessment =
  sport_score :: num
  talent_level :: string
  recommendation :: string
  critical_tests_performance :: "(string, num) pydict option"

definition SPORT_SPECIFIC_BENCHMARKS :: "(string, sport_config) pydict" where
  [tt_data]: "SPORT_SPECIFIC_BENCHMARKS =
     [(''Athletics'',
       \<lparr>critical_tests = [''Vertical Jump'', ''50m Sprint''],
        weight_factors = [(''Vertical Jump'', 0.4), (''50m Sprint'', 0.6)],
        elite_threshold = 85,
        talent_threshold = 75\<rparr>),
      (''Football'',
       \<lparr>critical_tests = [''50m Sprint'', ''Push-ups''],
        weight_factors = [(''50m Sprint'', 0.5), (''Push-ups'', 0.5)],
        elite_threshold = 80,
        talent_threshold = 70\<rparr>),
      (''Swimming'',
       \<lparr>critical_tests = [''Push-ups'', ''Flexibility Test''],
        weight_factors = [(''Push-ups'', 0.6), (''Flexibility Test'', 0.4)],
        elite_threshold = 82,
        talent_threshold = 72\<rparr>),
      (''Wrestling'',
       \<lparr>critical_tests = [''Sit-ups (1 minute)'', ''Push-ups''],
        weight_factors = [(''Sit-ups (1 minute)'', 0.5), (''Push-ups'', 0.5)],
        elite_threshold = 83,
        talent_threshold = 73\<rparr>),
      (''Basketball'',
       \<lparr>critical_tests = [''Vertical Jump'', ''50m Sprint''],
        weight_factors = [(''Vertical Jump'', 0.7), (''50m Sprint'', 0.3)],
        elite_threshold = 84,
        talent_threshold = 74\<rparr>),
      (''Boxing'',
       \<lparr>critical_tests = [''Push-ups'', ''Sit-ups (1 minute)''],
        weight_factors = [(''Push-ups'', 0.5), (''Sit-ups (1 minute)'', 0.5)],
        elite_threshold = 81,
        talent_threshold = 71\<rparr>)]"

section \<open>Operations\<close>

fun score_loop ::
  "string list \<Rightarrow> (string, num) pydict \<Rightarrow> (string, num) pydict \<Rightarrow> num \<times> num \<Rightarrow> num \<times> num" where
  "score_loop [] test_scores weights acc = acc"
| "score_loop (test # rest) test_scores weights (weighted_score, total_weight) =
     (case map_of test_scores test of
        None \<Rightarrow> score_loop rest test_scores weights (weighted_score, total_weight)
      | Some score \<Rightarrow>
          (let weight = dict_get weights test 1.0
           in score_loop rest test_scores weights
                (weighted_score + score * weight, total_weight + weight)))"

definition talent_of :: "string \<Rightarrow> sport_config \<Rightarrow> num \<Rightarrow> string \<times> string" where
  "talent_of sport config score =
     (if score \<ge> elite_threshold config then
        (''Elite Potential'',
         ''Exceptional talent for '' @ sport @ ''. Recommend immediate advanced training program.'')
      else if score \<ge> talent_threshold config then
        (''High Potential'',
         ''Strong potential for '' @ sport @ ''. Recommend specialized training and development.'')
      else if score \<ge> 60 then
        (''Moderate Potential'',
         ''Shows promise for '' @ sport @ ''. Focus on specific skill development.'')
      else
        (''Developing'',
         ''Continue training fundamentals. Consider other sports that match strengths.''))"

definition assess_sport :: "string \<Rightarrow> sport_config \<Rightarrow> (string, num) pydict \<Rightarrow> assessment" where
  "assess_sport sport config test_scores =
     (let (weighted_score, total_weight) =
            score_loop (critical_tests config) test_scores (weight_factors config) (0, 0);
          score = (if total_weight > 0 then weighted_score / total_weight else 0);
          (level, advice) = talent_of sport config score
      in \<lparr>sport_score = score,
          talent_level = level,
          recommendation = advice,
          critical_tests_performance =
            Some (dict_comprehension (\<lambda>test. test) (\<lambda>test. dict_get test_scores test 0)
                    (critical_tests config))\<rparr>)"

definition unknown_sport :: assessment where
  "unknown_sport =
     \<lparr>sport_score = 0,
      talent_level = ''Unknown'',
      recommendation = ''Sport-specific benchmarks not available'',
      critical_tests_performance = None\<rparr>"

definition get_sport_specific_assessment :: "string \<Rightarrow> (string, num) pydict \<Rightarrow> assessment" where
  "get_sport_specific_assessment sport test_scores =
     (case map_of SPORT_SPECIFIC_BENCHMARKS sport of
        None \<Rightarrow> unknown_sport
      | Some config \<Rightarrow> assess_sport sport config test_scores)"

section \<open>Reference definitions and invariant\<close>

definition scored_pairs ::
  "string list \<Rightarrow> (string, num) pydict \<Rightarrow> (string, num) pydict \<Rightarrow> (num \<times> num) list" where
  "scored_pairs tests test_scores weights =
     map (\<lambda>t. (dict_get test_scores t 0, dict_get weights t 1))
       (filter (dict_contains test_scores) tests)"

definition weighted_mean :: "(num \<times> num) list \<Rightarrow> num" where
  "weighted_mean ps = (if weight_sum ps > 0 then weighted_sum ps / weight_sum ps else 0)"

datatype talent_tier = Developing | ModeratePotential | HighPotential | ElitePotential

fun tier_rank :: "talent_tier \<Rightarrow> nat" where
  "tier_rank Developing = 0"
| "tier_rank ModeratePotential = 1"
| "tier_rank HighPotential = 2"
| "tier_rank ElitePotential = 3"

instantiation talent_tier :: linorder
begin

definition less_eq_talent_tier :: "talent_tier \<Rightarrow> talent_tier \<Rightarrow> bool" where
  "less_eq_talent_tier a b = (tier_rank a \<le> tier_rank b)"

definition less_talent_tier :: "talent_tier \<Rightarrow> talent_tier \<Rightarrow> bool" where
  "less_talent_tier a b = (tier_rank a < tier_rank b)"

instance
proof
  fix x y :: talent_tier
  show "x \<le> y \<Longrightarrow> y \<le> x \<Longrightarrow> x = y"
    by (cases x; cases y) (simp_all add: less_eq_talent_tier_def)
qed (auto simp: less_eq_talent_tier_def less_talent_tier_def)

end

fun tier_name :: "talent_tier \<Rightarrow> string" where
  "tier_name Developing = ''Developing''"
| "tier_name ModeratePotential = ''Moderate Potential''"
| "tier_name HighPotential = ''High Potential''"
| "tier_name ElitePotential = ''Elite Potential''"

definition tier_of_name :: "string \<Rightarrow> talent_tier option" where
  "tier_of_name n =
     (if n = ''Developing'' then Some Developing
      else if n = ''Moderate Potential'' then Some ModeratePotential
      else if n = ''High Potential'' then Some HighPotential
      else if n = ''Elite Potential'' then Some ElitePotential
      else None)"

definition classify_tier :: "sport_config \<Rightarrow> num \<Rightarrow> talent_tier" where
  "classify_tier config score =
     (if score \<ge> elite_threshold config then ElitePotential
      else if score \<ge> talent_threshold config then HighPotential
      else if score \<ge> 60 then ModeratePotential
      else Developing)"

definition wf_sport_config :: "sport_config \<Rightarrow> bool" where
  "wf_sport_config c =
     (critical_tests c \<noteq> [] \<and> distinct (critical_tests c)
      \<and> wf_dict (weight_factors c)
      \<and> set (dict_keys (weight_factors c)) = set (critical_tests c)
      \<and> list_all (\<lambda>e. 0 < snd e) (weight_factors c)
      \<and> 60 \<le> talent_threshold c \<and> talent_threshold c \<le> elite_threshold c
      \<and> elite_threshold c \<le> 100)"

definition wf_sport_table :: "(string, sport_config) pydict \<Rightarrow> bool" where
  "wf_sport_table tbl = (wf_dict tbl \<and> list_all (\<lambda>e. wf_sport_config (snd e)) tbl)"

section \<open>The accumulator loop\<close>

lemma scored_pairs_Nil [simp]: "scored_pairs [] ts w = []"
  by (simp add: scored_pairs_def)

lemma scored_pairs_Cons:
  "scored_pairs (t # rest) ts w =
     (case map_of ts t of
        None \<Rightarrow> scored_pairs rest ts w
      | Some s \<Rightarrow> (s, dict_get w t 1) # scored_pairs rest ts w)"
  by (simp add: scored_pairs_def dict_contains_def dict_get_def split: option.splits)

lemma score_loop_acc:
  "score_loop tests ts w (a, b) =
     (a + weighted_sum (scored_pairs tests ts w), b + weight_sum (scored_pairs tests ts w))"
proof (induction tests arbitrary: a b)
  case Nil
  show ?case by simp
next
  case (Cons t rest)
  show ?case
    by (cases "map_of ts t") (simp_all add: scored_pairs_Cons Cons.IH Let_def add.assoc)
qed

lemma score_loop_start:
  "score_loop tests ts w (0, 0) =
     (weighted_sum (scored_pairs tests ts w), weight_sum (scored_pairs tests ts w))"
  by (simp add: score_loop_acc)

lemma sport_score_assess:
  "sport_score (assess_sport sport config ts) =
     weighted_mean (scored_pairs (critical_tests config) ts (weight_factors config))"
  by (simp add: assess_sport_def score_loop_start weighted_mean_def Let_def case_prod_beta)

lemma talent_level_assess:
  "talent_level (assess_sport sport config ts) =
     fst (talent_of sport config (sport_score (assess_sport sport config ts)))"
  by (simp add: assess_sport_def score_loop_start Let_def case_prod_beta)

lemma recommendation_assess:
  "recommendation (assess_sport sport config ts) =
     snd (talent_of sport config (sport_score (assess_sport sport config ts)))"
  by (simp add: assess_sport_def score_loop_start Let_def case_prod_beta)

lemma performance_assess:
  "critical_tests_performance (assess_sport sport config ts) =
     Some (dict_comprehension (\<lambda>t. t) (\<lambda>t. dict_get ts t 0) (critical_tests config))"
  by (simp add: assess_sport_def Let_def case_prod_beta)

lemmas assess_fields =
  sport_score_assess talent_level_assess recommendation_assess performance_assess

lemma assessment_eqI:
  "sport_score r = sport_score r' \<Longrightarrow> talent_level r = talent_level r' \<Longrightarrow>
   recommendation r = recommendation r' \<Longrightarrow>
   critical_tests_performance r = critical_tests_performance r' \<Longrightarrow> r = (r' :: assessment)"
  by simp

lemma fst_talent_of: "fst (talent_of sport config s) = tier_name (classify_tier config s)"
  by (simp add: talent_of_def classify_tier_def)

lemma tier_of_name_tier_name [simp]: "tier_of_name (tier_name t) = Some t"
  by (cases t) (simp_all add: tier_of_name_def)

lemma classify_tier_mono: "s \<le> s' \<Longrightarrow> classify_tier config s \<le> classify_tier config s'"
  by (auto simp: classify_tier_def less_eq_talent_tier_def)


section \<open>Facts about the reference definitions\<close>

lemma in_scored_pairs:
  "p \<in> set (scored_pairs tests ts w) \<longleftrightarrow>
   (\<exists>t \<in> set tests. \<exists>s. map_of ts t = Some s \<and> p = (s, dict_get w t 1))"
  by (induction tests) (auto simp: scored_pairs_Cons split: option.splits)

lemma scored_pairs_empty_iff:
  "scored_pairs tests ts w = [] \<longleftrightarrow> (\<forall>t \<in> set tests. \<not> dict_contains ts t)"
  by (auto simp: scored_pairs_def filter_empty_conv)

lemma scored_pairs_cong:
  "\<forall>t \<in> set tests. map_of a t = map_of b t \<Longrightarrow> scored_pairs tests a w = scored_pairs tests b w"
  by (induction tests) (simp_all add: scored_pairs_Cons split: option.splits)

lemma weighted_mean_Nil [simp]: "weighted_mean [] = 0"
  by (simp add: weighted_mean_def)

lemma wf_config_weight_pos:
  "wf_sport_config c \<Longrightarrow> 0 < dict_get (weight_factors c) t 1"
  by (rule dict_get_list_all) (simp_all add: wf_sport_config_def)

lemma scored_pairs_weights_pos:
  "wf_sport_config c \<Longrightarrow> p \<in> set (scored_pairs (critical_tests c) ts (weight_factors c))
   \<Longrightarrow> 0 < snd p"
  by (auto simp: in_scored_pairs wf_config_weight_pos)

section \<open>The source table is well formed\<close>

lemma wf_SPORT_SPECIFIC_BENCHMARKS: "wf_sport_table SPORT_SPECIFIC_BENCHMARKS"
  by (simp add: wf_sport_table_def wf_sport_config_def wf_dict_def dict_keys_def
      SPORT_SPECIFIC_BENCHMARKS_def)

lemma wf_sport_lookup:
  "map_of SPORT_SPECIFIC_BENCHMARKS sport = Some config \<Longrightarrow> wf_sport_config config"
  using wf_SPORT_SPECIFIC_BENCHMARKS
  by (fastforce simp: wf_sport_table_def list_all_iff dest: map_of_SomeD)

lemma assessment_known:
  "map_of SPORT_SPECIFIC_BENCHMARKS sport = Some config \<Longrightarrow>
   get_sport_specific_assessment sport ts = assess_sport sport config ts"
  by (simp add: get_sport_specific_assessment_def)

lemma map_of_Athletics:
  "map_of SPORT_SPECIFIC_BENCHMARKS ''Athletics'' =
     Some \<lparr>critical_tests = [''Vertical Jump'', ''50m Sprint''],
           weight_factors = [(''Vertical Jump'', 0.4), (''50m Sprint'', 0.6)],
           elite_threshold = 85, talent_threshold = 75\<rparr>"
  by (simp add: SPORT_SPECIFIC_BENCHMARKS_def)


section \<open>The composite score\<close>

text \<open>
  C1 (equivalence). For a recognised sport the accumulator loop of
  \<^verbatim>\<open>get_sport_specific_assessment\<close> computes the weighted mean of the scores of the
  critical tests that have a score: the sum of score times weight over the sum of the
  weights, and 0 when that sum of weights is not positive. Tests without a score
  contribute to neither sum.
\<close>

theorem sport_score_weighted_mean:
  assumes "map_of SPORT_SPECIFIC_BENCHMARKS sport = Some config"
  shows "sport_score (get_sport_specific_assessment sport test_scores) =
     (let ps = scored_pairs (critical_tests config) test_scores (weight_factors config)
      in if weight_sum ps > 0 then weighted_sum ps / weight_sum ps else 0)"
  using assms by (simp add: assessment_known sport_score_assess weighted_mean_def Let_def)

theorem sport_score_weighted_mean_witness:
  "sport_score (get_sport_specific_assessment ''Athletics''
      [(''Vertical Jump'', 90), (''50m Sprint'', 80)]) = 84"
  using sport_score_weighted_mean [OF map_of_Athletics,
      of "[(''Vertical Jump'', 90), (''50m Sprint'', 80)]"]
  by (simp add: scored_pairs_def)

text \<open>
  In exact arithmetic the composite score of a well-formed sport profile lies between
  the smallest and the largest score of the critical tests that have one.
\<close>

lemma sport_score_between:
  assumes "wf_sport_config config"
    and "\<exists>t \<in> set (critical_tests config). dict_contains test_scores t"
    and "\<forall>t \<in> set (critical_tests config). \<forall>s. map_of test_scores t = Some s \<longrightarrow> lo \<le> s \<and> s \<le> hi"
  shows "lo \<le> sport_score (assess_sport sport config test_scores)
       \<and> sport_score (assess_sport sport config test_scores) \<le> hi"
proof -
  let ?ps = "scored_pairs (critical_tests config) test_scores (weight_factors config)"
  from assms(2) have "?ps \<noteq> []" by (simp add: scored_pairs_empty_iff)
  moreover have pos: "\<forall>p \<in> set ?ps. 0 < snd p"
    using assms(1) by (blast intro: scored_pairs_weights_pos)
  ultimately have "0 < weight_sum ?ps" by (rule weight_sum_pos)
  moreover have "\<forall>p \<in> set ?ps. 0 \<le> snd p \<and> lo \<le> fst p \<and> fst p \<le> hi"
    using pos assms(3) by (fastforce simp: in_scored_pairs)
  ultimately show ?thesis
    using weighted_mean_bounds [of ?ps lo hi] by (simp add: sport_score_assess weighted_mean_def)
qed

text \<open>
  C36 (functional). The assessment reads the test scores at the critical tests only:
  two score dicts that agree on every critical test of the profile (present with the
  same score, or absent in both) give the same assessment, whatever else they hold.
\<close>

theorem assessment_critical_only:
  assumes "\<forall>t \<in> set (critical_tests config). map_of a t = map_of b t"
  shows "assess_sport sport config a = assess_sport sport config b"
proof (rule assessment_eqI)
  show s: "sport_score (assess_sport sport config a) = sport_score (assess_sport sport config b)"
    using assms by (simp add: sport_score_assess scored_pairs_cong [of _ a b])
  show "talent_level (assess_sport sport config a) = talent_level (assess_sport sport config b)"
    by (simp add: talent_level_assess s)
  show "recommendation (assess_sport sport config a) = recommendation (assess_sport sport config b)"
    by (simp add: recommendation_assess s)
  show "critical_tests_performance (assess_sport sport config a)
      = critical_tests_performance (assess_sport sport config b)"
    using assms by (auto simp: performance_assess intro!: dict_comprehension_cong dict_get_cong)
qed

theorem assessment_critical_only_witness:
  "assess_sport ''Athletics''
     \<lparr>critical_tests = [''Vertical Jump'', ''50m Sprint''],
      weight_factors = [(''Vertical Jump'', 0.4), (''50m Sprint'', 0.6)],
      elite_threshold = 85, talent_threshold = 75\<rparr>
     [(''Vertical Jump'', 90), (''Push-ups'', 10)]
   = assess_sport ''Athletics''
       \<lparr>critical_tests = [''Vertical Jump'', ''50m Sprint''],
        weight_factors = [(''Vertical Jump'', 0.4), (''50m Sprint'', 0.6)],
        elite_threshold = 85, talent_threshold = 75\<rparr>
       [(''Vertical Jump'', 90)]"
  by (rule assessment_critical_only) simp


section \<open>The talent level\<close>

lemma tier_name_inject [simp]: "tier_name a = tier_name b \<longleftrightarrow> a = b"
  by (cases a; cases b) simp_all

lemma tier_name_not_Unknown [simp]: "tier_name t \<noteq> ''Unknown''"
  by (cases t) simp_all

lemma talent_level_tier:
  "talent_level (assess_sport sport config ts) =
     tier_name (classify_tier config (sport_score (assess_sport sport config ts)))"
  by (simp add: talent_level_assess fst_talent_of)

lemma classify_tier_iffs:
  "classify_tier config s = ElitePotential \<longleftrightarrow> elite_threshold config \<le> s"
  "classify_tier config s = HighPotential \<longleftrightarrow> s < elite_threshold config \<and> talent_threshold config \<le> s"
  "classify_tier config s = ModeratePotential \<longleftrightarrow>
     s < elite_threshold config \<and> s < talent_threshold config \<and> 60 \<le> s"
  "classify_tier config s = Developing \<longleftrightarrow>
     s < elite_threshold config \<and> s < talent_threshold config \<and> s < 60"
  by (auto simp: classify_tier_def)

text \<open>
  C2 (functional). The talent level of an assessment is decided by its composite score
  in the order of the source, first match first: Elite Potential from the elite
  threshold of the sport, else High Potential from its talent threshold, else Moderate
  Potential from the fixed cutoff 60, else Developing. Each level is returned exactly
  on the scores stated, whatever the thresholds of the profile.
\<close>

theorem talent_level_thresholds:
  fixes sport :: string and config :: sport_config and test_scores :: "(string, num) pydict"
  defines "r \<equiv> assess_sport sport config test_scores"
  shows "(talent_level r = ''Elite Potential'' \<longleftrightarrow> elite_threshold config \<le> sport_score r)
     \<and> (talent_level r = ''High Potential'' \<longleftrightarrow>
          sport_score r < elite_threshold config \<and> talent_threshold config \<le> sport_score r)
     \<and> (talent_level r = ''Moderate Potential'' \<longleftrightarrow>
          sport_score r < elite_threshold config \<and> sport_score r < talent_threshold config
          \<and> 60 \<le> sport_score r)
     \<and> (talent_level r = ''Developing'' \<longleftrightarrow>
          sport_score r < elite_threshold config \<and> sport_score r < talent_threshold config
          \<and> sport_score r < 60)"
proof -
  have names: "''Elite Potential'' = tier_name ElitePotential"
    "''High Potential'' = tier_name HighPotential"
    "''Moderate Potential'' = tier_name ModeratePotential"
    "''Developing'' = tier_name Developing"
    by simp_all
  show ?thesis
    unfolding r_def talent_level_tier names tier_name_inject classify_tier_iffs by simp
qed

text \<open>
  C14 (invariant). The talent level is monotone in the composite score: of two
  assessments against the same profile, the one with the higher composite score never
  gets the lower tier in the order Developing < Moderate Potential < High Potential <
  Elite Potential. This holds for every profile, also one whose thresholds are not
  ordered, because the comparisons are made from the highest tier down.
\<close>

theorem talent_level_mono:
  assumes "sport_score (assess_sport sport config a) \<le> sport_score (assess_sport sport config b)"
  shows "\<exists>t t'. tier_of_name (talent_level (assess_sport sport config a)) = Some t
           \<and> tier_of_name (talent_level (assess_sport sport config b)) = Some t'
           \<and> t \<le> t'"
  using classify_tier_mono [OF assms, of config] by (simp add: talent_level_tier)

theorem talent_level_mono_witness:
  "\<exists>t t'. tier_of_name (talent_level (assess_sport ''Athletics''
              \<lparr>critical_tests = [''Vertical Jump'', ''50m Sprint''],
               weight_factors = [(''Vertical Jump'', 0.4), (''50m Sprint'', 0.6)],
               elite_threshold = 85, talent_threshold = 75\<rparr>
              [(''Vertical Jump'', 70)])) = Some t
         \<and> tier_of_name (talent_level (assess_sport ''Athletics''
              \<lparr>critical_tests = [''Vertical Jump'', ''50m Sprint''],
               weight_factors = [(''Vertical Jump'', 0.4), (''50m Sprint'', 0.6)],
               elite_threshold = 85, talent_threshold = 75\<rparr>
              [(''Vertical Jump'', 90)])) = Some t'
         \<and> t \<le> t'"
  by (rule talent_level_mono) (simp add: sport_score_assess scored_pairs_def weighted_mean_def)

text \<open>
  C23 (error). An unrecognised sport is answered with the sentinel result (score 0,
  level \<^verbatim>\<open>Unknown\<close>, the fixed recommendation, no breakdown) and nothing else is: the
  result is the sentinel exactly when the sport is not a key of
  \<^verbatim>\<open>SPORT_SPECIFIC_BENCHMARKS\<close>. No sport raises.
\<close>

theorem unknown_sport_iff:
  "get_sport_specific_assessment sport test_scores = unknown_sport
   \<longleftrightarrow> \<not> dict_contains SPORT_SPECIFIC_BENCHMARKS sport"
proof (cases "map_of SPORT_SPECIFIC_BENCHMARKS sport")
  case None
  then show ?thesis by (simp add: get_sport_specific_assessment_def dict_contains_def)
next
  case (Some config)
  have "talent_level (assess_sport sport config test_scores) \<noteq> talent_level unknown_sport"
    by (simp add: talent_level_tier unknown_sport_def)
  then have "assess_sport sport config test_scores \<noteq> unknown_sport" by auto
  with Some show ?thesis by (simp add: assessment_known dict_contains_def)
qed

theorem unknown_sport_iff_witness:
  "get_sport_specific_assessment ''UnknownSport'' [(''Vertical Jump'', 90)] =
     \<lparr>sport_score = 0, talent_level = ''Unknown'',
      recommendation = ''Sport-specific benchmarks not available'',
      critical_tests_performance = None\<rparr>"
  using unknown_sport_iff [of "''UnknownSport''" "[(''Vertical Jump'', 90)]"]
  by (simp add: SPORT_SPECIFIC_BENCHMARKS_def unknown_sport_def)

text \<open>
  C32 (functional). For a recognised sport, when none of its critical tests has a
  score the composite score is 0 and the level is Developing; this is a result, not
  an error, and scores for other tests do not change it.
\<close>

theorem no_critical_scores_developing:
  assumes "map_of SPORT_SPECIFIC_BENCHMARKS sport = Some config"
    and "\<forall>t \<in> set (critical_tests config). \<not> dict_contains test_scores t"
  shows "sport_score (get_sport_specific_assessment sport test_scores) = 0
       \<and> talent_level (get_sport_specific_assessment sport test_scores) = ''Developing''"
proof -
  from assms(2) have "scored_pairs (critical_tests config) test_scores (weight_factors config) = []"
    by (simp add: scored_pairs_empty_iff)
  then have z: "sport_score (assess_sport sport config test_scores) = 0"
    by (simp add: sport_score_assess)
  from assms(1) have "wf_sport_config config" by (rule wf_sport_lookup)
  then have "classify_tier config 0 = Developing"
    by (auto simp: wf_sport_config_def classify_tier_def)
  with z assms(1) show ?thesis by (simp add: assessment_known talent_level_tier)
qed

theorem no_critical_scores_developing_witness:
  "sport_score (get_sport_specific_assessment ''Athletics'' [(''Push-ups'', 95)]) = 0
   \<and> talent_level (get_sport_specific_assessment ''Athletics'' [(''Push-ups'', 95)]) = ''Developing''"
  by (rule no_critical_scores_developing [OF map_of_Athletics]) simp

text \<open>
  C24 (functional). For a recognised sport the breakdown
  \<^verbatim>\<open>critical_tests_performance\<close> lists the critical tests of the sport, each once and
  in their declared order, with the score of the test, or 0 for a test without a
  score.
\<close>

theorem critical_tests_performance_spec:
  assumes "map_of SPORT_SPECIFIC_BENCHMARKS sport = Some config"
  shows "critical_tests_performance (get_sport_specific_assessment sport test_scores) =
     Some (map (\<lambda>t. (t, dict_get test_scores t 0)) (critical_tests config))"
proof -
  from assms have "wf_sport_config config" by (rule wf_sport_lookup)
  then have "distinct (map (\<lambda>t. t) (critical_tests config))"
    by (simp add: wf_sport_config_def)
  then show ?thesis
    using assms by (simp add: assessment_known performance_assess dict_comprehension_distinct)
qed

theorem critical_tests_performance_spec_witness:
  "critical_tests_performance (get_sport_specific_assessment ''Athletics'' [(''50m Sprint'', 80)])
     = Some [(''Vertical Jump'', 0), (''50m Sprint'', 80)]"
  using critical_tests_performance_spec [OF map_of_Athletics, of "[(''50m Sprint'', 80)]"]
  by simp

end
