(* ===== verification/Binary64.thy ===== *)
theory Binary64
  imports TT_Prelude "HOL-Library.Log_Nat"
begin

text \<open>
  The arithmetic of Python's \<^verbatim>\<open>float\<close>, the IEEE 754 binary64 format, as far as
  \<^verbatim>\<open>get_sport_specific_assessment\<close> of \<^verbatim>\<open>src/TalentTrakker/data/benchmarks.py\<close>
  uses it: the product, the sum and the quotient of two floats.

  \<^item> A float is modelled by its value, a rational. The doubles are the numbers
    \<open>m * 2 powi e\<close> with \<open>\<bar>m\<bar> < 2 ^ 53\<close>; \<open>is_double\<close> recognises them.
  \<^item> \<open>round_double\<close> maps a rational to the nearest double, a tie to the one with the
    even significand: \<open>ilog2\<close> is the binary exponent of the number, computed from the
    bit lengths of its numerator and denominator, and \<open>round_half_even\<close> rounds the
    number scaled to 53 bits. A float literal of the source denotes \<open>round_double\<close> of
    its decimal value.
  \<^item> \<open>float_add\<close>, \<open>float_mul\<close> and \<open>float_truediv\<close> are \<^verbatim>\<open>+\<close>, \<^verbatim>\<open>*\<close> and
    \<^verbatim>\<open>/\<close>: the exact result, rounded once, as IEEE 754 prescribes; the division
    by zero raises \<open>ZeroDivisionError\<close>. An \<^verbatim>\<open>int\<close> operand is converted to the
    float of the same value first, which is exact below \<open>2 ^ 53\<close>.
  \<^item> The exponent is not bounded: overflow to infinity (above about 1.8e308), gradual
    underflow (below \<open>2 powi - 1022\<close>), the sign of zero and NaN are not modelled. The
    scores and weights of the program are far from both ends of the range.

  The lemmas show that \<open>round_double\<close> is monotone, odd, the identity on the doubles
  and so idempotent, that it returns a double nearest to its argument
  (\<open>round_double_nearest\<close>), and that its relative error is at most \<open>unit_roundoff\<close>,
  which is \<open>1 / 2 ^ 53\<close>. \<open>close_to k a b\<close> says that \<open>b\<close> is \<open>a\<close> after at most \<open>k\<close> roundings:
  \<open>a * (1 - unit_roundoff) ^ k \<le> b \<le> a * (1 + unit_roundoff) ^ k\<close>; its lemmas are the
  steps of a running error analysis of sums of products of non-negative numbers.
\<close>

section \<open>Definitions\<close>

definition ilog2 :: "rat \<Rightarrow> int" where
  "ilog2 x = (let (p, q) = quotient_of \<bar>x\<bar>; k = bitlen p - bitlen q
              in if 2 powi k \<le> \<bar>x\<bar> then k else k - 1)"

definition round_half_even :: "rat \<Rightarrow> int" where
  "round_half_even y = (let n = \<lfloor>y\<rfloor>; r = y - of_int n
                        in if r < 1 / 2 \<or> (r = 1 / 2 \<and> even n) then n else n + 1)"

definition round_double :: "rat \<Rightarrow> rat" where
  "round_double x = (if x = 0 then 0
                     else let e = ilog2 x - 52
                          in of_int (round_half_even (x * 2 powi (- e))) * 2 powi e)"

definition float_add :: "num \<Rightarrow> num \<Rightarrow> num" where
  "float_add x y = round_double (x + y)"

definition float_mul :: "num \<Rightarrow> num \<Rightarrow> num" where
  "float_mul x y = round_double (x * y)"

definition float_truediv :: "num \<Rightarrow> num \<Rightarrow> py_error + num" where
  "float_truediv x y = (if y = 0 then Inl ZeroDivisionError else Inr (round_double (x / y)))"

definition is_double :: "num \<Rightarrow> bool" where
  "is_double x \<longleftrightarrow> round_double x = x"

definition unit_roundoff :: rat where
  "unit_roundoff = 1 / 2 ^ 53"

definition close_to :: "nat \<Rightarrow> rat \<Rightarrow> rat \<Rightarrow> bool" where
  "close_to k a b \<longleftrightarrow>
     a * (1 - unit_roundoff) ^ k \<le> b \<and> b \<le> a * (1 + unit_roundoff) ^ k"

section \<open>Powers of two\<close>

lemma pow2_pos [simp]: "0 < (2::rat) powi k"
  by (simp add: zero_less_power_int)

lemma pow2_add: "(2::rat) powi (a + b) = 2 powi a * 2 powi b"
  by (simp add: power_int_add)

lemma pow2_mono: "a \<le> b \<Longrightarrow> (2::rat) powi a \<le> 2 powi b"
  by (simp add: power_int_increasing)

lemma pow2_less_iff: "(2::rat) powi a < 2 powi b \<longleftrightarrow> a < b"
proof
  assume "(2::rat) powi a < 2 powi b"
  then show "a < b" using pow2_mono [of b a] by (cases "a < b") simp_all
qed (simp add: power_int_strict_increasing)

lemma bitlen_pow2_bounds:
  assumes "0 < p"
  shows "(2::rat) powi (bitlen p - 1) \<le> of_int p" and "of_int p < (2::rat) powi bitlen p"
proof -
  from assms have b: "1 \<le> bitlen p" by (auto simp: bitlen_alt_def)
  from bitlen_bounds [OF assms] have "2 ^ nat (bitlen p - 1) \<le> p" and "p < 2 ^ nat (bitlen p)"
    by simp_all
  then have "(of_int (2 ^ nat (bitlen p - 1)) :: rat) \<le> of_int p"
    and "(of_int p :: rat) < of_int (2 ^ nat (bitlen p))"
    by (simp_all only: of_int_le_iff of_int_less_iff)
  with b show "(2::rat) powi (bitlen p - 1) \<le> of_int p" and "of_int p < (2::rat) powi bitlen p"
    by (simp_all add: power_int_def)
qed

section \<open>The binary exponent\<close>

lemma ilog2_bounds:
  assumes "x \<noteq> 0"
  shows "2 powi ilog2 x \<le> \<bar>x\<bar>" and "\<bar>x\<bar> < 2 powi (ilog2 x + 1)"
proof -
  obtain p q where pq: "quotient_of \<bar>x\<bar> = (p, q)" by (cases "quotient_of \<bar>x\<bar>")
  then have q: "0 < q" and x: "\<bar>x\<bar> = of_int p / of_int q"
    by (simp_all add: quotient_of_denom_pos quotient_of_div)
  from assms have "0 < \<bar>x\<bar>" by simp
  with q have p: "0 < p" unfolding x by (simp add: zero_less_divide_iff)
  let ?k = "bitlen p - bitlen q"
  have "of_int p < (2::rat) powi bitlen p" and "(2::rat) powi (bitlen q - 1) \<le> of_int q"
    using p q by (simp_all add: bitlen_pow2_bounds)
  then have "of_int p * (2::rat) powi (bitlen q - 1) < 2 powi bitlen p * of_int q"
    using p q by (intro mult_less_le_imp_less) simp_all
  then have up: "\<bar>x\<bar> < 2 powi (?k + 1)"
    using q by (simp add: x pow2_add power_int_diff field_simps)
  have "(2::rat) powi (bitlen p - 1) \<le> of_int p" and "of_int q < (2::rat) powi bitlen q"
    using p q by (simp_all add: bitlen_pow2_bounds)
  then have "(2::rat) powi (bitlen p - 1) * of_int q < of_int p * 2 powi bitlen q"
    using p q by (intro mult_le_less_imp_less) simp_all
  then have lo: "2 powi (?k - 1) < \<bar>x\<bar>"
    using q by (simp add: x pow2_add power_int_diff field_simps)
  show "2 powi ilog2 x \<le> \<bar>x\<bar>"
    using lo by (simp add: ilog2_def pq Let_def)
  show "\<bar>x\<bar> < 2 powi (ilog2 x + 1)"
    using up by (auto simp: ilog2_def pq Let_def)
qed

lemma ilog2_unique:
  assumes "2 powi k \<le> \<bar>x\<bar>" and "\<bar>x\<bar> < 2 powi (k + 1)"
  shows "ilog2 x = k"
proof -
  from pow2_pos assms(1) have "0 < \<bar>x\<bar>" by (rule less_le_trans)
  then have x: "x \<noteq> 0" by simp
  from ilog2_bounds [OF x] assms have "(2::rat) powi ilog2 x < 2 powi (k + 1)"
    and "(2::rat) powi k < 2 powi (ilog2 x + 1)" by simp_all
  then show ?thesis by (simp add: pow2_less_iff)
qed

lemma ilog2_minus [simp]: "ilog2 (- x) = ilog2 x"
  by (simp add: ilog2_def)

lemma ilog2_mono:
  assumes "x \<noteq> 0" and "\<bar>x\<bar> \<le> \<bar>y\<bar>"
  shows "ilog2 x \<le> ilog2 y"
proof -
  from assms have y: "y \<noteq> 0" by auto
  from ilog2_bounds(1) [OF assms(1)] ilog2_bounds(2) [OF y] assms(2)
  have "(2::rat) powi ilog2 x < 2 powi (ilog2 y + 1)" by simp
  then show ?thesis by (simp add: pow2_less_iff)
qed


section \<open>Rounding to an integer\<close>

lemma round_half_even_of_int [simp]: "round_half_even (of_int n) = n"
  by (simp add: round_half_even_def)

lemma round_half_even_0 [simp]: "round_half_even 0 = 0"
  using round_half_even_of_int [of 0] by simp

lemma round_half_even_cases:
  "round_half_even y = \<lfloor>y\<rfloor> \<and> y - of_int \<lfloor>y\<rfloor> \<le> 1 / 2
   \<or> round_half_even y = \<lfloor>y\<rfloor> + 1 \<and> 1 / 2 \<le> y - of_int \<lfloor>y\<rfloor>"
  by (auto simp: round_half_even_def Let_def)

lemma round_half_even_error: "\<bar>of_int (round_half_even y) - y\<bar> \<le> 1 / 2"
  using round_half_even_cases [of y] floor_correct [of y] by (auto simp: abs_le_iff)

lemma round_half_even_mono:
  assumes "x \<le> y"
  shows "round_half_even x \<le> round_half_even y"
proof (cases "\<lfloor>x\<rfloor> = \<lfloor>y\<rfloor>")
  case True
  with assms show ?thesis by (auto simp: round_half_even_def Let_def)
next
  case False
  with assms have "\<lfloor>x\<rfloor> + 1 \<le> \<lfloor>y\<rfloor>" using floor_mono [OF assms] by simp
  moreover have "round_half_even x \<le> \<lfloor>x\<rfloor> + 1" and "\<lfloor>y\<rfloor> \<le> round_half_even y"
    by (simp_all add: round_half_even_def Let_def)
  ultimately show ?thesis by simp
qed

lemma round_half_even_minus: "round_half_even (- y) = - round_half_even y"
proof (cases "y \<in> \<int>")
  case True
  then obtain n where "y = of_int n" by (auto elim: Ints_cases)
  then show ?thesis by (simp flip: of_int_minus)
next
  case False
  then have "y \<noteq> of_int \<lfloor>y\<rfloor>" by (metis Ints_of_int)
  then have f: "\<lfloor>- y\<rfloor> = - \<lfloor>y\<rfloor> - 1" by (simp add: floor_minus ceiling_altdef)
  show ?thesis by (auto simp: round_half_even_def Let_def f)
qed

section \<open>Rounding to a double\<close>

lemma round_double_0 [simp]: "round_double 0 = 0"
  by (simp add: round_double_def)

lemma round_double_minus: "round_double (- x) = - round_double x"
  by (simp add: round_double_def round_half_even_minus)

text \<open>The significand of a number scaled to 53 bits lies in [2^52, 2^53).\<close>

lemma significand_bounds:
  assumes "x \<noteq> 0"
  shows "2 ^ 52 \<le> \<bar>x\<bar> * 2 powi (52 - ilog2 x)" and "\<bar>x\<bar> * 2 powi (52 - ilog2 x) < 2 ^ 53"
proof -
  have "2 powi ilog2 x * 2 powi (52 - ilog2 x) \<le> \<bar>x\<bar> * 2 powi (52 - ilog2 x)"
    using ilog2_bounds(1) [OF assms] by (intro mult_right_mono) simp_all
  then show "2 ^ 52 \<le> \<bar>x\<bar> * 2 powi (52 - ilog2 x)"
    by (simp flip: pow2_add)
  have "\<bar>x\<bar> * 2 powi (52 - ilog2 x) < 2 powi (ilog2 x + 1) * 2 powi (52 - ilog2 x)"
    using ilog2_bounds(2) [OF assms] by (intro mult_strict_right_mono) simp_all
  then show "\<bar>x\<bar> * 2 powi (52 - ilog2 x) < 2 ^ 53"
    by (simp flip: pow2_add)
qed

lemma round_double_pos_eq:
  "round_double x = of_int (round_half_even (x * 2 powi (52 - ilog2 x))) * 2 powi (ilog2 x - 52)"
  by (simp add: round_double_def Let_def)

lemma round_double_error: "\<bar>round_double x - x\<bar> \<le> \<bar>x\<bar> * unit_roundoff"
proof (cases "x = 0")
  case False
  let ?e = "ilog2 x - 52" and ?s = "x * 2 powi (52 - ilog2 x)"
  have x: "x = ?s * 2 powi ?e" by (simp add: mult.assoc flip: pow2_add)
  have "round_double x - x = (of_int (round_half_even ?s) - ?s) * 2 powi ?e"
    by (simp add: round_double_pos_eq left_diff_distrib mult.assoc flip: pow2_add)
  then have "\<bar>round_double x - x\<bar> = \<bar>of_int (round_half_even ?s) - ?s\<bar> * 2 powi ?e"
    by (simp add: abs_mult)
  also have "\<dots> \<le> 1 / 2 * 2 powi ?e"
    by (intro mult_right_mono round_half_even_error) simp
  also have "\<dots> \<le> (\<bar>x\<bar> * 2 powi (52 - ilog2 x) / 2 ^ 52) * (1 / 2 * 2 powi ?e)"
    using significand_bounds(1) [OF False] by (simp add: field_simps)
  also have "\<dots> = \<bar>x\<bar> * unit_roundoff * (2 powi (52 - ilog2 x) * 2 powi ?e)"
    by (simp add: unit_roundoff_def)
  also have "\<dots> = \<bar>x\<bar> * unit_roundoff" by (simp flip: pow2_add)
  finally show ?thesis .
qed simp


lemma round_double_ge_pow2:
  assumes "0 < x"
  shows "2 powi ilog2 x \<le> round_double x"
proof -
  from assms have x: "x \<noteq> 0" "\<bar>x\<bar> = x" by simp_all
  have "round_half_even (of_int (2 ^ 52)) \<le> round_half_even (x * 2 powi (52 - ilog2 x))"
    using significand_bounds(1) [OF x(1)] x(2) by (intro round_half_even_mono) simp
  then have "(2::rat) ^ 52 \<le> of_int (round_half_even (x * 2 powi (52 - ilog2 x)))"
    unfolding round_half_even_of_int by (metis of_int_le_iff of_int_numeral of_int_power)
  then have "2 ^ 52 * 2 powi (ilog2 x - 52) \<le> round_double x"
    unfolding round_double_pos_eq by (intro mult_right_mono) simp_all
  then show ?thesis by (simp add: power_int_diff)
qed

lemma round_double_le_pow2:
  assumes "0 < x"
  shows "round_double x \<le> 2 powi (ilog2 x + 1)"
proof -
  from assms have x: "x \<noteq> 0" "\<bar>x\<bar> = x" by simp_all
  have "round_half_even (x * 2 powi (52 - ilog2 x)) \<le> round_half_even (of_int (2 ^ 53))"
    using significand_bounds(2) [OF x(1)] x(2) by (intro round_half_even_mono) simp
  then have "of_int (round_half_even (x * 2 powi (52 - ilog2 x))) \<le> (2::rat) ^ 53"
    unfolding round_half_even_of_int by (metis of_int_le_iff of_int_numeral of_int_power)
  then have "round_double x \<le> 2 ^ 53 * 2 powi (ilog2 x - 52)"
    unfolding round_double_pos_eq by (intro mult_right_mono) simp_all
  then show ?thesis by (simp add: power_int_diff power_int_add)
qed

lemma round_double_pos: "0 < x \<Longrightarrow> 0 < round_double x"
  using round_double_ge_pow2 [of x] pow2_pos [of "ilog2 x"] by (rule_tac less_le_trans)

lemma round_double_nonneg: "0 \<le> x \<Longrightarrow> 0 \<le> round_double x"
  using round_double_pos [of x] by (cases "x = 0") simp_all

lemma round_double_mono_pos:
  assumes "0 < x" and "x \<le> y"
  shows "round_double x \<le> round_double y"
proof (cases "ilog2 x = ilog2 y")
  case True
  have "round_half_even (x * 2 powi (52 - ilog2 y)) \<le> round_half_even (y * 2 powi (52 - ilog2 y))"
    using assms(2) by (intro round_half_even_mono mult_right_mono) simp_all
  then show ?thesis
    unfolding round_double_pos_eq True by (intro mult_right_mono) simp_all
next
  case False
  with assms ilog2_mono [of x y] have "ilog2 x + 1 \<le> ilog2 y" by simp
  then have "(2::rat) powi (ilog2 x + 1) \<le> 2 powi ilog2 y" by (rule pow2_mono)
  with round_double_le_pow2 [of x] round_double_ge_pow2 [of y] assms show ?thesis by simp
qed

lemma round_double_mono:
  assumes "x \<le> y"
  shows "round_double x \<le> round_double y"
proof -
  consider "0 < x" | "x \<le> 0" "0 \<le> y" | "y < 0" by linarith
  then show ?thesis
  proof cases
    case 1
    from 1 assms show ?thesis by (rule round_double_mono_pos)
  next
    case 2
    then have "round_double x \<le> 0" and "0 \<le> round_double y"
      using round_double_nonneg [of "- x"] round_double_nonneg [of y]
      by (simp_all add: round_double_minus)
    then show ?thesis by simp
  next
    case 3
    with assms have "round_double (- y) \<le> round_double (- x)"
      by (intro round_double_mono_pos) simp_all
    then show ?thesis by (simp add: round_double_minus)
  qed
qed

lemma round_double_interval:
  assumes "0 \<le> x"
  shows "x * (1 - unit_roundoff) \<le> round_double x" and "round_double x \<le> x * (1 + unit_roundoff)"
  using round_double_error [of x] assms by (simp_all add: abs_le_iff algebra_simps)

section \<open>The doubles\<close>

lemma round_double_dyadic:
  assumes "\<bar>n\<bar> < 2 ^ 53"
  shows "round_double (of_int n * 2 powi e) = of_int n * 2 powi e"
proof (cases "n = 0")
  case False
  let ?x = "of_int n * (2::rat) powi e"
  from False have x: "?x \<noteq> 0" by simp
  have "\<bar>?x\<bar> = of_int \<bar>n\<bar> * 2 powi e" by (simp add: abs_mult)
  also have "\<dots> < of_int (2 ^ 53) * 2 powi e"
    using assms by (intro mult_strict_right_mono) (simp_all only: of_int_less_iff pow2_pos)
  finally have "(2::rat) powi ilog2 ?x < 2 powi (53 + e)"
    using ilog2_bounds(1) [OF x] by (simp add: pow2_add)
  then have k: "0 \<le> e + 52 - ilog2 ?x" by (simp add: pow2_less_iff)
  have "?x * 2 powi (52 - ilog2 ?x) = of_int n * 2 powi (e + 52 - ilog2 ?x)"
    by (simp add: mult.assoc add_diff_eq flip: pow2_add)
  also have "\<dots> = of_int (n * 2 ^ nat (e + 52 - ilog2 ?x))"
    using k by (simp add: power_int_nonneg_exp)
  finally have s: "?x * 2 powi (52 - ilog2 ?x) = of_int (n * 2 ^ nat (e + 52 - ilog2 ?x))" .
  have "round_double ?x = ?x * 2 powi (52 - ilog2 ?x) * 2 powi (ilog2 ?x - 52)"
    unfolding round_double_pos_eq [of ?x] by (simp only: s round_half_even_of_int)
  also have "\<dots> = ?x" by (simp add: mult.assoc flip: pow2_add)
  finally show ?thesis .
qed simp

lemma round_double_of_int: "\<bar>n\<bar> < 2 ^ 53 \<Longrightarrow> round_double (of_int n) = of_int n"
  using round_double_dyadic [of n 0] by simp

lemma round_double_idem [simp]: "round_double (round_double x) = round_double x"
proof (cases "x = 0")
  case False
  let ?m = "round_half_even (x * 2 powi (52 - ilog2 x))" and ?e = "ilog2 x - 52"
  have "\<bar>x * 2 powi (52 - ilog2 x)\<bar> < 2 ^ 53"
    using significand_bounds(2) [OF False] by (simp add: abs_mult)
  then have "round_half_even (x * 2 powi (52 - ilog2 x)) \<le> round_half_even (of_int (2 ^ 53))"
    and "round_half_even (of_int (- (2 ^ 53))) \<le> round_half_even (x * 2 powi (52 - ilog2 x))"
    by (intro round_half_even_mono; simp add: abs_less_iff)+
  then have m: "\<bar>?m\<bar> \<le> 2 ^ 53" unfolding round_half_even_of_int by simp
  show ?thesis
  proof (cases "\<bar>?m\<bar> = 2 ^ 53")
    case True
    then obtain k where k: "?m = 2 * k" "\<bar>k\<bar> < 2 ^ 53"
      by (cases "0 \<le> ?m") (auto intro: that [of "2 ^ 52"] that [of "- (2 ^ 52)"])
    have "of_int ?m * (2::rat) powi ?e = of_int k * 2 powi (?e + 1)"
      using pow2_add [of ?e 1] by (simp add: k(1))
    then show ?thesis
      unfolding round_double_pos_eq [of x] using round_double_dyadic [OF k(2), of "?e + 1"]
      by simp
  next
    case False
    with m have "\<bar>?m\<bar> < 2 ^ 53" by simp
    then show ?thesis unfolding round_double_pos_eq [of x] by (rule round_double_dyadic)
  qed
qed simp


section \<open>Accumulated rounding error\<close>

lemma unit_roundoff_range [simp]:
  "0 < unit_roundoff" "unit_roundoff < 1" "0 < 1 - unit_roundoff" "0 < 1 + unit_roundoff"
  by (simp_all add: unit_roundoff_def)

lemma close_to_refl [simp]: "close_to 0 a a"
  by (simp add: close_to_def)

lemma close_to_0 [simp]: "close_to k 0 b \<longleftrightarrow> b = 0"
  by (auto simp: close_to_def)

lemma close_to_nonneg: "close_to k a b \<Longrightarrow> 0 \<le> a \<Longrightarrow> 0 \<le> b"
  unfolding close_to_def by (meson less_imp_le mult_nonneg_nonneg order_trans unit_roundoff_range(3)
      zero_le_power)

lemma close_to_pos: "close_to k a b \<Longrightarrow> 0 < a \<Longrightarrow> 0 < b"
  unfolding close_to_def by (meson less_le_trans mult_pos_pos unit_roundoff_range(3) zero_less_power)

lemma close_to_weaken:
  assumes "close_to k a b" and "k \<le> k'" and "0 \<le> a"
  shows "close_to k' a b"
proof -
  have "(1 - unit_roundoff) ^ k' \<le> (1 - unit_roundoff) ^ k"
    using assms(2) by (intro power_decreasing) (simp_all add: less_imp_le)
  moreover have "(1 + unit_roundoff) ^ k \<le> (1 + unit_roundoff) ^ k'"
    using assms(2) by (intro power_increasing) (simp_all add: less_imp_le)
  ultimately have "a * (1 - unit_roundoff) ^ k' \<le> a * (1 - unit_roundoff) ^ k"
    and "a * (1 + unit_roundoff) ^ k \<le> a * (1 + unit_roundoff) ^ k'"
    using assms(3) by (simp_all add: mult_left_mono)
  with assms(1) show ?thesis by (auto simp: close_to_def)
qed

lemma close_to_round:
  assumes "close_to k a b" and "0 \<le> a"
  shows "close_to (Suc k) a (round_double b)"
proof -
  from assms have b: "0 \<le> b" by (rule close_to_nonneg)
  have "a * (1 - unit_roundoff) ^ Suc k = a * (1 - unit_roundoff) ^ k * (1 - unit_roundoff)"
    by simp
  also have "\<dots> \<le> b * (1 - unit_roundoff)"
    using assms(1) by (intro mult_right_mono) (simp_all add: close_to_def less_imp_le)
  also have "\<dots> \<le> round_double b" by (rule round_double_interval(1) [OF b])
  finally have lo: "a * (1 - unit_roundoff) ^ Suc k \<le> round_double b" .
  have "round_double b \<le> b * (1 + unit_roundoff)" by (rule round_double_interval(2) [OF b])
  also have "\<dots> \<le> a * (1 + unit_roundoff) ^ k * (1 + unit_roundoff)"
    using assms(1) by (intro mult_right_mono) (simp_all add: close_to_def less_imp_le)
  also have "\<dots> = a * (1 + unit_roundoff) ^ Suc k" by simp
  finally show ?thesis using lo by (simp only: close_to_def)
qed

lemma close_to_add: "close_to k a b \<Longrightarrow> close_to k c d \<Longrightarrow> close_to k (a + c) (b + d)"
  by (simp add: close_to_def distrib_right add_mono)

lemma close_to_mult: "close_to k a b \<Longrightarrow> 0 \<le> c \<Longrightarrow> close_to k (c * a) (c * b)"
  using mult_left_mono [of "a * (1 - unit_roundoff) ^ k" b c]
    mult_left_mono [of b "a * (1 + unit_roundoff) ^ k" c]
  by (simp add: close_to_def mult.assoc)

lemma close_to_divide:
  assumes "close_to j a b" and "close_to k c d" and "0 \<le> a" and "0 < c"
  shows "a / c * ((1 - unit_roundoff) ^ j / (1 + unit_roundoff) ^ k) \<le> b / d"
    and "b / d \<le> a / c * ((1 + unit_roundoff) ^ j / (1 - unit_roundoff) ^ k)"
proof -
  from assms have d: "0 < d" and b: "0 \<le> b" by (auto intro: close_to_pos close_to_nonneg)
  have lo: "0 < c * (1 - unit_roundoff) ^ k" and hi: "0 < c * (1 + unit_roundoff) ^ k"
    using assms(4) by simp_all
  have "a * (1 - unit_roundoff) ^ j / (c * (1 + unit_roundoff) ^ k) \<le> b / d"
    using assms(1,2) b d hi assms(3) by (intro frac_le) (simp_all add: close_to_def)
  then show "a / c * ((1 - unit_roundoff) ^ j / (1 + unit_roundoff) ^ k) \<le> b / d" by simp
  have "b / d \<le> a * (1 + unit_roundoff) ^ j / (c * (1 - unit_roundoff) ^ k)"
    using assms(1,2) b d lo assms(3) by (intro frac_le) (simp_all add: close_to_def)
  then show "b / d \<le> a / c * ((1 + unit_roundoff) ^ j / (1 - unit_roundoff) ^ k)" by simp
qed


lemma close_to_divide_round:
  assumes "close_to j a b" and "close_to k c d" and "0 \<le> a" and "0 < c"
  shows "a / c * ((1 - unit_roundoff) ^ Suc j / (1 + unit_roundoff) ^ k) \<le> round_double (b / d)"
    and "round_double (b / d) \<le> a / c * ((1 + unit_roundoff) ^ Suc j / (1 - unit_roundoff) ^ k)"
proof -
  from assms have "0 < d" and "0 \<le> b" by (auto intro: close_to_pos close_to_nonneg)
  then have q: "0 \<le> b / d" by simp
  have "a / c * ((1 - unit_roundoff) ^ Suc j / (1 + unit_roundoff) ^ k)
      = a / c * ((1 - unit_roundoff) ^ j / (1 + unit_roundoff) ^ k) * (1 - unit_roundoff)"
    by simp
  also have "\<dots> \<le> b / d * (1 - unit_roundoff)"
    by (intro mult_right_mono close_to_divide(1) assms) (simp add: less_imp_le)
  also have "\<dots> \<le> round_double (b / d)" by (rule round_double_interval(1) [OF q])
  finally show "a / c * ((1 - unit_roundoff) ^ Suc j / (1 + unit_roundoff) ^ k)
      \<le> round_double (b / d)" .
  have "round_double (b / d) \<le> b / d * (1 + unit_roundoff)"
    by (rule round_double_interval(2) [OF q])
  also have "\<dots> \<le> a / c * ((1 + unit_roundoff) ^ j / (1 - unit_roundoff) ^ k) * (1 + unit_roundoff)"
    by (intro mult_right_mono close_to_divide(2) assms) (simp add: less_imp_le)
  also have "\<dots> = a / c * ((1 + unit_roundoff) ^ Suc j / (1 - unit_roundoff) ^ k)" by simp
  finally show "round_double (b / d)
      \<le> a / c * ((1 + unit_roundoff) ^ Suc j / (1 - unit_roundoff) ^ k)" .
qed

section \<open>Arithmetic of Python floats\<close>

lemma float_add_0 [simp]: "float_add 0 (round_double x) = round_double x"
  by (simp add: float_add_def)

lemma is_double_round [simp]: "is_double (round_double x)"
  by (simp add: is_double_def)

lemma is_double_of_int: "\<bar>n\<bar> < 2 ^ 53 \<Longrightarrow> is_double (of_int n)"
  by (simp add: is_double_def round_double_of_int)

lemma is_double_float_ops [simp]: "is_double (float_add x y)" "is_double (float_mul x y)"
  by (simp_all add: float_add_def float_mul_def)

lemma round_double_half: "\<bar>n\<bar> < 2 ^ 53 \<Longrightarrow> round_double (of_int n / 2) = of_int n / 2"
  using round_double_dyadic [of n "- 1"] by simp

section \<open>The nearest double\<close>

text \<open>
  No double is nearer to a number than its rounding: between the two neighbours of the
  scaled number on the integer grid there is no scaled double.
\<close>

lemma is_double_minus [simp]: "is_double (- d) \<longleftrightarrow> is_double d"
  by (auto simp: is_double_def round_double_minus)

lemma is_double_grid:
  assumes "is_double d"
  shows "d * 2 powi (52 - ilog2 d) \<in> \<int>"
proof -
  from assms have "d = of_int (round_half_even (d * 2 powi (52 - ilog2 d))) * 2 powi (ilog2 d - 52)"
    unfolding is_double_def using round_double_pos_eq [of d] by simp
  then have "d * 2 powi (52 - ilog2 d)
      = of_int (round_half_even (d * 2 powi (52 - ilog2 d))) * (2 powi (ilog2 d - 52) * 2 powi (52 - ilog2 d))"
    by (metis mult.assoc)
  then have "d * 2 powi (52 - ilog2 d) = of_int (round_half_even (d * 2 powi (52 - ilog2 d)))"
    by (simp flip: pow2_add)
  then show ?thesis by (metis Ints_of_int)
qed

lemma round_half_even_nearest:
  assumes "t \<le> of_int \<lfloor>s\<rfloor> \<or> of_int \<lfloor>s\<rfloor> + 1 \<le> t"
  shows "\<bar>of_int (round_half_even s) - s\<bar> \<le> \<bar>t - s\<bar>"
  using assms round_half_even_cases [of s] floor_correct [of s] by (elim disjE conjE) simp_all

lemma no_double_between:
  assumes "0 < x" and "is_double d"
  shows "d * 2 powi (52 - ilog2 x) \<le> of_int \<lfloor>x * 2 powi (52 - ilog2 x)\<rfloor>
       \<or> of_int \<lfloor>x * 2 powi (52 - ilog2 x)\<rfloor> + 1 \<le> d * 2 powi (52 - ilog2 x)"
proof (rule ccontr)
  let ?c = "(2::rat) powi (52 - ilog2 x)" and ?n = "\<lfloor>x * 2 powi (52 - ilog2 x)\<rfloor>"
  assume "\<not> (d * ?c \<le> of_int ?n \<or> of_int ?n + 1 \<le> d * ?c)"
  then have lo: "of_int ?n < d * ?c" and hi: "d * ?c < of_int ?n + 1" by simp_all
  from assms(1) have x: "x \<noteq> 0" "\<bar>x\<bar> = x" by simp_all
  from significand_bounds [OF x(1)] x(2)
  have "(2::rat) ^ 52 \<le> x * ?c" and "x * ?c < 2 ^ 53" by simp_all
  then have "2 ^ 52 \<le> ?n" and "?n + 1 \<le> 2 ^ 53"
    by (simp_all add: le_floor_iff floor_less_iff)
  then have "(2::rat) ^ 52 \<le> of_int ?n" and "(of_int ?n :: rat) + 1 \<le> 2 ^ 53"
    by (metis of_int_le_iff of_int_numeral of_int_power,
        metis of_int_le_iff of_int_numeral of_int_power of_int_add of_int_1)
  with lo hi have s: "2 ^ 52 < d * ?c" "d * ?c < 2 ^ 53"
    by (blast intro: le_less_trans less_le_trans)+
  then have "0 < d * ?c" by simp
  then have d: "0 < d" using pow2_pos by (rule zero_less_mult_pos2)
  have "2 powi ilog2 x \<le> \<bar>d\<bar>" and "\<bar>d\<bar> < 2 powi (ilog2 x + 1)"
    using s d by (simp_all add: power_int_diff field_simps power_int_add)
  then have "ilog2 d = ilog2 x" by (rule ilog2_unique)
  with is_double_grid [OF assms(2)] have "d * ?c \<in> \<int>" by simp
  then obtain k where k: "d * ?c = of_int k" by (auto elim: Ints_cases)
  with lo hi have "(of_int ?n :: rat) < of_int k" and "(of_int k :: rat) < of_int (?n + 1)"
    by simp_all
  then have "?n < k" and "k < ?n + 1" by (simp_all only: of_int_less_iff)
  then show False by simp
qed

lemma round_double_nearest_pos:
  assumes "0 < x" and "is_double d"
  shows "\<bar>round_double x - x\<bar> \<le> \<bar>d - x\<bar>"
proof -
  let ?c = "(2::rat) powi (52 - ilog2 x)" and ?e = "(2::rat) powi (ilog2 x - 52)"
  let ?s = "x * ?c"
  have ce: "?c * ?e = 1" by (simp flip: pow2_add)
  have "\<bar>of_int (round_half_even ?s) - ?s\<bar> \<le> \<bar>d * ?c - ?s\<bar>"
    by (rule round_half_even_nearest [OF no_double_between [OF assms]])
  then have "\<bar>of_int (round_half_even ?s) - ?s\<bar> * ?e \<le> \<bar>d * ?c - ?s\<bar> * ?e"
    by (intro mult_right_mono) simp_all
  then have "\<bar>(of_int (round_half_even ?s) - ?s) * ?e\<bar> \<le> \<bar>(d * ?c - ?s) * ?e\<bar>"
    by (simp add: abs_mult)
  moreover have "(of_int (round_half_even ?s) - ?s) * ?e = round_double x - x"
    using ce by (simp add: round_double_pos_eq left_diff_distrib mult.assoc)
  moreover have "(d * ?c - ?s) * ?e = d - x"
    using ce by (simp add: left_diff_distrib mult.assoc)
  ultimately show ?thesis by simp
qed

lemma round_double_nearest:
  assumes "is_double d"
  shows "\<bar>round_double x - x\<bar> \<le> \<bar>d - x\<bar>"
proof -
  consider "0 < x" | "x = 0" | "x < 0" by linarith
  then show ?thesis
  proof cases
    case 1
    then show ?thesis using assms by (rule round_double_nearest_pos)
  next
    case 2
    then show ?thesis by simp
  next
    case 3
    with round_double_nearest_pos [of "- x" "- d"] assms
    have "\<bar>- round_double x - - x\<bar> \<le> \<bar>- d - - x\<bar>" by (simp add: round_double_minus)
    then show ?thesis by (simp add: abs_minus_commute)
  qed
qed

end
