(* ===== verification/Sport_Scorer_F64.thy ===== *)
theory Sport_Scorer_F64
  imports Sport_Scorer Binary64
begin

text \<open>
  \<^verbatim>\<open>get_sport_specific_assessment\<close> of \<^verbatim>\<open>src/TalentTrakker/data/benchmarks.py\<close> in
  the arithmetic that Python runs it in. Theory \<open>Sport_Scorer\<close> reads \<^verbatim>\<open>+\<close>,
  \<^verbatim>\<open>*\<close> and \<^verbatim>\<open>/\<close> as the operations of the rationals; here they are the
  operations of the doubles of theory \<open>Binary64\<close>, and the division is the partial
  operation that raises \<open>ZeroDivisionError\<close>.

  \<^item> \<open>score_loop_f64\<close>, \<open>assess_sport_f64\<close> and \<open>get_sport_specific_assessment_f64\<close>
    are \<open>score_loop\<close>, \<open>assess_sport\<close> and \<open>get_sport_specific_assessment\<close> statement by
    statement, with \<open>float_add\<close>, \<open>float_mul\<close> and \<open>float_truediv\<close>; the talent level
    chain \<open>talent_of\<close> and the breakdown only compare and copy numbers and are shared.
    The result is \<open>py_error + assessment\<close>.
  \<^item> \<open>double_config\<close> is a profile as Python holds it: each float literal replaced by
    the nearest double. The weights 0.3, 0.4, 0.6 and 0.7 of the table are not doubles;
    0.5 and the integer thresholds are.
  \<^item> The scores are the caller's floats and are taken as they are; a score that is not
    a double stands for no Python value.
  \<^item> \<open>sport_score_f64\<close> names the composite score of \<open>assess_sport_f64\<close>; \<open>rel_lo\<close> and
    \<open>rel_hi\<close> are the factors of the error bound.

  The lemmas show that the function never raises, that its composite score is the
  exact weighted mean up to a relative error of about \<open>(2 * n + 4) / 2 ^ 53\<close> for \<open>n\<close>
  critical tests, that it is monotone in the scores, that the talent level agrees with
  the one of the exact function unless the exact score is within \<open>1 / 10 ^ 15\<close> of a
  threshold, that it can differ there, and that the two functions agree on integer
  scores for the sports whose weights are 0.5.

  The model of the doubles has no overflow and no underflow, so the statements are
  about Python for scores and weights whose products and sums stay in the range of the
  normal doubles, from \<open>2 powi - 1022\<close> to about 1.8e308.
\<close>

section \<open>The scorer in double precision\<close>

definition double_config :: "sport_config \<Rightarrow> sport_config" where
  "double_config config =
     config\<lparr>weight_factors := map (\<lambda>(test, weight). (test, round_double weight)) (weight_factors config),
            elite_threshold := round_double (elite_threshold config),
            talent_threshold := round_double (talent_threshold config)\<rparr>"

fun score_loop_f64 ::
  "string list \<Rightarrow> (string, num) pydict \<Rightarrow> (string, num) pydict \<Rightarrow> num \<times> num \<Rightarrow> num \<times> num" where
  "score_loop_f64 [] test_scores weights acc = acc"
| "score_loop_f64 (test # rest) test_scores weights (weighted_score, total_weight) =
     (case map_of test_scores test of
        None \<Rightarrow> score_loop_f64 rest test_scores weights (weighted_score, total_weight)
      | Some score \<Rightarrow>
          (let weight = dict_get weights test 1.0
           in score_loop_f64 rest test_scores weights
                (float_add weighted_score (float_mul score weight), float_add total_weight weight)))"

definition assess_sport_f64 ::
  "string \<Rightarrow> sport_config \<Rightarrow> (string, num) pydict \<Rightarrow> py_error + assessment" where
  "assess_sport_f64 sport config test_scores =
     (let (weighted_score, total_weight) =
            score_loop_f64 (critical_tests config) test_scores (weight_factors config) (0, 0)
      in and_then (if total_weight > 0 then float_truediv weighted_score total_weight else Inr 0)
           (\<lambda>score.
              let (level, advice) = talent_of sport config score
              in Inr \<lparr>sport_score = score,
                      talent_level = level,
                      recommendation = advice,
                      critical_tests_performance =
                        Some (dict_comprehension (\<lambda>test. test) (\<lambda>test. dict_get test_scores test 0)
                                (critical_tests config))\<rparr>))"

definition get_sport_specific_assessment_f64 ::
  "string \<Rightarrow> (string, num) pydict \<Rightarrow> py_error + assessment" where
  "get_sport_specific_assessment_f64 sport test_scores =
     (case map_of SPORT_SPECIFIC_BENCHMARKS sport of
        None \<Rightarrow> Inr unknown_sport
      | Some config \<Rightarrow> assess_sport_f64 sport (double_config config) test_scores)"

definition sport_score_f64 :: "sport_config \<Rightarrow> (string, num) pydict \<Rightarrow> num" where
  "sport_score_f64 config test_scores =
     (let (weighted_score, total_weight) =
            score_loop_f64 (critical_tests config) test_scores (weight_factors config) (0, 0)
      in if total_weight > 0 then round_double (weighted_score / total_weight) else 0)"

definition rel_lo :: "nat \<Rightarrow> rat" where
  "rel_lo n = (1 - unit_roundoff) ^ (n + 3) / (1 + unit_roundoff) ^ (n + 1)"

definition rel_hi :: "nat \<Rightarrow> rat" where
  "rel_hi n = (1 + unit_roundoff) ^ (n + 3) / (1 - unit_roundoff) ^ (n + 1)"

section \<open>Evaluation\<close>

lemma rel_bounds_2: "1 - 1 / 10 ^ 15 \<le> rel_lo 2" "rel_hi 2 \<le> 1 + 1 / 10 ^ 15"
  by code_simp+

section \<open>The result of the function\<close>

lemma assess_sport_f64_Inr:
  "assess_sport_f64 sport config ts =
     Inr \<lparr>sport_score = sport_score_f64 config ts,
          talent_level = fst (talent_of sport config (sport_score_f64 config ts)),
          recommendation = snd (talent_of sport config (sport_score_f64 config ts)),
          critical_tests_performance =
            Some (dict_comprehension (\<lambda>test. test) (\<lambda>test. dict_get ts test 0) (critical_tests config))\<rparr>"
  by (simp add: assess_sport_f64_def sport_score_f64_def float_truediv_def Let_def case_prod_beta)


lemma get_assessment_f64_known:
  "map_of SPORT_SPECIFIC_BENCHMARKS sport = Some config \<Longrightarrow>
   get_sport_specific_assessment_f64 sport ts = assess_sport_f64 sport (double_config config) ts"
  by (simp add: get_sport_specific_assessment_f64_def)

section \<open>Closeness to the exact weighted mean\<close>

lemma dict_get_map_round:
  "dict_get (map (\<lambda>(t, w). (t, round_double w)) d) k 1 = round_double (dict_get d k 1)"
  using round_double_of_int [of 1] by (induction d) (auto simp: dict_get_def)

lemma double_config_simps [simp]:
  "critical_tests (double_config c) = critical_tests c"
  "dict_get (weight_factors (double_config c)) t 1 = round_double (dict_get (weight_factors c) t 1)"
  by (simp_all add: double_config_def dict_get_map_round)

lemma score_loop_nonneg:
  assumes "\<forall>t \<in> set tests. 0 \<le> dict_get w t 1"
    and "\<forall>t \<in> set tests. \<forall>s. map_of ts t = Some s \<longrightarrow> 0 \<le> s"
    and "0 \<le> a" and "0 \<le> b"
  shows "0 \<le> fst (score_loop tests ts w (a, b))" and "0 \<le> snd (score_loop tests ts w (a, b))"
  using assms
  by (induction tests arbitrary: a b) (auto simp: Let_def split: option.splits)

lemma score_step_close:
  assumes "0 \<le> s" and "0 \<le> w" and "close_to d w w'"
    and "close_to (j + d + 1) a a'" and "close_to (j + d) b b'" and "0 \<le> a" and "0 \<le> b"
  shows "close_to (Suc j + d + 1) (a + s * w) (float_add a' (float_mul s w'))"
    and "close_to (Suc j + d) (b + w) (float_add b' w')"
proof -
  from assms(1-3) have "close_to (Suc d) (s * w) (round_double (s * w'))"
    by (intro close_to_round close_to_mult) simp_all
  then have "close_to (j + d + 1) (s * w) (round_double (s * w'))"
    using assms(1,2) by (auto intro: close_to_weaken)
  with assms(4) have "close_to (j + d + 1) (a + s * w) (a' + round_double (s * w'))"
    by (rule close_to_add)
  then show "close_to (Suc j + d + 1) (a + s * w) (float_add a' (float_mul s w'))"
    unfolding float_add_def float_mul_def
    using close_to_round [of "j + d + 1" "a + s * w"] assms(1,2,6) by simp
  from assms(2,3) have "close_to (j + d) w w'" by (auto intro: close_to_weaken)
  with assms(5) have "close_to (j + d) (b + w) (b' + w')" by (rule close_to_add)
  then show "close_to (Suc j + d) (b + w) (float_add b' w')"
    unfolding float_add_def using close_to_round [of "j + d" "b + w"] assms(2,7) by simp
qed

lemma score_loop_f64_close:
  assumes "\<forall>t \<in> set tests. 0 \<le> dict_get w t 1 \<and> close_to d (dict_get w t 1) (dict_get w' t 1)"
    and "\<forall>t \<in> set tests. \<forall>s. map_of ts t = Some s \<longrightarrow> 0 \<le> s"
    and "close_to (j + d + 1) a a'" and "close_to (j + d) b b'" and "0 \<le> a" and "0 \<le> b"
  shows "close_to (j + length tests + d + 1)
           (fst (score_loop tests ts w (a, b))) (fst (score_loop_f64 tests ts w' (a', b')))
       \<and> close_to (j + length tests + d)
           (snd (score_loop tests ts w (a, b))) (snd (score_loop_f64 tests ts w' (a', b')))"
  using assms
proof (induction tests arbitrary: j a b a' b')
  case Nil
  then show ?case by simp
next
  case (Cons t rest)
  show ?case
  proof (cases "map_of ts t")
    case None
    from Cons.prems have "close_to (Suc j + d + 1) a a'" and "close_to (Suc j + d) b b'"
      by (auto intro: close_to_weaken)
    with Cons.prems None Cons.IH [of "Suc j" a a' b b'] show ?thesis by simp
  next
    case (Some s)
    let ?w = "dict_get w t 1" and ?w' = "dict_get w' t 1"
    from Cons.prems Some have s: "0 \<le> s" and w: "0 \<le> ?w" and ww: "close_to d ?w ?w'" by auto
    note step = score_step_close [OF s w ww Cons.prems(3-6)]
    from Cons.prems(5,6) s w have "0 \<le> a + s * ?w" and "0 \<le> b + ?w" by simp_all
    with Cons.IH [of "Suc j" "a + s * ?w" "float_add a' (float_mul s ?w')" "b + ?w"
        "float_add b' ?w'"] step Cons.prems(1,2) Some
    show ?thesis by (simp add: Let_def)
  qed
qed

lemma sport_score_f64_close:
  assumes "\<forall>t \<in> set (critical_tests config). 0 \<le> dict_get (weight_factors config) t 1"
    and "\<forall>t \<in> set (critical_tests config). \<forall>s. map_of ts t = Some s \<longrightarrow> 0 \<le> s"
  shows "sport_score (assess_sport sport config ts) * rel_lo (length (critical_tests config))
           \<le> sport_score_f64 (double_config config) ts
       \<and> sport_score_f64 (double_config config) ts
           \<le> sport_score (assess_sport sport config ts) * rel_hi (length (critical_tests config))"
proof -
  let ?n = "length (critical_tests config)"
  let ?e = "score_loop (critical_tests config) ts (weight_factors config) (0, 0)"
  let ?f = "score_loop_f64 (critical_tests config) ts (weight_factors (double_config config)) (0, 0)"
  have "\<forall>t \<in> set (critical_tests config). 0 \<le> dict_get (weight_factors config) t 1 \<and>
      close_to 1 (dict_get (weight_factors config) t 1)
        (dict_get (weight_factors (double_config config)) t 1)"
    using assms(1) close_to_round [OF close_to_refl] by simp
  from score_loop_f64_close [OF this assms(2), of 0 0 0 0 0]
  have a: "close_to (?n + 2) (fst ?e) (fst ?f)" and b: "close_to (?n + 1) (snd ?e) (snd ?f)"
    by simp_all
  have nn: "0 \<le> fst ?e" "0 \<le> snd ?e"
    using score_loop_nonneg [OF assms, of 0 0] by simp_all
  have x: "sport_score (assess_sport sport config ts) = (if 0 < snd ?e then fst ?e / snd ?e else 0)"
    by (simp add: assess_sport_def Let_def case_prod_beta)
  have y: "sport_score_f64 (double_config config) ts
      = (if 0 < snd ?f then round_double (fst ?f / snd ?f) else 0)"
    by (simp add: sport_score_f64_def Let_def case_prod_beta)
  show ?thesis
  proof (cases "0 < snd ?e")
    case True
    with b have f: "0 < snd ?f" by (rule close_to_pos)
    have e: "Suc (?n + 2) = ?n + 3" by simp
    from close_to_divide_round [OF a b nn(1) True] True f show ?thesis
      unfolding e by (simp only: x y rel_lo_def rel_hi_def if_True simp_thms)
  next
    case False
    with nn(2) have "snd ?e = 0" by simp
    with b have "snd ?f = 0" by simp
    with False show ?thesis by (simp add: x y)
  qed
qed

text \<open>
  C3 (refinement). The score that Python computes is the exact weighted mean up to
  rounding. For every profile with non-negative weights and all non-negative scores,
  the double precision function returns, and its composite score \<open>y\<close> and the composite
  score \<open>x\<close> of the exact function satisfy \<open>x * rel_lo n \<le> y \<le> x * rel_hi n\<close>, where \<open>n\<close>
  is the number of critical tests,
  \<open>rel_lo n = (1 - u) ^ (n + 3) / (1 + u) ^ (n + 1)\<close>,
  \<open>rel_hi n = (1 + u) ^ (n + 3) / (1 - u) ^ (n + 1)\<close> and \<open>u = 1 / 2 ^ 53\<close>: a relative
  error of about \<open>(2 * n + 4) * u\<close>. The float literals of the weights are rounded too
  (\<open>double_config\<close>), the scores are taken as the doubles they are. The doubles of
  the model neither overflow nor underflow.
\<close>

theorem f64_score_close:
  assumes "\<forall>t \<in> set (critical_tests config). 0 \<le> dict_get (weight_factors config) t 1"
    and "\<forall>(t, s) \<in> set test_scores. 0 \<le> s"
  shows "\<exists>r. assess_sport_f64 sport (double_config config) test_scores = Inr r
     \<and> sport_score (assess_sport sport config test_scores) * rel_lo (length (critical_tests config))
         \<le> sport_score r
     \<and> sport_score r
         \<le> sport_score (assess_sport sport config test_scores) * rel_hi (length (critical_tests config))"
proof -
  from assms(2) have "\<forall>t \<in> set (critical_tests config). \<forall>s. map_of test_scores t = Some s \<longrightarrow> 0 \<le> s"
    by (auto dest: map_of_SomeD)
  from sport_score_f64_close [OF assms(1) this] show ?thesis
    by (simp add: assess_sport_f64_Inr)
qed

theorem f64_score_close_witness:
  "\<exists>r. assess_sport_f64 ''Athletics''
         (double_config \<lparr>critical_tests = [''Vertical Jump'', ''50m Sprint''],
            weight_factors = [(''Vertical Jump'', 0.4), (''50m Sprint'', 0.6)],
            elite_threshold = 85, talent_threshold = 75\<rparr>)
         [(''Vertical Jump'', 90), (''50m Sprint'', 80)] = Inr r
     \<and> 84 * rel_lo 2 \<le> sport_score r \<and> sport_score r \<le> 84 * rel_hi 2"
  using f64_score_close [of "\<lparr>critical_tests = [''Vertical Jump'', ''50m Sprint''],
            weight_factors = [(''Vertical Jump'', 0.4), (''50m Sprint'', 0.6)],
            elite_threshold = 85, talent_threshold = 75\<rparr>"
      "[(''Vertical Jump'', 90), (''50m Sprint'', 80)]" "''Athletics''"]
  by (simp add: sport_score_assess scored_pairs_def weighted_mean_def dict_get_def dict_contains_def
      flip: numeral_2_eq_2)

section \<open>The shipped table\<close>

lemma round_double_numeral [simp]:
  "numeral k < (2::int) ^ 53 \<Longrightarrow> round_double (numeral k) = numeral k"
  using round_double_of_int [of "numeral k"] by simp

lemma shipped_config:
  assumes "map_of SPORT_SPECIFIC_BENCHMARKS sport = Some config"
  shows "length (critical_tests config) = 2"
    and "elite_threshold (double_config config) = elite_threshold config"
    and "talent_threshold (double_config config) = talent_threshold config"
proof -
  have "list_all (\<lambda>e. length (critical_tests (snd e)) = 2
      \<and> elite_threshold (double_config (snd e)) = elite_threshold (snd e)
      \<and> talent_threshold (double_config (snd e)) = talent_threshold (snd e)) SPORT_SPECIFIC_BENCHMARKS"
    by (simp add: SPORT_SPECIFIC_BENCHMARKS_def double_config_def)
  with map_of_SomeD [OF assms]
  show "length (critical_tests config) = 2"
    and "elite_threshold (double_config config) = elite_threshold config"
    and "talent_threshold (double_config config) = talent_threshold config"
    by (auto simp: list_all_iff)
qed

lemma talent_of_double_config:
  "map_of SPORT_SPECIFIC_BENCHMARKS sport = Some config \<Longrightarrow>
   talent_of sport (double_config config) = talent_of sport config"
  by (rule ext) (simp add: talent_of_def shipped_config)

lemma shipped_score_close:
  assumes "map_of SPORT_SPECIFIC_BENCHMARKS sport = Some config"
    and "\<forall>(t, s) \<in> set ts. 0 \<le> s"
  shows "sport_score (assess_sport sport config ts) * (1 - 1 / 10 ^ 15)
           \<le> sport_score_f64 (double_config config) ts"
    and "sport_score_f64 (double_config config) ts
           \<le> sport_score (assess_sport sport config ts) * (1 + 1 / 10 ^ 15)"
    and "0 \<le> sport_score (assess_sport sport config ts)"
proof -
  let ?x = "sport_score (assess_sport sport config ts)"
  have w: "\<forall>t \<in> set (critical_tests config). 0 \<le> dict_get (weight_factors config) t 1"
    using wf_config_weight_pos [OF wf_sport_lookup [OF assms(1)]] by (simp add: less_imp_le)
  have s: "\<forall>t \<in> set (critical_tests config). \<forall>s. map_of ts t = Some s \<longrightarrow> 0 \<le> s"
    using assms(2) by (auto dest: map_of_SomeD)
  show x: "0 \<le> ?x"
    using score_loop_nonneg [OF w s, of 0 0]
    by (simp add: assess_sport_def Let_def case_prod_beta)
  from sport_score_f64_close [OF w s, of sport]
  have "?x * rel_lo 2 \<le> sport_score_f64 (double_config config) ts"
    and "sport_score_f64 (double_config config) ts \<le> ?x * rel_hi 2"
    by (simp_all add: shipped_config [OF assms(1)])
  moreover have "?x * (1 - 1 / 10 ^ 15) \<le> ?x * rel_lo 2" and "?x * rel_hi 2 \<le> ?x * (1 + 1 / 10 ^ 15)"
    using x rel_bounds_2 by (simp_all only: mult_left_mono)
  ultimately show "?x * (1 - 1 / 10 ^ 15) \<le> sport_score_f64 (double_config config) ts"
    and "sport_score_f64 (double_config config) ts \<le> ?x * (1 + 1 / 10 ^ 15)"
    by simp_all
qed

text \<open>
  C15 (functional). Away from the thresholds the rounding does not change the verdict:
  for a sport of the table and non-negative scores, when the exact composite score \<open>x\<close>
  is not within a relative distance of \<open>1 / 10 ^ 15\<close> of a threshold (the elite
  threshold, the talent threshold or 60), the double precision function returns the
  talent level and the recommendation of the exact function. At such a distance it may
  not, see \<open>f64_rounds_below_threshold\<close>.
\<close>

theorem f64_talent_level_agrees:
  assumes "map_of SPORT_SPECIFIC_BENCHMARKS sport = Some config"
    and "\<forall>(t, s) \<in> set test_scores. 0 \<le> s"
    and "\<forall>limit \<in> {elite_threshold config, talent_threshold config, 60}.
           limit \<le> sport_score (get_sport_specific_assessment sport test_scores) * (1 - 1 / 10 ^ 15)
         \<or> sport_score (get_sport_specific_assessment sport test_scores) * (1 + 1 / 10 ^ 15) < limit"
  shows "\<exists>r. get_sport_specific_assessment_f64 sport test_scores = Inr r
     \<and> talent_level r = talent_level (get_sport_specific_assessment sport test_scores)
     \<and> recommendation r = recommendation (get_sport_specific_assessment sport test_scores)"
proof -
  let ?x = "sport_score (assess_sport sport config test_scores)"
  let ?y = "sport_score_f64 (double_config config) test_scores"
  note c = shipped_score_close [OF assms(1,2)]
  have "limit \<le> ?y \<longleftrightarrow> limit \<le> ?x"
    if "limit \<le> ?x * (1 - 1 / 10 ^ 15) \<or> ?x * (1 + 1 / 10 ^ 15) < limit" for limit
  proof -
    have "?x * (1 - 1 / 10 ^ 15) \<le> ?x" and "?x \<le> ?x * (1 + 1 / 10 ^ 15)"
      using c(3) by (simp_all add: algebra_simps)
    with that c(1,2) show ?thesis by auto
  qed
  with assms(3) have "talent_of sport config ?y = talent_of sport config ?x"
    by (simp add: talent_of_def assessment_known [OF assms(1)])
  then show ?thesis
    by (simp add: get_assessment_f64_known [OF assms(1)] assessment_known [OF assms(1)]
        assess_sport_f64_Inr talent_of_double_config [OF assms(1)] talent_level_assess
        recommendation_assess)
qed


theorem f64_talent_level_agrees_witness:
  "\<exists>r. get_sport_specific_assessment_f64 ''Athletics''
          [(''Vertical Jump'', 90), (''50m Sprint'', 80)] = Inr r
     \<and> talent_level r = ''High Potential''"
proof -
  have "sport_score (get_sport_specific_assessment ''Athletics''
            [(''Vertical Jump'', 90), (''50m Sprint'', 80)]) = 84"
    and "talent_level (get_sport_specific_assessment ''Athletics''
            [(''Vertical Jump'', 90), (''50m Sprint'', 80)]) = ''High Potential''"
    by (simp_all add: assessment_known [OF map_of_Athletics] talent_level_tier sport_score_assess
        scored_pairs_def weighted_mean_def classify_tier_def dict_get_def dict_contains_def)
  with f64_talent_level_agrees [OF map_of_Athletics,
      of "[(''Vertical Jump'', 90), (''50m Sprint'', 80)]"]
  show ?thesis by auto
qed

text \<open>
  C26 (bounds). For a sport of the table, when at least one critical test has a score
  and all scores lie between \<open>lo\<close> and \<open>hi\<close> with \<open>0 \<le> lo\<close>, the composite score that
  Python computes lies between \<open>lo * (1 - 1 / 10 ^ 15)\<close> and
  \<open>hi * (1 + 1 / 10 ^ 15)\<close>. It need not lie between \<open>lo\<close> and \<open>hi\<close>: the one score 86
  for Athletics gives 85.99999999999999.
\<close>

theorem f64_score_bounds:
  assumes "map_of SPORT_SPECIFIC_BENCHMARKS sport = Some config"
    and "\<exists>t \<in> set (critical_tests config). dict_contains test_scores t"
    and "\<forall>(t, s) \<in> set test_scores. lo \<le> s \<and> s \<le> hi" and "0 \<le> lo"
  shows "\<exists>r. get_sport_specific_assessment_f64 sport test_scores = Inr r
     \<and> lo * (1 - 1 / 10 ^ 15) \<le> sport_score r \<and> sport_score r \<le> hi * (1 + 1 / 10 ^ 15)"
proof -
  let ?x = "sport_score (assess_sport sport config test_scores)"
  from assms(3,4) have nn: "\<forall>(t, s) \<in> set test_scores. 0 \<le> s" by auto
  have "\<forall>t \<in> set (critical_tests config). \<forall>s. map_of test_scores t = Some s \<longrightarrow> lo \<le> s \<and> s \<le> hi"
    using assms(3) by (auto dest: map_of_SomeD)
  from sport_score_between [OF wf_sport_lookup [OF assms(1)] assms(2) this]
  have "lo \<le> ?x" and "?x \<le> hi" by simp_all
  then have "lo * (1 - 1 / 10 ^ 15) \<le> ?x * (1 - 1 / 10 ^ 15)"
    and "?x * (1 + 1 / 10 ^ 15) \<le> hi * (1 + 1 / 10 ^ 15)"
    by (simp_all add: mult_right_mono)
  with shipped_score_close(1,2) [OF assms(1) nn] show ?thesis
    by (simp add: get_assessment_f64_known [OF assms(1)] assess_sport_f64_Inr)
qed

theorem f64_score_bounds_witness:
  "\<exists>r. get_sport_specific_assessment_f64 ''Athletics''
          [(''Vertical Jump'', 100), (''50m Sprint'', 0)] = Inr r
     \<and> 0 * (1 - 1 / 10 ^ 15) \<le> sport_score r \<and> sport_score r \<le> 100 * (1 + 1 / 10 ^ 15)"
  using f64_score_bounds [OF map_of_Athletics, of "[(''Vertical Jump'', 100), (''50m Sprint'', 0)]" 0 100]
  by (simp add: dict_contains_def)

section \<open>No division by zero\<close>

text \<open>
  C9 (error). The function never raises: the quotient is guarded by
  \<^verbatim>\<open>total_weight > 0\<close>, so for every profile and all scores, also when no critical
  test has a score or when the weights cancel, the division by zero is not reached.
\<close>

theorem f64_never_raises:
  "(\<exists>r. assess_sport_f64 sport config test_scores = Inr r)
   \<and> (\<exists>r. get_sport_specific_assessment_f64 sport test_scores = Inr r)"
  by (simp add: get_sport_specific_assessment_f64_def assess_sport_f64_Inr split: option.split)

section \<open>The talent level\<close>

lemma talent_level_f64:
  "assess_sport_f64 sport config ts = Inr r \<Longrightarrow>
   talent_level r = tier_name (classify_tier config (sport_score r))"
  by (auto simp: assess_sport_f64_Inr fst_talent_of)

text \<open>
  C18 (functional). In double precision too the talent level is decided by the computed
  composite score alone, first match first: Elite Potential from the elite threshold,
  else High Potential from the talent threshold, else Moderate Potential from 60, else
  Developing, and each level is returned exactly on those scores. The comparisons of a
  double with a threshold are exact.
\<close>

theorem f64_talent_level_thresholds:
  assumes "assess_sport_f64 sport config test_scores = Inr r"
  shows "(talent_level r = ''Elite Potential'' \<longleftrightarrow> elite_threshold config \<le> sport_score r)
     \<and> (talent_level r = ''High Potential'' \<longleftrightarrow>
          sport_score r < elite_threshold config \<and> talent_threshold config \<le> sport_score r)
     \<and> (talent_level r = ''Moderate Potential'' \<longleftrightarrow>
          sport_score r < elite_threshold config \<and> sport_score r < talent_threshold config
          \<and> 60 \<le> sport_score r)
     \<and> (talent_level r = ''Developing'' \<longleftrightarrow>
          sport_score r < elite_threshold config \<and> sport_score r < talent_threshold config
          \<and> sport_score r < 60)"
proof -
  have names: "''Elite Potential'' = tier_name ElitePotential"
    "''High Potential'' = tier_name HighPotential"
    "''Moderate Potential'' = tier_name ModeratePotential"
    "''Developing'' = tier_name Developing"
    by simp_all
  show ?thesis
    unfolding talent_level_f64 [OF assms] names tier_name_inject classify_tier_iffs by simp
qed

theorem f64_talent_level_thresholds_witness:
  "\<exists>r. assess_sport_f64 ''Athletics''
          \<lparr>critical_tests = [''Vertical Jump'', ''50m Sprint''],
           weight_factors = [(''Vertical Jump'', 1 / 2), (''50m Sprint'', 1 / 2)],
           elite_threshold = 85, talent_threshold = 75\<rparr> [(''Vertical Jump'', 85)] = Inr r
      \<and> talent_level r = ''Elite Potential'' \<and> sport_score r = 85"
proof -
  let ?c = "\<lparr>critical_tests = [''Vertical Jump'', ''50m Sprint''],
           weight_factors = [(''Vertical Jump'', 1 / 2), (''50m Sprint'', 1 / 2)],
           elite_threshold = 85, talent_threshold = 75\<rparr>"
  have "sport_score_f64 ?c [(''Vertical Jump'', 85)] = 85" by code_simp
  then obtain r where r: "assess_sport_f64 ''Athletics'' ?c [(''Vertical Jump'', 85)] = Inr r"
    and s: "sport_score r = 85"
    by (simp add: assess_sport_f64_Inr)
  from f64_talent_level_thresholds [OF r] r s show ?thesis by simp
qed

section \<open>Monotonicity\<close>

lemma score_loop_f64_mono:
  assumes "\<forall>t \<in> set tests. 0 \<le> dict_get w t 1"
    and "\<forall>t \<in> set tests. dict_contains ts t = dict_contains ts' t \<and> dict_get ts t 0 \<le> dict_get ts' t 0"
    and "a \<le> a'"
  shows "fst (score_loop_f64 tests ts w (a, b)) \<le> fst (score_loop_f64 tests ts' w (a', b))
       \<and> snd (score_loop_f64 tests ts w (a, b)) = snd (score_loop_f64 tests ts' w (a', b))"
  using assms
proof (induction tests arbitrary: a a' b)
  case Nil
  then show ?case by simp
next
  case (Cons t rest)
  show ?case
  proof (cases "map_of ts t")
    case None
    with Cons.prems have "map_of ts' t = None" by (auto simp: dict_contains_def)
    with None Cons.prems Cons.IH [of a a' b] show ?thesis by simp
  next
    case (Some s)
    with Cons.prems obtain s' where s': "map_of ts' t = Some s'" and le: "s \<le> s'"
      by (auto simp: dict_contains_def dict_get_def)
    from Cons.prems le have "a + round_double (s * dict_get w t 1) \<le> a' + round_double (s' * dict_get w t 1)"
      by (intro add_mono round_double_mono mult_right_mono) simp_all
    then have "float_add a (float_mul s (dict_get w t 1)) \<le> float_add a' (float_mul s' (dict_get w t 1))"
      unfolding float_add_def float_mul_def by (rule round_double_mono)
    from Cons.IH [OF _ _ this, of "float_add b (dict_get w t 1)"] Cons.prems Some s'
    show ?thesis by (simp add: Let_def)
  qed
qed

text \<open>
  C16 (invariant). The composite score that Python computes is monotone in the scores:
  for a profile with non-negative weights, raising the scores of critical tests (the
  same tests having a score) never lowers the composite score. This holds exactly, not
  only up to rounding, because each rounding is monotone.
\<close>

theorem f64_score_mono:
  assumes "\<forall>t \<in> set (critical_tests config). 0 \<le> dict_get (weight_factors config) t 1"
    and "\<forall>t \<in> set (critical_tests config).
           dict_contains test_scores t = dict_contains test_scores' t \<and>
           dict_get test_scores t 0 \<le> dict_get test_scores' t 0"
  shows "\<exists>r r'. assess_sport_f64 sport config test_scores = Inr r
     \<and> assess_sport_f64 sport config test_scores' = Inr r'
     \<and> sport_score r \<le> sport_score r'"
proof -
  let ?f = "\<lambda>ts. score_loop_f64 (critical_tests config) ts (weight_factors config) (0, 0)"
  from score_loop_f64_mono [OF assms, of 0 0 0]
  have "fst (?f test_scores) \<le> fst (?f test_scores')" and "snd (?f test_scores) = snd (?f test_scores')"
    by simp_all
  then have "sport_score_f64 config test_scores \<le> sport_score_f64 config test_scores'"
    by (auto simp: sport_score_f64_def Let_def case_prod_beta divide_right_mono
        intro!: round_double_mono)
  then show ?thesis by (simp add: assess_sport_f64_Inr)
qed

theorem f64_score_mono_witness:
  "\<exists>r r'. assess_sport_f64 ''Basketball''
         \<lparr>critical_tests = [''Vertical Jump'', ''50m Sprint''],
          weight_factors = [(''Vertical Jump'', 0.7), (''50m Sprint'', 0.3)],
          elite_threshold = 84, talent_threshold = 74\<rparr>
         [(''Vertical Jump'', 96), (''50m Sprint'', 56)] = Inr r
     \<and> assess_sport_f64 ''Basketball''
         \<lparr>critical_tests = [''Vertical Jump'', ''50m Sprint''],
          weight_factors = [(''Vertical Jump'', 0.7), (''50m Sprint'', 0.3)],
          elite_threshold = 84, talent_threshold = 74\<rparr>
         [(''Vertical Jump'', 96), (''50m Sprint'', 57)] = Inr r'
     \<and> sport_score r \<le> sport_score r'"
  using f64_score_mono [of "\<lparr>critical_tests = [''Vertical Jump'', ''50m Sprint''],
          weight_factors = [(''Vertical Jump'', 0.7), (''50m Sprint'', 0.3)],
          elite_threshold = 84, talent_threshold = 74\<rparr>"
      "[(''Vertical Jump'', 96), (''50m Sprint'', 56)]"
      "[(''Vertical Jump'', 96), (''50m Sprint'', 57)]" "''Basketball''"]
  by (simp add: dict_get_def dict_contains_def)

section \<open>Exact cases\<close>

lemma half_weight_loop:
  assumes "dict_get w t1 1 = 1 / 2" and "dict_get w t2 1 = 1 / 2"
    and "\<forall>(t, s) \<in> set ts. s \<in> \<int> \<and> \<bar>s\<bar> < 2 ^ 51"
  shows "score_loop_f64 [t1, t2] ts w (0, 0) = score_loop [t1, t2] ts w (0, 0)"
    and "round_double (fst (score_loop [t1, t2] ts w (0, 0)) / snd (score_loop [t1, t2] ts w (0, 0)))
       = fst (score_loop [t1, t2] ts w (0, 0)) / snd (score_loop [t1, t2] ts w (0, 0))"
proof -
  have int: "\<exists>n. s = of_int n \<and> \<bar>n\<bar> < 2 ^ 51" if "map_of ts t = Some s" for t s
  proof -
    from assms(3) map_of_SomeD [OF that] have "s \<in> \<int>" and b: "\<bar>s\<bar> < 2 ^ 51" by auto
    then obtain n where n: "s = of_int n" by (auto elim: Ints_cases)
    with b have "(of_int \<bar>n\<bar> :: rat) < of_int (2 ^ 51)" by simp
    then have "\<bar>n\<bar> < 2 ^ 51" by (simp only: of_int_less_iff)
    with n show ?thesis by blast
  qed
  have prod: "round_double (s / 2) = s / 2" if "map_of ts t = Some s" for t s
    using int [OF that] by (auto simp: round_double_half)
  have sum: "round_double (s / 2 + s' / 2) = s / 2 + s' / 2"
    if "map_of ts t = Some s" and "map_of ts t' = Some s'" for t s t' s'
  proof -
    from int [OF that(1)] int [OF that(2)] obtain n n'
      where "s = of_int n" "\<bar>n\<bar> < 2 ^ 51" "s' = of_int n'" "\<bar>n'\<bar> < 2 ^ 51" by auto
    then show ?thesis using round_double_half [of "n + n'"] by (simp add: add_divide_distrib)
  qed
  have one: "round_double (1 / 2) = 1 / 2" "round_double 1 = 1"
    using round_double_half [of 1] round_double_of_int [of 1] by simp_all
  have whole: "round_double s = s" if "map_of ts t = Some s" for t s
    using int [OF that] by (auto simp: round_double_of_int)
  show "score_loop_f64 [t1, t2] ts w (0, 0) = score_loop [t1, t2] ts w (0, 0)"
    by (cases "map_of ts t1"; cases "map_of ts t2")
       (simp_all add: assms(1,2) Let_def float_add_def float_mul_def prod sum one)
  show "round_double (fst (score_loop [t1, t2] ts w (0, 0)) / snd (score_loop [t1, t2] ts w (0, 0)))
       = fst (score_loop [t1, t2] ts w (0, 0)) / snd (score_loop [t1, t2] ts w (0, 0))"
    by (cases "map_of ts t1"; cases "map_of ts t2")
       (simp_all add: assms(1,2) Let_def prod sum whole)
qed


lemma half_weight_config:
  assumes "sport \<in> {''Football'', ''Wrestling'', ''Boxing''}"
  shows "\<exists>config t1 t2. map_of SPORT_SPECIFIC_BENCHMARKS sport = Some config
           \<and> critical_tests config = [t1, t2]
           \<and> weight_factors (double_config config) = weight_factors config
           \<and> dict_get (weight_factors config) t1 1 = 1 / 2
           \<and> dict_get (weight_factors config) t2 1 = 1 / 2"
  using assms round_double_half [of 1]
  by (auto simp: SPORT_SPECIFIC_BENCHMARKS_def double_config_def dict_get_def)

text \<open>
  C17 (equivalence). Where no rounding occurs the two functions agree: for Football,
  Wrestling and Boxing, whose weights are 0.5 and 0.5, and scores that are integers
  below \<open>2 ^ 51\<close> in absolute value, every product, sum and quotient of the loop is a
  double, and the function in double precision returns the result of the exact
  function, in all four fields.
\<close>

theorem f64_exact_half_weights:
  assumes "sport \<in> {''Football'', ''Wrestling'', ''Boxing''}"
    and "\<forall>(t, s) \<in> set test_scores. s \<in> \<int> \<and> \<bar>s\<bar> < 2 ^ 51"
  shows "get_sport_specific_assessment_f64 sport test_scores
       = Inr (get_sport_specific_assessment sport test_scores)"
proof -
  from half_weight_config [OF assms(1)] obtain config t1 t2
    where c: "map_of SPORT_SPECIFIC_BENCHMARKS sport = Some config"
      and t: "critical_tests config = [t1, t2]"
      and w: "weight_factors (double_config config) = weight_factors config"
        "dict_get (weight_factors config) t1 1 = 1 / 2" "dict_get (weight_factors config) t2 1 = 1 / 2"
    by blast
  let ?e = "score_loop [t1, t2] test_scores (weight_factors config) (0, 0)"
  note l = half_weight_loop [OF w(2,3) assms(2)]
  have "sport_score_f64 (double_config config) test_scores
      = sport_score (assess_sport sport config test_scores)"
    by (simp add: sport_score_f64_def assess_sport_def t w(1) l Let_def case_prod_beta
        del: score_loop.simps score_loop_f64.simps)
  then show ?thesis
    by (simp add: get_assessment_f64_known [OF c] assessment_known [OF c] assess_sport_f64_Inr
        talent_of_double_config [OF c] assess_sport_def Let_def case_prod_beta
        del: score_loop.simps)
qed


theorem f64_exact_half_weights_witness:
  "get_sport_specific_assessment_f64 ''Football'' [(''50m Sprint'', 80), (''Push-ups'', 91)]
     = Inr (get_sport_specific_assessment ''Football'' [(''50m Sprint'', 80), (''Push-ups'', 91)])"
  using f64_exact_half_weights [of "''Football''" "[(''50m Sprint'', 80), (''Push-ups'', 91)]"]
  by simp

section \<open>Rounding at a threshold\<close>

text \<open>
  The example of a verdict changed by rounding: for Basketball with the scores 96 and
  56 the exact mean is 84, the elite threshold, and Python computes 83.99999999999999.
\<close>

lemma f64_rounds_below_threshold:
  "map_sum id (\<lambda>r. (sport_score r, talent_level r))
     (get_sport_specific_assessment_f64 ''Basketball'' [(''Vertical Jump'', 96), (''50m Sprint'', 56)])
     = Inr (84 - 1 / 2 ^ 46, ''High Potential'')"
  "sport_score (get_sport_specific_assessment ''Basketball''
     [(''Vertical Jump'', 96), (''50m Sprint'', 56)]) = 84"
  "talent_level (get_sport_specific_assessment ''Basketball''
     [(''Vertical Jump'', 96), (''50m Sprint'', 56)]) = ''Elite Potential''"
  by code_simp+

end
