(* ===== verification/Percentile_Classifier.thy ===== *)
theory Percentile_Classifier
  imports TT_Prelude
begin

text \<open>
  The percentile classifier of \<^verbatim>\<open>src/TalentTrakker/data/benchmarks.py\<close>: the table
  \<^verbatim>\<open>PERFORMANCE_PERCENTILES\<close> and the function \<^verbatim>\<open>compare_to_national_standards\<close>.

  \<^item> \<open>percentile_scan\<close> is the \<^verbatim>\<open>for\<close> loop over the percentile keys, with the
    subscript of the table by the key and the \<^verbatim>\<open>return\<close> at the first bracket that
    contains the score; \<open>compare_with\<close> is the loop over the keys sorted in
    descending order followed by the two edge cases, and
    \<open>compare_to_national_standards\<close> the whole function. The two subscripts of the
    source are not guarded, so the result is a sum with the \<^verbatim>\<open>KeyError\<close> on the left,
    which is shown never to be taken.
  \<^item> \<open>national_bracket\<close> is the abstract specification: the percentile as a
    piecewise function of the score.
\<close>

section \<open>Data model\<close>

record percentile_entry =
  score_range :: "num \<times> num"
  description :: string

record comparison =
  percentile :: int
  description :: string
  performance_level :: string

type_synonym percentile_table = "(int, percentile_entry) pydict"

definition PERFORMANCE_PERCENTILES :: "(string, percentile_table) pydict" where
  [tt_data]: "PERFORMANCE_PERCENTILES =
     [(''national'',
       [(50, \<lparr>score_range = (40, 60), description = ''Average national performance''\<rparr>),
        (75, \<lparr>score_range = (60, 75), description = ''Above average national performance''\<rparr>),
        (90, \<lparr>score_range = (75, 85), description = ''Excellent national performance''\<rparr>),
        (95, \<lparr>score_range = (85, 95), description = ''Elite national performance''\<rparr>),
        (99, \<lparr>score_range = (95, 100), description = ''World-class performance''\<rparr>)]),
      (''state'',
       [(50, \<lparr>score_range = (35, 55), description = ''Average state performance''\<rparr>),
        (75, \<lparr>score_range = (55, 70), description = ''Above average state performance''\<rparr>),
        (90, \<lparr>score_range = (70, 82), description = ''Excellent state performance''\<rparr>),
        (95, \<lparr>score_range = (82, 92), description = ''Elite state performance''\<rparr>),
        (99, \<lparr>score_range = (92, 100), description = ''Outstanding state performance''\<rparr>)])]"

section \<open>Operations\<close>

fun percentile_scan :: "percentile_table \<Rightarrow> int list \<Rightarrow> num \<Rightarrow> py_error + comparison option" where
  "percentile_scan tbl [] score = Inr None"
| "percentile_scan tbl (p # rest) score =
     (case dict_subscript tbl p of
        Inl e \<Rightarrow> Inl e
      | Inr entry \<Rightarrow>
          (let range = score_range entry in
           if fst range \<le> score \<and> score \<le> snd range then
             Inr (Some \<lparr>percentile = p,
                        description = percentile_entry.description entry,
                        performance_level = string_of_int p @ ''th percentile nationally''\<rparr>)
           else percentile_scan tbl rest score))"

definition compare_with :: "percentile_table \<Rightarrow> num \<Rightarrow> py_error + comparison" where
  "compare_with national_percentiles score =
     (case percentile_scan national_percentiles
             (sorted_reverse (dict_keys national_percentiles)) score of
        Inl e \<Rightarrow> Inl e
      | Inr (Some result) \<Rightarrow> Inr result
      | Inr None \<Rightarrow>
          if score > 95 then
            Inr \<lparr>percentile = 99,
                 description = ''World-class performance'',
                 performance_level = ''99th percentile nationally''\<rparr>
          else
            Inr \<lparr>percentile = 25,
                 description = ''Below average performance'',
                 performance_level = ''Below 25th percentile nationally''\<rparr>)"

definition compare_to_national_standards :: "num \<Rightarrow> py_error + comparison" where
  "compare_to_national_standards score =
     (case dict_subscript PERFORMANCE_PERCENTILES ''national'' of
        Inl e \<Rightarrow> Inl e
      | Inr national_percentiles \<Rightarrow> compare_with national_percentiles score)"

section \<open>Abstract specification\<close>

definition national_bracket :: "num \<Rightarrow> int" where
  "national_bracket s =
     (if s < 40 then 25
      else if s < 60 then 50
      else if s < 75 then 75
      else if s < 85 then 90
      else if s < 95 then 95
      else 99)"

definition national_description :: "int \<Rightarrow> string" where
  "national_description p =
     (if p = 25 then ''Below average performance''
      else if p = 50 then ''Average national performance''
      else if p = 75 then ''Above average national performance''
      else if p = 90 then ''Excellent national performance''
      else if p = 95 then ''Elite national performance''
      else ''World-class performance'')"

definition national_level :: "int \<Rightarrow> string" where
  "national_level p =
     (if p = 25 then ''Below 25th percentile nationally''
      else string_of_int p @ ''th percentile nationally'')"

definition national_table :: percentile_table where
  "national_table = dict_get PERFORMANCE_PERCENTILES ''national'' []"

section \<open>The scan never raises\<close>

lemma percentile_scan_total:
  "set ks \<subseteq> set (dict_keys tbl) \<Longrightarrow> \<exists>r. percentile_scan tbl ks s = Inr r"
proof (induction ks)
  case Nil
  then show ?case by simp
next
  case (Cons k ks)
  then obtain entry where "dict_subscript tbl k = Inr entry"
    using dict_subscript_key [of k tbl] by auto
  with Cons show ?case by (simp add: Let_def)
qed

section \<open>The national table\<close>

lemma national_subscript:
  "dict_subscript PERFORMANCE_PERCENTILES ''national'' = Inr national_table"
  by (simp add: dict_subscript_def national_table_def PERFORMANCE_PERCENTILES_def)

lemma national_table_eq:
  "national_table =
     [(50, \<lparr>score_range = (40, 60), description = ''Average national performance''\<rparr>),
      (75, \<lparr>score_range = (60, 75), description = ''Above average national performance''\<rparr>),
      (90, \<lparr>score_range = (75, 85), description = ''Excellent national performance''\<rparr>),
      (95, \<lparr>score_range = (85, 95), description = ''Elite national performance''\<rparr>),
      (99, \<lparr>score_range = (95, 100), description = ''World-class performance''\<rparr>)]"
  by (simp add: national_table_def PERFORMANCE_PERCENTILES_def)

lemma national_keys_sorted:
  "sorted_reverse (dict_keys national_table) = [99, 95, 90, 75, 50]"
  by (simp add: national_table_eq dict_keys_def sorted_reverse_def)

lemma string_of_int_percentiles:
  "string_of_int 99 = ''99''" "string_of_int 95 = ''95''" "string_of_int 90 = ''90''"
  "string_of_int 75 = ''75''" "string_of_int 50 = ''50''"
  by (simp_all add: string_of_int_def string_of_nat.simps digit_char_def)

lemma compare_national_unfold:
  "compare_to_national_standards s = compare_with national_table s"
  by (simp add: compare_to_national_standards_def national_subscript)

lemma national_scan:
  "percentile_scan national_table [99, 95, 90, 75, 50] s =
     Inr (if 95 \<le> s \<and> s \<le> 100 then
            Some \<lparr>percentile = 99, description = ''World-class performance'',
                  performance_level = ''99th percentile nationally''\<rparr>
          else if 85 \<le> s \<and> s \<le> 95 then
            Some \<lparr>percentile = 95, description = ''Elite national performance'',
                  performance_level = ''95th percentile nationally''\<rparr>
          else if 75 \<le> s \<and> s \<le> 85 then
            Some \<lparr>percentile = 90, description = ''Excellent national performance'',
                  performance_level = ''90th percentile nationally''\<rparr>
          else if 60 \<le> s \<and> s \<le> 75 then
            Some \<lparr>percentile = 75, description = ''Above average national performance'',
                  performance_level = ''75th percentile nationally''\<rparr>
          else if 40 \<le> s \<and> s \<le> 60 then
            Some \<lparr>percentile = 50, description = ''Average national performance'',
                  performance_level = ''50th percentile nationally''\<rparr>
          else None)"
  by (simp add: national_table_eq dict_subscript_def string_of_int_percentiles Let_def)

lemma compare_with_national:
  "compare_with national_table s =
     Inr \<lparr>percentile = national_bracket s,
          description = national_description (national_bracket s),
          performance_level = national_level (national_bracket s)\<rparr>"
  unfolding compare_with_def national_keys_sorted national_scan
  by (auto simp: national_bracket_def national_description_def national_level_def
      string_of_int_percentiles)

lemma national_bracket_mono: "s \<le> s' \<Longrightarrow> national_bracket s \<le> national_bracket s'"
  by (auto simp: national_bracket_def)

lemma national_percentile:
  "\<exists>r. compare_to_national_standards s = Inr r \<and> percentile r = national_bracket s"
  by (simp add: compare_national_unfold compare_with_national)

section \<open>Properties of the classifier\<close>

text \<open>
  C4 (refinement). \<^verbatim>\<open>compare_to_national_standards\<close> never raises and implements the
  piecewise classification of the score: percentile 25 below 40, 50 on [40, 60),
  75 on [60, 75), 90 on [75, 85), 95 on [85, 95) and 99 from 95 on, scores above 100
  included, each with the description of its bracket and the performance level
  string built from the percentile. A score on the shared boundary of two brackets
  takes the higher one.
\<close>

theorem compare_national_spec:
  "compare_to_national_standards s =
     Inr \<lparr>percentile = national_bracket s,
          description = national_description (national_bracket s),
          performance_level = national_level (national_bracket s)\<rparr>"
  by (simp add: compare_national_unfold compare_with_national)

text \<open>
  C13 (invariant). The national percentile is monotone in the score: a higher score
  never gets a lower percentile.
\<close>

theorem compare_national_mono:
  assumes "s \<le> s'"
  shows "\<exists>r r'. compare_to_national_standards s = Inr r
           \<and> compare_to_national_standards s' = Inr r'
           \<and> percentile r \<le> percentile r'"
  using national_bracket_mono [OF assms]
  by (simp add: compare_national_unfold compare_with_national)

theorem compare_national_mono_witness:
  "\<exists>r r'. compare_to_national_standards 59 = Inr r
         \<and> compare_to_national_standards 60 = Inr r'
         \<and> percentile r \<le> percentile r'"
  by (rule compare_national_mono) simp

text \<open>
  C25 (functional). The loop over the national brackets, taken in the descending order
  of the source, finds no bracket exactly for the scores below 40 and above 100. So
  the edge case \<^verbatim>\<open>score > 95\<close> after the loop is reached only by scores above 100;
  a score such as 97 returns from inside the loop.
\<close>

theorem scan_misses_iff:
  "percentile_scan national_table (sorted_reverse (dict_keys national_table)) s = Inr None
   \<longleftrightarrow> s < 40 \<or> 100 < s"
  unfolding national_keys_sorted national_scan by auto

end
