(* ===== verification/Py_Values.thy ===== *)
theory Py_Values
  imports TT_Prelude
begin

text \<open>
  Python values and built-ins used by \<^verbatim>\<open>src/assets/sample_videos.py\<close>.

  The video metadata, the requirement tables and the catalogue are dictionaries with
  values of several Python types, and \<^verbatim>\<open>validate_video_requirements\<close> applies
  \<^verbatim>\<open><\<close>, \<^verbatim>\<open>in\<close>, \<^verbatim>\<open>.split\<close> and \<^verbatim>\<open>int\<close> to whatever
  the caller stored there. \<open>pyval\<close> is the type of these values, and each built-in
  is a function that returns the exception class Python raises on the operand types it
  refuses:

  \<^item> \<open>truthy\<close> is the truth value of an operand of \<^verbatim>\<open>and\<close> or \<^verbatim>\<open>if\<close>;
  \<^item> \<open>py_lt\<close>, \<open>py_gt\<close> compare a value with a number (\<^verbatim>\<open>TypeError\<close> unless it is
    a number); \<open>py_and\<close> and \<open>py_or\<close> are the short-circuit connectives, whose
    right operand is evaluated, and may raise, only when the left one does not decide;
  \<^item> \<open>py_in\<close> is \<^verbatim>\<open>s in v\<close> for a string \<open>s\<close>: substring of a string, element of a
    list, key of a dict, \<^verbatim>\<open>TypeError\<close> otherwise;
  \<^item> \<open>py_split\<close> is \<^verbatim>\<open>v.split(c)\<close> for a one-character separator
    (\<^verbatim>\<open>AttributeError\<close> unless \<open>v\<close> is a string), over \<open>split_on\<close>;
  \<^item> \<open>py_int\<close> is \<^verbatim>\<open>int(s)\<close> on a string: surrounding white space is dropped, one
    sign is allowed, the digits may be separated by single underscores, anything else
    is a \<^verbatim>\<open>ValueError\<close>.

  Strings are ASCII: the white space and the digits of \<open>py_int\<close> are the ASCII ones.
  Python's limit on the number of digits of an integer literal (4300 by default) is not
  modelled. \<open>join_with\<close> (\<^verbatim>\<open>c.join(parts)\<close>) and \<open>digits_value\<close> are the
  references the lemmas on \<open>split_on\<close> and \<open>py_int\<close> are stated with.
\<close>

section \<open>Values\<close>

datatype pyval =
    PyNone
  | PyInt int
  | PyFloat num
  | PyStr string
  | PyList "pyval list"
  | PyDict "(string \<times> pyval) list"

fun truthy :: "pyval \<Rightarrow> bool" where
  "truthy PyNone = False"
| "truthy (PyInt i) = (i \<noteq> 0)"
| "truthy (PyFloat x) = (x \<noteq> 0)"
| "truthy (PyStr s) = (s \<noteq> [])"
| "truthy (PyList xs) = (xs \<noteq> [])"
| "truthy (PyDict d) = (d \<noteq> [])"

fun num_of :: "pyval \<Rightarrow> py_error + num" where
  "num_of (PyInt i) = Inr (of_int i)"
| "num_of (PyFloat x) = Inr x"
| "num_of v = Inl TypeError"

definition py_lt :: "pyval \<Rightarrow> num \<Rightarrow> py_error + bool" where
  "py_lt v n = and_then (num_of v) (\<lambda>x. Inr (x < n))"

definition py_gt :: "pyval \<Rightarrow> num \<Rightarrow> py_error + bool" where
  "py_gt v n = and_then (num_of v) (\<lambda>x. Inr (x > n))"

definition py_and :: "bool \<Rightarrow> py_error + bool \<Rightarrow> py_error + bool" where
  "py_and a m = (if a then m else Inr False)"

definition py_or :: "py_error + bool \<Rightarrow> py_error + bool \<Rightarrow> py_error + bool" where
  "py_or m1 m2 = and_then m1 (\<lambda>b. if b then Inr True else m2)"

section \<open>Membership and splitting\<close>

fun is_substring :: "'a list \<Rightarrow> 'a list \<Rightarrow> bool" where
  "is_substring s [] = (s = [])"
| "is_substring s (c # cs) = (take (length s) (c # cs) = s \<or> is_substring s cs)"

fun py_in :: "string \<Rightarrow> pyval \<Rightarrow> py_error + bool" where
  "py_in s (PyStr t) = Inr (is_substring s t)"
| "py_in s (PyList xs) = Inr (PyStr s \<in> set xs)"
| "py_in s (PyDict d) = Inr (dict_contains d s)"
| "py_in s v = Inl TypeError"

fun split_on :: "'a \<Rightarrow> 'a list \<Rightarrow> 'a list list" where
  "split_on c [] = [[]]"
| "split_on c (d # ds) =
     (if d = c then [] # split_on c ds
      else (case split_on c ds of p # ps \<Rightarrow> (d # p) # ps | [] \<Rightarrow> [[d]]))"

fun py_split :: "pyval \<Rightarrow> char \<Rightarrow> py_error + string list" where
  "py_split (PyStr s) c = Inr (split_on c s)"
| "py_split v c = Inl AttributeError"

fun join_with :: "'a \<Rightarrow> 'a list list \<Rightarrow> 'a list" where
  "join_with c [] = []"
| "join_with c [p] = p"
| "join_with c (p # q # ps) = p @ c # join_with c (q # ps)"

section \<open>Integer literals\<close>

definition is_space :: "char \<Rightarrow> bool" where
  "is_space c = (c \<in> set [CHR 0x09, CHR 0x0A, CHR 0x0B, CHR 0x0C, CHR 0x0D, CHR '' ''])"

definition is_digit :: "char \<Rightarrow> bool" where
  "is_digit c = (c \<in> set ''0123456789'')"

definition digit_val :: "char \<Rightarrow> nat" where
  "digit_val c = of_char c - 48"

definition strip :: "string \<Rightarrow> string" where
  "strip s = rev (dropWhile is_space (rev (dropWhile is_space s)))"

fun int_digits :: "nat \<Rightarrow> string \<Rightarrow> nat option" where
  "int_digits acc [] = Some acc"
| "int_digits acc (c # cs) =
     (if is_digit c then int_digits (10 * acc + digit_val c) cs
      else if c = CHR ''_'' then
        (case cs of
           [] \<Rightarrow> None
         | d # ds \<Rightarrow> if is_digit d then int_digits (10 * acc + digit_val d) ds else None)
      else None)"

definition nat_literal :: "string \<Rightarrow> nat option" where
  "nat_literal s =
     (case s of
        [] \<Rightarrow> None
      | c # cs \<Rightarrow> if is_digit c then int_digits (digit_val c) cs else None)"

definition signed_literal :: "string \<Rightarrow> int option" where
  "signed_literal s =
     (case s of
        [] \<Rightarrow> None
      | c # cs \<Rightarrow>
          if c = CHR ''-'' then map_option (\<lambda>n. - int n) (nat_literal cs)
          else if c = CHR ''+'' then map_option int (nat_literal cs)
          else map_option int (nat_literal s))"

definition py_int :: "string \<Rightarrow> py_error + int" where
  "py_int s = (case signed_literal (strip s) of None \<Rightarrow> Inl ValueError | Some i \<Rightarrow> Inr i)"

fun digits_value :: "nat \<Rightarrow> string \<Rightarrow> nat" where
  "digits_value acc [] = acc"
| "digits_value acc (c # cs) = digits_value (10 * acc + digit_val c) cs"

lemmas py_value_defs [tt_defs] = py_lt_def py_gt_def py_int_def signed_literal_def nat_literal_def

section \<open>Comparisons\<close>

lemma py_lt_Int [simp]: "py_lt (PyInt i) n = Inr (of_int i < n)"
  by (simp add: py_lt_def)

lemma py_lt_Float [simp]: "py_lt (PyFloat x) n = Inr (x < n)"
  by (simp add: py_lt_def)

lemma py_gt_Int [simp]: "py_gt (PyInt i) n = Inr (of_int i > n)"
  by (simp add: py_gt_def)

lemma py_gt_Float [simp]: "py_gt (PyFloat x) n = Inr (x > n)"
  by (simp add: py_gt_def)

lemma num_of_Inr_iff: "(\<exists>x. num_of v = Inr x) \<longleftrightarrow> (\<exists>i. v = PyInt i) \<or> (\<exists>x. v = PyFloat x)"
  by (cases v) simp_all

lemma num_of_Inl: "num_of v = Inl e \<Longrightarrow> e = TypeError"
  by (cases v) simp_all

lemma py_lt_Inl_iff: "py_lt v n = Inl e \<longleftrightarrow> e = TypeError \<and> (\<forall>x. num_of v \<noteq> Inr x)"
  by (cases v) (auto simp: py_lt_def)

lemma py_gt_Inl_iff: "py_gt v n = Inl e \<longleftrightarrow> e = TypeError \<and> (\<forall>x. num_of v \<noteq> Inr x)"
  by (cases v) (auto simp: py_gt_def)

lemma py_lt_Inr_iff: "py_lt v n = Inr b \<longleftrightarrow> (\<exists>x. num_of v = Inr x \<and> b = (x < n))"
  by (cases v) (auto simp: py_lt_def)

lemma py_gt_Inr_iff: "py_gt v n = Inr b \<longleftrightarrow> (\<exists>x. num_of v = Inr x \<and> b = (x > n))"
  by (cases v) (auto simp: py_gt_def)

lemma py_and_simps [simp]: "py_and True m = m" "py_and False m = Inr False"
  by (simp_all add: py_and_def)

lemma py_and_Inr [simp]: "py_and a (Inr b) = Inr (a \<and> b)"
  by (simp add: py_and_def)

lemma py_and_Inl [simp]: "py_and a (Inl e) = (if a then Inl e else Inr False)"
  by (simp add: py_and_def)

lemma py_or_simps [simp]: "py_or (Inr True) m = Inr True" "py_or (Inr False) m = m"
    "py_or (Inl e) m = Inl e"
  by (simp_all add: py_or_def)

section \<open>Substrings and splitting\<close>

lemma is_substring_single [simp]: "is_substring [c] t \<longleftrightarrow> c \<in> set t"
  by (induction t) auto

lemma is_substring_iff: "is_substring s t \<longleftrightarrow> (\<exists>a b. t = a @ s @ b)"
proof (induction t)
  case Nil
  show ?case by simp
next
  case (Cons c cs)
  have "(\<exists>a b. c # cs = a @ s @ b) \<longleftrightarrow> (\<exists>b. c # cs = s @ b) \<or> (\<exists>a b. cs = a @ s @ b)"
    by (auto simp: Cons_eq_append_conv)
  moreover have "take (length s) (c # cs) = s \<longleftrightarrow> (\<exists>b. c # cs = s @ b)"
    by (metis append_eq_conv_conj append_take_drop_id)
  ultimately show ?case using Cons.IH by simp
qed

lemma split_on_not_Nil [simp]: "split_on c s \<noteq> []"
  by (induction s) (auto split: list.splits)

lemma split_on_Cons_sep [simp]: "split_on c (c # s) = [] # split_on c s"
  by simp

lemma split_on_Cons_other:
  "d \<noteq> c \<Longrightarrow> split_on c (d # s) = (d # hd (split_on c s)) # tl (split_on c s)"
  by (cases "split_on c s") simp_all

lemma split_on_no_sep: "c \<notin> set s \<Longrightarrow> split_on c s = [s]"
  by (induction s) auto

lemma split_on_append:
  "c \<notin> set a \<Longrightarrow> split_on c (a @ c # b) = a # split_on c b"
  by (induction a) auto

lemma length_split_on: "length (split_on c s) = Suc (count_list s c)"
  by (induction s) (auto split: list.splits)

lemma split_on_single_iff: "length (split_on c s) = 1 \<longleftrightarrow> c \<notin> set s"
  by (simp add: length_split_on count_list_0_iff)

lemma split_on_parts_free: "p \<in> set (split_on c s) \<Longrightarrow> c \<notin> set p"
proof (induction s arbitrary: p)
  case Nil
  then show ?case by simp
next
  case (Cons d ds)
  then show ?case by (cases "split_on c ds") (auto split: if_splits)
qed

lemma join_with_Cons: "ps \<noteq> [] \<Longrightarrow> join_with c (p # ps) = p @ c # join_with c ps"
  by (cases ps) simp_all

lemma join_split_on: "join_with c (split_on c s) = s"
proof (induction s)
  case Nil
  show ?case by simp
next
  case (Cons d ds)
  show ?case
  proof (cases "split_on c ds")
    case Nil
    then show ?thesis by simp
  next
    case (Cons p ps)
    with Cons.IH show ?thesis by (cases ps) auto
  qed
qed

lemma split_on_two_iff:
  "split_on c s = [a, b] \<longleftrightarrow> s = a @ c # b \<and> c \<notin> set a \<and> c \<notin> set b"
proof
  assume eq: "split_on c s = [a, b]"
  have "s = join_with c [a, b]" using join_split_on [of c s] eq by simp
  moreover have "c \<notin> set a" "c \<notin> set b" using split_on_parts_free [of _ c s] eq by simp_all
  ultimately show "s = a @ c # b \<and> c \<notin> set a \<and> c \<notin> set b" by simp
next
  assume "s = a @ c # b \<and> c \<notin> set a \<and> c \<notin> set b"
  then show "split_on c s = [a, b]" by (simp add: split_on_append split_on_no_sep)
qed

section \<open>Reading integer literals\<close>

lemma digit_cases: "d < 10 \<Longrightarrow> d \<in> {0, 1, 2, 3, 4, 5, 6, 7, 8, 9::nat}"
  by auto

lemma is_digit_digit_char [simp]: "d < 10 \<Longrightarrow> is_digit (digit_char d)"
  by (drule digit_cases) (auto simp: is_digit_def digit_char_def)

lemma digit_val_digit_char [simp]: "d < 10 \<Longrightarrow> digit_val (digit_char d) = d"
  by (drule digit_cases) (auto simp: digit_val_def digit_char_def)

lemma is_digit_not_space: "is_digit c \<Longrightarrow> \<not> is_space c"
  by (auto simp: is_digit_def is_space_def)

lemma is_digit_not_sign: "is_digit c \<Longrightarrow> c \<noteq> CHR ''-'' \<and> c \<noteq> CHR ''+'' \<and> c \<noteq> CHR ''_''"
  by (auto simp: is_digit_def)

lemma digit_val_less: "is_digit c \<Longrightarrow> digit_val c < 10"
  by (auto simp: is_digit_def digit_val_def)

lemma digits_value_append:
  "digits_value acc (a @ b) = digits_value (digits_value acc a) b"
  by (induction a arbitrary: acc) simp_all

lemma digits_value_snoc: "digits_value acc (a @ [c]) = 10 * digits_value acc a + digit_val c"
  by (simp add: digits_value_append)

lemma int_digits_prefix:
  "list_all is_digit ds \<Longrightarrow> int_digits acc (ds @ rest) = int_digits (digits_value acc ds) rest"
  by (induction ds arbitrary: acc) simp_all

lemma int_digits_all: "list_all is_digit ds \<Longrightarrow> int_digits acc ds = Some (digits_value acc ds)"
  using int_digits_prefix [of ds acc "[]"] by simp

lemma nat_literal_digits:
  assumes "s \<noteq> []" and "list_all is_digit s"
  shows "nat_literal s = Some (digits_value 0 s)"
proof -
  from assms obtain c cs where s: "s = c # cs" and c: "is_digit c" and cs: "list_all is_digit cs"
    by (cases s) auto
  then show ?thesis by (simp add: nat_literal_def int_digits_all)
qed

lemma string_of_nat_digits: "list_all is_digit (string_of_nat n)"
proof (induction n rule: string_of_nat.induct)
  case (1 n)
  then show ?case by (cases "n < 10") (simp_all add: string_of_nat_digit string_of_nat_step)
qed

lemma digits_value_string_of_nat: "digits_value 0 (string_of_nat n) = n"
proof (induction n rule: string_of_nat.induct)
  case (1 n)
  then show ?case
    by (cases "n < 10") (simp_all add: string_of_nat_digit string_of_nat_step digits_value_snoc)
qed

lemma string_of_nat_not_Nil [simp]: "string_of_nat n \<noteq> []"
  using length_string_of_nat_pos [of n] by auto

lemma nat_literal_string_of_nat: "nat_literal (string_of_nat n) = Some n"
  by (simp add: nat_literal_digits string_of_nat_digits digits_value_string_of_nat)

lemma strip_id:
  assumes "s \<noteq> []" and "\<not> is_space (hd s)" and "\<not> is_space (last s)"
  shows "strip s = s"
proof -
  have "dropWhile is_space s = s" using assms by (simp add: dropWhile_eq_self_iff)
  moreover have "dropWhile is_space (rev s) = rev s"
    using assms by (simp add: dropWhile_eq_self_iff hd_rev)
  ultimately show ?thesis by (simp add: strip_def)
qed

lemma strip_leading: "list_all is_space ws \<Longrightarrow> strip (ws @ s) = strip s"
  by (induction ws) (simp_all add: strip_def)

lemma strip_trailing:
  assumes "list_all is_space ws"
  shows "strip (s @ ws) = strip s"
proof (cases "list_all is_space s")
  case True
  with assms have "dropWhile is_space (s @ ws) = []" and "dropWhile is_space s = []"
    by (auto simp: list_all_iff dropWhile_eq_Nil_conv)
  then show ?thesis by (simp only: strip_def)
next
  case False
  then obtain x where "x \<in> set s" and "\<not> is_space x" by (auto simp: list_all_iff)
  then have "dropWhile is_space (s @ ws) = dropWhile is_space s @ ws"
    by (simp add: dropWhile_append1)
  moreover have "dropWhile is_space (rev ws @ r) = dropWhile is_space r" for r
    using assms by (intro dropWhile_append2) (simp add: list_all_iff)
  ultimately show ?thesis by (simp add: strip_def)
qed

lemma hd_string_of_nat: "is_digit (hd (string_of_nat n))"
  using string_of_nat_digits [of n] by (cases "string_of_nat n") simp_all

lemma last_string_of_nat: "is_digit (last (string_of_nat n))"
  using string_of_nat_digits [of n] by (cases "string_of_nat n" rule: rev_cases) simp_all

lemma strip_string_of_nat [simp]: "strip (string_of_nat n) = string_of_nat n"
  by (simp add: strip_id is_digit_not_space hd_string_of_nat last_string_of_nat)

lemma strip_string_of_int [simp]: "strip (string_of_int i) = string_of_int i"
proof (cases "i < 0")
  case True
  have "\<not> is_space (CHR ''-'')" by (simp add: is_space_def)
  with True show ?thesis
    by (simp add: string_of_int_def strip_id is_digit_not_space last_string_of_nat)
next
  case False
  then show ?thesis by (simp add: string_of_int_def)
qed

lemma signed_literal_string_of_int: "signed_literal (string_of_int i) = Some i"
proof (cases "i < 0")
  case True
  then show ?thesis by (simp add: signed_literal_def string_of_int_def nat_literal_string_of_nat)
next
  case False
  obtain c cs where s: "string_of_nat (nat i) = c # cs" by (cases "string_of_nat (nat i)") simp_all
  with hd_string_of_nat [of "nat i"] have "is_digit c" by simp
  with False s nat_literal_string_of_nat [of "nat i"] show ?thesis
    by (simp add: signed_literal_def string_of_int_def is_digit_not_sign)
qed

lemma py_int_string_of_int [simp]: "py_int (string_of_int i) = Inr i"
  by (simp add: py_int_def signed_literal_string_of_int)

lemma py_int_Inl: "py_int s = Inl e \<Longrightarrow> e = ValueError"
  by (auto simp: py_int_def split: option.splits)

lemma py_int_leading: "list_all is_space ws \<Longrightarrow> py_int (ws @ s) = py_int s"
  by (simp add: py_int_def strip_leading)

lemma py_int_trailing: "list_all is_space ws \<Longrightarrow> py_int (s @ ws) = py_int s"
  by (simp add: py_int_def strip_trailing)

lemma py_int_digits:
  assumes "s \<noteq> []" and "list_all is_digit s"
  shows "py_int s = Inr (int (digits_value 0 s))"
proof -
  from assms have "is_digit (hd s)" and "is_digit (last s)"
    by (cases s, simp_all) (cases s rule: rev_cases, simp_all)
  with assms have "strip s = s" by (simp add: strip_id is_digit_not_space)
  moreover from assms obtain c cs where "s = c # cs" and "is_digit c" by (cases s) auto
  ultimately show ?thesis using assms
    by (simp add: py_int_def signed_literal_def nat_literal_digits is_digit_not_sign)
qed

lemma py_int_Nil [simp]: "py_int [] = Inl ValueError"
  by (simp add: py_int_def signed_literal_def strip_def)

lemma string_of_nat_chars: "c \<in> set (string_of_nat n) \<Longrightarrow> is_digit c"
  using string_of_nat_digits [of n] by (simp add: list_all_iff)

lemma string_of_int_chars: "c \<in> set (string_of_int i) \<Longrightarrow> is_digit c \<or> c = CHR ''-''"
  by (auto simp: string_of_int_def dest: string_of_nat_chars split: if_splits)

lemma string_of_int_no_x [simp]: "CHR ''x'' \<notin> set (string_of_int i)"
  using string_of_int_chars [of "CHR ''x''" i] by (auto simp: is_digit_def)

lemma underscore_not_digit [simp]: "\<not> is_digit CHR ''_''"
  by (simp add: is_digit_def)

lemmas literal_defs =
  py_int_def signed_literal_def nat_literal_def strip_def is_space_def is_digit_def digit_val_def

section \<open>Round trips\<close>

end
