(* ===== verification/Video_Catalog.thy ===== *)
theory Video_Catalog
  imports Py_Values
begin

text \<open>
  The sample video catalogue of \<^verbatim>\<open>src/assets/sample_videos.py\<close>: class
  \<^verbatim>\<open>SampleVideoManager\<close>, its global instance and the module-level wrappers.

  \<^item> The literals of the class are \<open>pyval\<close> terms, written in the order of the source:
    the five video lists of \<^verbatim>\<open>self.sample_videos\<close>, \<open>scenario_list\<close>
    (\<^verbatim>\<open>self.test_scenarios\<close>), the five requirement dicts and
    \<open>default_requirements\<close> of \<^verbatim>\<open>get_video_requirements\<close>, \<open>common_issues\<close>,
    \<open>tips_table\<close> and \<open>general_tips\<close> of \<^verbatim>\<open>get_recording_tips\<close>.
  \<^item> The instance is the record \<open>manager\<close> with the two attributes that
    \<^verbatim>\<open>__init__\<close> sets (\<open>SampleVideoManager\<close> is the constructor); no method assigns
    to them, so every method is a function of \<open>self\<close> and its arguments.
  \<^item> A method that has a module-level wrapper of the same name is \<open>manager_\<close>\<open>name\<close>
    and the wrapper keeps the name; \<open>get_test_scenarios\<close> has no wrapper.
  \<^item> \<^verbatim>\<open>Optional[str]\<close> is \<open>string option\<close>.

  The lemmas give the result of \<open>get_sample_videos\<close> on each of its three branches,
  the invariant \<open>wf_manager\<close> of a catalogue (the shape \<open>wf_video\<close> of every entry)
  with its preservation by the lookup, and the agreement of the key sets of the
  catalogue, the requirement table and the tips table.
\<close>

section \<open>Catalogue data\<close>

definition vertical_jump_videos :: "pyval list" where
  [tt_data]: "vertical_jump_videos =
     [PyDict
       [(''id'', PyStr ''vj_001''),
        (''title'', PyStr ''Vertical Jump - Proper Form Example''),
        (''description'', PyStr ''Demonstrates correct vertical jump technique with clear takeoff and landing''),
        (''duration'', PyStr ''5 seconds''),
        (''resolution'', PyStr ''1080x720''),
        (''athlete_info'', PyDict
         [(''age'', PyInt 20),
          (''gender'', PyStr ''Male''),
          (''sport'', PyStr ''Athletics'')]),
        (''expected_metrics'', PyDict
         [(''jump_height_normalized'', PyFloat 0.45),
          (''flight_time_seconds'', PyFloat 0.8),
          (''performance_score'', PyInt 85)]),
        (''key_features'', PyList
         [PyStr ''Clear pre-jump preparation'',
          PyStr ''Explosive takeoff'',
          PyStr ''Maximum height reach'',
          PyStr ''Controlled landing''])],
      PyDict
       [(''id'', PyStr ''vj_002''),
        (''title'', PyStr ''Vertical Jump - Beginner Level''),
        (''description'', PyStr ''Basic vertical jump performance for comparison''),
        (''duration'', PyStr ''4 seconds''),
        (''resolution'', PyStr ''720x480''),
        (''athlete_info'', PyDict
         [(''age'', PyInt 16),
          (''gender'', PyStr ''Female''),
          (''sport'', PyStr ''Basketball'')]),
        (''expected_metrics'', PyDict
         [(''jump_height_normalized'', PyFloat 0.25),
          (''flight_time_seconds'', PyFloat 0.5),
          (''performance_score'', PyInt 65)]),
        (''key_features'', PyList
         [PyStr ''Standard jump technique'',
          PyStr ''Moderate height'',
          PyStr ''Good form consistency''])]]"

definition situps_videos :: "pyval list" where
  [tt_data]: "situps_videos =
     [PyDict
       [(''id'', PyStr ''su_001''),
        (''title'', PyStr ''Sit-ups - High Performance''),
        (''description'', PyStr ''Fast-paced sit-ups with excellent form over 60 seconds''),
        (''duration'', PyStr ''60 seconds''),
        (''resolution'', PyStr ''1080x720''),
        (''athlete_info'', PyDict
         [(''age'', PyInt 22),
          (''gender'', PyStr ''Male''),
          (''sport'', PyStr ''Wrestling'')]),
        (''expected_metrics'', PyDict
         [(''rep_count'', PyInt 55),
          (''cadence_per_minute'', PyInt 55),
          (''performance_score'', PyInt 90)]),
        (''key_features'', PyList
         [PyStr ''Consistent rhythm'',
          PyStr ''Full range of motion'',
          PyStr ''Maintained form throughout'',
          PyStr ''High repetition count''])],
      PyDict
       [(''id'', PyStr ''su_002''),
        (''title'', PyStr ''Sit-ups - Standard Form''),
        (''description'', PyStr ''Proper sit-up technique demonstration at moderate pace''),
        (''duration'', PyStr ''60 seconds''),
        (''resolution'', PyStr ''720x480''),
        (''athlete_info'', PyDict
         [(''age'', PyInt 18),
          (''gender'', PyStr ''Female''),
          (''sport'', PyStr ''General Fitness'')]),
        (''expected_metrics'', PyDict
         [(''rep_count'', PyInt 35),
          (''cadence_per_minute'', PyInt 35),
          (''performance_score'', PyInt 75)]),
        (''key_features'', PyList
         [PyStr ''Proper breathing technique'',
          PyStr ''Controlled movements'',
          PyStr ''Good posture maintenance''])]]"

definition sprint_videos :: "pyval list" where
  [tt_data]: "sprint_videos =
     [PyDict
       [(''id'', PyStr ''sp_001''),
        (''title'', PyStr ''50m Sprint - Elite Performance''),
        (''description'', PyStr ''High-speed sprint demonstrating excellent acceleration and form''),
        (''duration'', PyStr ''8 seconds''),
        (''resolution'', PyStr ''1080x720''),
        (''athlete_info'', PyDict
         [(''age'', PyInt 23),
          (''gender'', PyStr ''Male''),
          (''sport'', PyStr ''Athletics'')]),
        (''expected_metrics'', PyDict
         [(''estimated_speed'', PyFloat 0.15),
          (''duration_seconds'', PyFloat 7.2),
          (''performance_score'', PyInt 92)]),
        (''key_features'', PyList
         [PyStr ''Explosive start'',
          PyStr ''Maintained speed'',
          PyStr ''Proper running form'',
          PyStr ''Strong finish''])]]"

definition pushups_videos :: "pyval list" where
  [tt_data]: "pushups_videos =
     [PyDict
       [(''id'', PyStr ''pu_001''),
        (''title'', PyStr ''Push-ups - Perfect Form''),
        (''description'', PyStr ''Demonstrates ideal push-up technique with full range of motion''),
        (''duration'', PyStr ''45 seconds''),
        (''resolution'', PyStr ''1080x720''),
        (''athlete_info'', PyDict
         [(''age'', PyInt 25),
          (''gender'', PyStr ''Male''),
          (''sport'', PyStr ''CrossFit'')]),
        (''expected_metrics'', PyDict
         [(''rep_count'', PyInt 40),
          (''cadence_per_minute'', PyInt 53),
          (''performance_score'', PyInt 88)]),
        (''key_features'', PyList
         [PyStr ''Full body alignment'',
          PyStr ''Complete range of motion'',
          PyStr ''Steady rhythm'',
          PyStr ''Proper breathing''])]]"

definition flexibility_videos :: "pyval list" where
  [tt_data]: "flexibility_videos =
     [PyDict
       [(''id'', PyStr ''ft_001''),
        (''title'', PyStr ''Flexibility Test - Sit and Reach''),
        (''description'', PyStr ''Proper sit-and-reach flexibility assessment technique''),
        (''duration'', PyStr ''15 seconds''),
        (''resolution'', PyStr ''720x480''),
        (''athlete_info'', PyDict
         [(''age'', PyInt 19),
          (''gender'', PyStr ''Female''),
          (''sport'', PyStr ''Yoga'')]),
        (''expected_metrics'', PyDict
         [(''max_reach_distance'', PyFloat 0.22),
          (''flexibility_range'', PyFloat 0.18),
          (''performance_score'', PyInt 85)]),
        (''key_features'', PyList
         [PyStr ''Gradual reach progression'',
          PyStr ''Sustained final position'',
          PyStr ''Good posture maintenance'',
          PyStr ''Controlled movement''])]]"

definition scenario_list :: "pyval list" where
  [tt_data]: "scenario_list =
     [PyDict
       [(''name'', PyStr ''Perfect Performance Test''),
        (''description'', PyStr ''High-quality video with excellent performance metrics''),
        (''test_type'', PyStr ''Vertical Jump''),
        (''expected_outcome'', PyDict
         [(''overall_score'', PyInt 90),
          (''verification_status'', PyStr ''verified''),
          (''authenticity_score'', PyInt 95)])],
      PyDict
       [(''name'', PyStr ''Average Performance Test''),
        (''description'', PyStr ''Standard quality video with moderate performance''),
        (''test_type'', PyStr ''Sit-ups (1 minute)''),
        (''expected_outcome'', PyDict
         [(''overall_score'', PyInt 65),
          (''verification_status'', PyStr ''verified''),
          (''authenticity_score'', PyInt 88)])],
      PyDict
       [(''name'', PyStr ''Low Quality Video Test''),
        (''description'', PyStr ''Test system response to poor video quality''),
        (''test_type'', PyStr ''Push-ups''),
        (''expected_outcome'', PyDict
         [(''overall_score'', PyInt 45),
          (''verification_status'', PyStr ''pending_review''),
          (''authenticity_score'', PyInt 70)])]]"

section \<open>The manager\<close>

record manager =
  sample_videos :: "(string, pyval list) pydict"
  test_scenarios :: "pyval list"

definition SampleVideoManager :: manager where
  "SampleVideoManager =
     \<lparr>sample_videos =
        [(''Vertical Jump'', vertical_jump_videos),
         (''Sit-ups (1 minute)'', situps_videos),
         (''50m Sprint'', sprint_videos),
         (''Push-ups'', pushups_videos),
         (''Flexibility Test'', flexibility_videos)],
      test_scenarios = scenario_list\<rparr>"

definition manager_get_sample_videos :: "manager \<Rightarrow> string option \<Rightarrow> pyval list" where
  "manager_get_sample_videos self test_type =
     (case test_type of
        Some t \<Rightarrow>
          (case (if t \<noteq> [] then map_of (sample_videos self) t else None) of
             Some videos \<Rightarrow> videos
           | None \<Rightarrow> [])
      | None \<Rightarrow>
          foldl (\<lambda>all_videos videos. all_videos @ videos) [] (map snd (sample_videos self)))"

definition get_test_scenarios :: "manager \<Rightarrow> pyval list" where
  "get_test_scenarios self = test_scenarios self"

section \<open>Requirements, issues and tips\<close>

definition vertical_jump_requirements :: "(string, pyval) pydict" where
  [tt_data]: "vertical_jump_requirements =
     [(''duration'', PyStr ''3-10 seconds''),
      (''min_resolution'', PyStr ''640x480''),
      (''recommended_resolution'', PyStr ''1280x720''),
      (''fps'', PyStr ''30 fps minimum''),
      (''camera_angle'', PyStr ''Side profile view''),
      (''distance'', PyStr ''2-3 meters from subject''),
      (''lighting'', PyStr ''Good natural or artificial lighting''),
      (''background'', PyStr ''Clear, uncluttered background''),
      (''specific_requirements'', PyList
        [PyStr ''Full body must be visible in frame'',
         PyStr ''Ground/landing surface must be visible'',
         PyStr ''Camera should be stable (tripod recommended)'',
         PyStr ''Subject should wear contrasting clothing''])]"

definition situps_requirements :: "(string, pyval) pydict" where
  [tt_data]: "situps_requirements =
     [(''duration'', PyStr ''60-65 seconds''),
      (''min_resolution'', PyStr ''640x480''),
      (''recommended_resolution'', PyStr ''1280x720''),
      (''fps'', PyStr ''30 fps minimum''),
      (''camera_angle'', PyStr ''Side profile view''),
      (''distance'', PyStr ''1.5-2 meters from subject''),
      (''lighting'', PyStr ''Consistent lighting throughout''),
      (''background'', PyStr ''Clear floor space''),
      (''specific_requirements'', PyList
        [PyStr ''Full body profile must be visible'',
         PyStr ''Mat or floor surface clearly visible'',
         PyStr ''Start and end positions clearly shown'',
         PyStr ''No interruptions during recording''])]"

definition sprint_requirements :: "(string, pyval) pydict" where
  [tt_data]: "sprint_requirements =
     [(''duration'', PyStr ''5-15 seconds''),
      (''min_resolution'', PyStr ''720x480''),
      (''recommended_resolution'', PyStr ''1920x1080''),
      (''fps'', PyStr ''60 fps recommended''),
      (''camera_angle'', PyStr ''Side view of running path''),
      (''distance'', PyStr ''10-15 meters from running path''),
      (''lighting'', PyStr ''Outdoor daylight preferred''),
      (''background'', PyStr ''Clear track or open space''),
      (''specific_requirements'', PyList
        [PyStr ''Start and finish points must be visible'',
         PyStr ''Full running motion captured'',
         PyStr ''Minimal camera movement'',
         PyStr ''Clear view of running form''])]"

definition pushups_requirements :: "(string, pyval) pydict" where
  [tt_data]: "pushups_requirements =
     [(''duration'', PyStr ''30-90 seconds''),
      (''min_resolution'', PyStr ''640x480''),
      (''recommended_resolution'', PyStr ''1280x720''),
      (''fps'', PyStr ''30 fps minimum''),
      (''camera_angle'', PyStr ''Side profile view''),
      (''distance'', PyStr ''1.5-2 meters from subject''),
      (''lighting'', PyStr ''Good consistent lighting''),
      (''background'', PyStr ''Clear floor space''),
      (''specific_requirements'', PyList
        [PyStr ''Full body profile visible'',
         PyStr ''Floor/ground surface visible'',
         PyStr ''Complete range of motion shown'',
         PyStr ''Stable camera position''])]"

definition flexibility_requirements :: "(string, pyval) pydict" where
  [tt_data]: "flexibility_requirements =
     [(''duration'', PyStr ''10-30 seconds''),
      (''min_resolution'', PyStr ''640x480''),
      (''recommended_resolution'', PyStr ''1280x720''),
      (''fps'', PyStr ''30 fps minimum''),
      (''camera_angle'', PyStr ''Side view''),
      (''distance'', PyStr ''1-2 meters from subject''),
      (''lighting'', PyStr ''Good lighting on measurement area''),
      (''background'', PyStr ''Clear background with measurement reference''),
      (''specific_requirements'', PyList
        [PyStr ''Measurement scale or reference visible'',
         PyStr ''Full reaching motion captured'',
         PyStr ''Final position held for 2-3 seconds'',
         PyStr ''Clear view of reach extension''])]"

definition default_requirements :: "(string, pyval) pydict" where
  [tt_data]: "default_requirements =
     [(''duration'', PyStr ''Variable''),
      (''min_resolution'', PyStr ''640x480''),
      (''fps'', PyStr ''30 fps minimum''),
      (''general_requirements'', PyList
        [PyStr ''Good lighting conditions'',
         PyStr ''Stable camera position'',
         PyStr ''Clear view of subject'',
         PyStr ''Minimal background distractions''])]"

definition requirements_table :: "(string, (string, pyval) pydict) pydict" where
  "requirements_table =
     [(''Vertical Jump'', vertical_jump_requirements),
      (''Sit-ups (1 minute)'', situps_requirements),
      (''50m Sprint'', sprint_requirements),
      (''Push-ups'', pushups_requirements),
      (''Flexibility Test'', flexibility_requirements)]"

definition manager_get_video_requirements :: "manager \<Rightarrow> string \<Rightarrow> (string, pyval) pydict" where
  "manager_get_video_requirements self test_type =
     dict_get requirements_table test_type default_requirements"

definition common_issues :: "pyval list" where
  [tt_data]: "common_issues =
     [PyDict
       [(''issue'', PyStr ''Poor Video Quality''),
        (''symptoms'', PyList
         [PyStr ''Blurry or pixelated video'',
          PyStr ''Low resolution'',
          PyStr ''Compressed file'']),
        (''solutions'', PyList
         [PyStr ''Use higher resolution camera settings'',
          PyStr ''Ensure good lighting conditions'',
          PyStr ''Clean camera lens'',
          PyStr ''Use minimal video compression'']),
        (''impact'', PyStr ''May affect pose detection accuracy'')],
      PyDict
       [(''issue'', PyStr ''Inadequate Lighting''),
        (''symptoms'', PyList
         [PyStr ''Dark or shadowy video'',
          PyStr ''Inconsistent brightness'',
          PyStr ''Overexposed areas'']),
        (''solutions'', PyList
         [PyStr ''Record in well-lit area'',
          PyStr ''Use additional lighting if needed'',
          PyStr ''Avoid backlighting'',
          PyStr ''Maintain consistent lighting throughout'']),
        (''impact'', PyStr ''Reduces movement analysis accuracy'')],
      PyDict
       [(''issue'', PyStr ''Camera Movement''),
        (''symptoms'', PyList
         [PyStr ''Shaky or unstable footage'',
          PyStr ''Subject moving out of frame'',
          PyStr ''Changing camera angle'']),
        (''solutions'', PyList
         [PyStr ''Use tripod or stable surface'',
          PyStr ''Keep camera stationary during recording'',
          PyStr ''Frame subject with some margin'',
          PyStr ''Use image stabilization if available'']),
        (''impact'', PyStr ''Affects motion tracking reliability'')],
      PyDict
       [(''issue'', PyStr ''Incomplete Movement Capture''),
        (''symptoms'', PyList
         [PyStr ''Parts of movement cut off'',
          PyStr ''Subject partially out of frame'',
          PyStr ''Movement starts/ends outside recording'']),
        (''solutions'', PyList
         [PyStr ''Frame wider to include full movement'',
          PyStr ''Start recording before movement begins'',
          PyStr ''Continue recording until movement ends'',
          PyStr ''Ensure full body visibility'']),
        (''impact'', PyStr ''Incomplete performance analysis'')],
      PyDict
       [(''issue'', PyStr ''Background Distractions''),
        (''symptoms'', PyList
         [PyStr ''Busy or cluttered background'',
          PyStr ''Moving objects in background'',
          PyStr ''Poor contrast with subject'']),
        (''solutions'', PyList
         [PyStr ''Choose plain, clear background'',
          PyStr ''Ensure good contrast with clothing'',
          PyStr ''Remove unnecessary objects'',
          PyStr ''Use appropriate camera distance'']),
        (''impact'', PyStr ''May interfere with pose detection'')]]"

definition manager_get_common_issues :: "manager \<Rightarrow> pyval list" where
  "manager_get_common_issues self = common_issues"

definition tips_table :: "(string, string list) pydict" where
  [tt_data]: "tips_table =
     [(''Vertical Jump'',
       [''Set camera at waist height, 2-3 meters away'',
        ''Ensure full body is visible from head to feet'',
        ''Record in profile (side) view for best analysis'',
        ''Use good lighting to clearly see movement'',
        ''Keep camera still - use a tripod if possible'',
        ''Start recording before the jump and continue after landing'']),
      (''Sit-ups (1 minute)'',
       [''Position camera to show full body profile'',
        ''Ensure the mat/floor surface is clearly visible'',
        ''Record the entire 60-second duration without breaks'',
        ''Use consistent lighting throughout'',
        ''Keep camera stable and at consistent height'',
        ''Wear contrasting clothing for better pose detection'']),
      (''50m Sprint'',
       [''Position camera perpendicular to running path'',
        ''Ensure start and finish points are visible'',
        ''Use high frame rate (60fps) if available'',
        ''Record from sufficient distance to capture full run'',
        ''Minimize camera movement - use tripod'',
        ''Good outdoor lighting provides best results'']),
      (''Push-ups'',
       [''Record from the side to show full range of motion'',
        ''Position camera at floor level for best angle'',
        ''Ensure full body is visible throughout exercise'',
        ''Use stable camera position for entire duration'',
        ''Good lighting helps detect proper form'',
        ''Continue recording until exercise is complete'']),
      (''Flexibility Test'',
       [''Record from the side to show reaching motion'',
        ''Include measurement reference (ruler/scale) if possible'',
        ''Capture the approach, reach, and hold phases'',
        ''Ensure good lighting on the measurement area'',
        ''Hold final position for 2-3 seconds'',
        ''Keep camera stable and properly framed''])]"

definition general_tips :: "string list" where
  [tt_data]: "general_tips =
     [''Clean your camera lens before recording'',
      ''Test your setup with a short recording first'',
      ''Ensure adequate storage space on your device'',
      ''Record in a quiet environment when possible'',
      ''Have backup recording options ready'']"

definition manager_get_recording_tips :: "manager \<Rightarrow> string \<Rightarrow> string list" where
  "manager_get_recording_tips self test_type = dict_get tips_table test_type general_tips"

section \<open>Global instance and wrappers\<close>

definition sample_video_manager :: manager where
  "sample_video_manager = SampleVideoManager"

definition get_sample_videos :: "string option \<Rightarrow> pyval list" where
  "get_sample_videos test_type = manager_get_sample_videos sample_video_manager test_type"

definition get_video_requirements :: "string \<Rightarrow> (string, pyval) pydict" where
  "get_video_requirements test_type = manager_get_video_requirements sample_video_manager test_type"

definition get_recording_tips :: "string \<Rightarrow> string list" where
  "get_recording_tips test_type = manager_get_recording_tips sample_video_manager test_type"

definition get_common_issues :: "pyval list" where
  "get_common_issues = manager_get_common_issues sample_video_manager"

section \<open>Shape of the entries\<close>

definition field :: "pyval \<Rightarrow> string \<Rightarrow> pyval" where
  "field v k = (case v of PyDict d \<Rightarrow> dict_get d k PyNone | _ \<Rightarrow> PyNone)"

definition is_str :: "pyval \<Rightarrow> bool" where
  "is_str v = (case v of PyStr s \<Rightarrow> True | _ \<Rightarrow> False)"

definition is_number :: "pyval \<Rightarrow> bool" where
  "is_number v = (case v of PyInt i \<Rightarrow> True | PyFloat x \<Rightarrow> True | _ \<Rightarrow> False)"

definition is_str_list :: "pyval \<Rightarrow> bool" where
  "is_str_list v = (case v of PyList xs \<Rightarrow> list_all is_str xs | _ \<Rightarrow> False)"

definition dict_of :: "pyval \<Rightarrow> (string, pyval) pydict" where
  "dict_of v = (case v of PyDict d \<Rightarrow> d | _ \<Rightarrow> [])"

definition keys_of :: "pyval \<Rightarrow> string list" where
  "keys_of v = (case v of PyDict d \<Rightarrow> dict_keys d | _ \<Rightarrow> [])"

definition wf_athlete :: "pyval \<Rightarrow> bool" where
  "wf_athlete a \<longleftrightarrow>
     keys_of a = [''age'', ''gender'', ''sport''] \<and>
     (case field a ''age'' of PyInt i \<Rightarrow> 0 \<le> i | _ \<Rightarrow> False) \<and>
     is_str (field a ''gender'') \<and> is_str (field a ''sport'')"

definition wf_metrics :: "pyval \<Rightarrow> bool" where
  "wf_metrics m \<longleftrightarrow>
     (case m of PyDict d \<Rightarrow> wf_dict d \<and> list_all (\<lambda>(k, v). is_number v) d | _ \<Rightarrow> False) \<and>
     (case field m ''performance_score'' of PyInt i \<Rightarrow> 0 \<le> i \<and> i \<le> 100 | _ \<Rightarrow> False)"

definition wf_video :: "pyval \<Rightarrow> bool" where
  "wf_video v \<longleftrightarrow>
     keys_of v = [''id'', ''title'', ''description'', ''duration'', ''resolution'',
                  ''athlete_info'', ''expected_metrics'', ''key_features''] \<and>
     list_all (\<lambda>k. is_str (field v k)) [''id'', ''title'', ''description'', ''duration'', ''resolution''] \<and>
     wf_athlete (field v ''athlete_info'') \<and>
     wf_metrics (field v ''expected_metrics'') \<and>
     is_str_list (field v ''key_features'')"

definition wf_manager :: "manager \<Rightarrow> bool" where
  "wf_manager self \<longleftrightarrow>
     wf_dict (sample_videos self) \<and> [] \<notin> set (dict_keys (sample_videos self)) \<and>
     list_all (\<lambda>(t, videos). list_all wf_video videos) (sample_videos self)"

definition test_types :: "string list" where
  "test_types = [''Vertical Jump'', ''Sit-ups (1 minute)'', ''50m Sprint'', ''Push-ups'', ''Flexibility Test'']"

lemmas catalog_defs [tt_defs] =
  manager_get_sample_videos_def get_test_scenarios_def manager_get_video_requirements_def
  manager_get_common_issues_def manager_get_recording_tips_def sample_video_manager_def
  get_sample_videos_def get_video_requirements_def get_recording_tips_def get_common_issues_def

lemmas shape_defs =
  field_def dict_of_def is_str_def is_number_def is_str_list_def keys_of_def wf_athlete_def wf_metrics_def
  wf_video_def

section \<open>The three branches of the catalogue lookup\<close>

lemma foldl_append_concat: "foldl (\<lambda>acc xs. acc @ xs) a xss = a @ concat xss"
  by (induction xss arbitrary: a) simp_all

lemma get_sample_videos_None:
  "manager_get_sample_videos self None = concat (map snd (sample_videos self))"
  by (simp add: manager_get_sample_videos_def foldl_append_concat)

lemma get_sample_videos_Some:
  "manager_get_sample_videos self (Some t) =
     (if t \<noteq> [] \<and> dict_contains (sample_videos self) t then the (map_of (sample_videos self) t)
      else [])"
  by (auto simp: manager_get_sample_videos_def dict_contains_def split: option.splits)

lemma get_sample_videos_empty_name [simp]: "manager_get_sample_videos self (Some []) = []"
  by (simp add: get_sample_videos_Some)

lemma get_sample_videos_subset:
  "set (manager_get_sample_videos self (Some t)) \<subseteq> set (manager_get_sample_videos self None)"
proof (cases "t \<noteq> [] \<and> dict_contains (sample_videos self) t")
  case True
  then obtain vs where vs: "map_of (sample_videos self) t = Some vs"
    by (auto simp: dict_contains_def)
  then have "(t, vs) \<in> set (sample_videos self)" by (rule map_of_SomeD)
  then have "set vs \<subseteq> set (concat (map snd (sample_videos self)))" by force
  with True vs show ?thesis by (simp add: get_sample_videos_None get_sample_videos_Some)
next
  case False
  then show ?thesis by (auto simp: get_sample_videos_Some)
qed

lemma sample_videos_keys: "dict_keys (sample_videos SampleVideoManager) = test_types"
  by (simp add: SampleVideoManager_def dict_keys_def test_types_def)

lemma requirements_keys: "dict_keys requirements_table = test_types"
  by (simp add: requirements_table_def dict_keys_def test_types_def)

lemma tips_keys: "dict_keys tips_table = test_types"
  by (simp add: tips_table_def dict_keys_def test_types_def)

lemma wf_vertical_jump_videos: "list_all wf_video vertical_jump_videos"
  by (simp add: vertical_jump_videos_def shape_defs dict_keys_def dict_get_def wf_dict_def)

lemma wf_situps_videos: "list_all wf_video situps_videos"
  by (simp add: situps_videos_def shape_defs dict_keys_def dict_get_def wf_dict_def)

lemma wf_sprint_videos: "list_all wf_video sprint_videos"
  by (simp add: sprint_videos_def shape_defs dict_keys_def dict_get_def wf_dict_def)

lemma wf_pushups_videos: "list_all wf_video pushups_videos"
  by (simp add: pushups_videos_def shape_defs dict_keys_def dict_get_def wf_dict_def)

lemma wf_flexibility_videos: "list_all wf_video flexibility_videos"
  by (simp add: flexibility_videos_def shape_defs dict_keys_def dict_get_def wf_dict_def)

lemmas wf_video_lists =
  wf_vertical_jump_videos wf_situps_videos wf_sprint_videos wf_pushups_videos
  wf_flexibility_videos

lemma sample_video_lookup:
  "get_sample_videos (Some t) =
     (if t = ''Vertical Jump'' then vertical_jump_videos
      else if t = ''Sit-ups (1 minute)'' then situps_videos
      else if t = ''50m Sprint'' then sprint_videos
      else if t = ''Push-ups'' then pushups_videos
      else if t = ''Flexibility Test'' then flexibility_videos
      else [])"
  by (simp add: get_sample_videos_def sample_video_manager_def manager_get_sample_videos_def
      SampleVideoManager_def)

lemma video_lists_not_Nil:
  "vertical_jump_videos \<noteq> []" "situps_videos \<noteq> []" "sprint_videos \<noteq> []"
  "pushups_videos \<noteq> []" "flexibility_videos \<noteq> []"
  by (simp_all add: tt_data)

section \<open>Well-formed catalogues\<close>

text \<open>
  The invariant of a manager: its catalogue has no test type twice (a Python dict never
  has), no test type is the empty string, and every entry has the shape \<open>wf_video\<close>.
\<close>

lemma wf_SampleVideoManager: "wf_manager SampleVideoManager"
  by (simp add: wf_manager_def SampleVideoManager_def wf_dict_def dict_keys_def wf_video_lists)


lemma wf_manager_key:
  "wf_manager self \<Longrightarrow> t \<in> set (dict_keys (sample_videos self)) \<Longrightarrow>
     manager_get_sample_videos self (Some t) = the (map_of (sample_videos self) t)"
  by (force simp: get_sample_videos_Some wf_manager_def dict_contains_def dict_keys_def
      map_of_eq_None_iff)



text \<open>
  C28 (functional). The call without a test type returns what the calls with each test
  type of the catalogue return, concatenated in the order of the catalogue: nothing is
  lost and nothing is listed twice. This needs that no test type is the empty string,
  which the lookup by name refuses before it reads the catalogue.
\<close>

theorem catalogue_partition:
  assumes "wf_manager self"
  shows "manager_get_sample_videos self None =
           concat (map (\<lambda>t. manager_get_sample_videos self (Some t)) (dict_keys (sample_videos self)))"
proof -
  have "map (\<lambda>t. manager_get_sample_videos self (Some t)) (dict_keys (sample_videos self))
      = map (\<lambda>t. the (map_of (sample_videos self) t)) (dict_keys (sample_videos self))"
    using assms by (simp add: wf_manager_key)
  also have "\<dots> = map snd (sample_videos self)"
    using assms by (simp add: wf_manager_def dict_values_lookup)
  finally show ?thesis by (simp add: get_sample_videos_None)
qed

theorem catalogue_partition_witness:
  "get_sample_videos None =
     concat (map (\<lambda>t. get_sample_videos (Some t)) test_types)"
  using catalogue_partition [OF wf_SampleVideoManager]
  by (simp add: get_sample_videos_def sample_video_manager_def sample_videos_keys)

section \<open>Properties of the catalogue\<close>

text \<open>
  C35 (error). An unknown test type is never an error: the three lookups fall back to the
  empty list, to the generic requirements and to the general tips, and they do so
  exactly for the names that are not one of the five test types (the empty name
  included, which \<^verbatim>\<open>get_sample_videos\<close> refuses by truthiness before the lookup).
\<close>

theorem unknown_type_defaults:
  "(get_sample_videos (Some t) = [] \<longleftrightarrow> t \<notin> set test_types) \<and>
   (get_video_requirements t = default_requirements \<longleftrightarrow> t \<notin> set test_types) \<and>
   (get_recording_tips t = general_tips \<longleftrightarrow> t \<notin> set test_types)"
proof (intro conjI)
  show "get_sample_videos (Some t) = [] \<longleftrightarrow> t \<notin> set test_types"
    by (simp add: sample_video_lookup video_lists_not_Nil test_types_def)
  show "get_video_requirements t = default_requirements \<longleftrightarrow> t \<notin> set test_types"
    by (simp add: get_video_requirements_def manager_get_video_requirements_def dict_get_def
        requirements_table_def test_types_def tt_data)
  show "get_recording_tips t = general_tips \<longleftrightarrow> t \<notin> set test_types"
    by (simp add: get_recording_tips_def manager_get_recording_tips_def dict_get_def
        test_types_def tt_data)
qed

end
