(* ===== verification/Video_Validation.thy ===== *)
theory Video_Validation
  imports Video_Catalog
begin

text \<open>
  \<^verbatim>\<open>SampleVideoManager.validate_video_requirements\<close> of
  \<^verbatim>\<open>src/assets/sample_videos.py\<close>.

  \<^item> The result dict has four fixed keys and is the record \<open>validation_results\<close>; its
    \<^verbatim>\<open>checks\<close> entry is a dict from the name of a check to a \<open>check\<close>
    (\<^verbatim>\<open>pass\<close>, \<^verbatim>\<open>message\<close>). The method mutates this dict in three
    stages, which are three functions from the results so far to the results after:
    \<open>duration_check\<close>, \<open>resolution_check\<close>, \<open>add_recommendations\<close>.
  \<^item> \<^verbatim>\<open>video_metadata\<close> is supplied by the caller, so its values are \<open>pyval\<close>s and
    every exception that the comparisons, \<^verbatim>\<open>in\<close>, \<^verbatim>\<open>split\<close>,
    \<^verbatim>\<open>int\<close> and the tuple unpacking can raise is a result
    \<open>Inl TypeError\<close>, \<open>Inl AttributeError\<close> or \<open>Inl ValueError\<close>.
  \<^item> \<open>unpack_int_pair\<close> is the statement \<^verbatim>\<open>a, b = map(int, v.split('x'))\<close>. The
    unpacking of a \<^verbatim>\<open>map\<close> object with other than two items and the conversion of
    an item both raise \<^verbatim>\<open>ValueError\<close>, so the model need not order them.
  \<^item> \<open>str_of\<close> is the formatting of \<^verbatim>\<open>min_resolution\<close> in the f-string of the
    failure message; the value is a string whenever that line is reached, because it
    has been split before (\<open>str_of_unpacked\<close>).
  \<^item> The local \<^verbatim>\<open>required_duration\<close> is read and never used; it is kept as a
    binding of the model.

  The reference is \<open>validation_spec\<close>: the result as a closed expression of the two
  decisions the method takes, a \<open>duration_verdict\<close> and a \<open>resolution_verdict\<close>.
  \<open>read_duration\<close> and \<open>read_resolution\<close> say, by the type of the metadata value,
  which verdict is reached or which exception is raised; \<open>min_resolution_of\<close> is the
  minimum that the requirement table holds for a test type. The lemmas show that the
  method returns exactly \<open>validation_spec\<close> of the two verdicts, which exception it
  raises on which input, and what this means for the catalogue's own entries.
\<close>

section \<open>Results\<close>

record check =
  pass :: bool
  message :: string

record validation_results =
  overall_pass :: bool
  checks :: "(string, check) pydict"
  warnings :: "string list"
  recommendations :: "string list"

definition initial_results :: validation_results where
  "initial_results = \<lparr>overall_pass = True, checks = [], warnings = [], recommendations = []\<rparr>"

section \<open>The three stages\<close>

definition duration_check ::
  "string \<Rightarrow> pyval \<Rightarrow> validation_results \<Rightarrow> py_error + validation_results" where
  "duration_check test_type video_duration r =
     and_then (py_and (test_type = ''Sit-ups (1 minute)'') (py_lt video_duration 55)) (\<lambda>too_short.
       if too_short then
         Inr (r\<lparr>checks := dict_store (checks r) ''duration''
                    \<lparr>pass = False, message = ''Video too short for 1-minute sit-up test''\<rparr>,
                 overall_pass := False\<rparr>)
       else
         and_then (py_and (test_type = ''Vertical Jump'')
                     (py_or (py_lt video_duration 3) (py_gt video_duration 15))) (\<lambda>outside.
           if outside then
             Inr (r\<lparr>checks := dict_store (checks r) ''duration''
                        \<lparr>pass = False,
                         message = ''Video duration should be 3-15 seconds for vertical jump''\<rparr>,
                     warnings := warnings r @ [''Duration outside recommended range'']\<rparr>)
           else
             Inr (r\<lparr>checks := dict_store (checks r) ''duration''
                        \<lparr>pass = True, message = ''Duration appropriate for test type''\<rparr>\<rparr>)))"

definition unpack_int_pair :: "pyval \<Rightarrow> py_error + int \<times> int" where
  "unpack_int_pair v =
     and_then (py_split v CHR ''x'') (\<lambda>parts.
       case parts of
         [a, b] \<Rightarrow> and_then (py_int a) (\<lambda>x. and_then (py_int b) (\<lambda>y. Inr (x, y)))
       | _ \<Rightarrow> Inl ValueError)"

definition str_of :: "pyval \<Rightarrow> string" where
  "str_of v = (case v of PyStr s \<Rightarrow> s | _ \<Rightarrow> [])"

definition resolution_check ::
  "pyval \<Rightarrow> pyval \<Rightarrow> validation_results \<Rightarrow> py_error + validation_results" where
  "resolution_check min_resolution video_resolution r =
     and_then (py_and (truthy video_resolution) (py_in ''x'' video_resolution)) (\<lambda>has_x.
       if has_x then
         and_then (unpack_int_pair video_resolution) (\<lambda>(width, height).
         and_then (unpack_int_pair min_resolution) (\<lambda>(min_width, min_height).
           if width \<ge> min_width \<and> height \<ge> min_height then
             Inr (r\<lparr>checks := dict_store (checks r) ''resolution''
                        \<lparr>pass = True, message = ''Resolution meets minimum requirements''\<rparr>\<rparr>)
           else
             Inr (r\<lparr>checks := dict_store (checks r) ''resolution''
                        \<lparr>pass = False,
                         message = ''Resolution below minimum '' @ str_of min_resolution\<rparr>,
                     warnings := warnings r @ [''Low resolution may affect analysis accuracy'']\<rparr>)))
       else Inr r)"

definition general_recommendations :: "string list" where
  "general_recommendations =
     [''Review video recording requirements'',
      ''Consider re-recording with improved settings'',
      ''Ensure proper camera setup and lighting'']"

definition add_recommendations :: "validation_results \<Rightarrow> validation_results" where
  "add_recommendations r =
     (if \<not> overall_pass r then r\<lparr>recommendations := recommendations r @ general_recommendations\<rparr>
      else r)"

section \<open>The method\<close>

definition validate_video_requirements ::
  "manager \<Rightarrow> (string, pyval) pydict \<Rightarrow> string \<Rightarrow> py_error + validation_results" where
  "validate_video_requirements self video_metadata test_type =
     (let requirements = manager_get_video_requirements self test_type;
          validation_results = initial_results;
          video_duration = dict_get video_metadata ''duration'' (PyInt 0);
          required_duration = dict_get requirements ''duration'' (PyStr [])
      in and_then (duration_check test_type video_duration validation_results) (\<lambda>validation_results.
           let min_resolution = dict_get requirements ''min_resolution'' (PyStr ''640x480'');
               video_resolution = dict_get video_metadata ''resolution'' (PyStr ''0x0'')
           in and_then (resolution_check min_resolution video_resolution validation_results)
                (\<lambda>validation_results. Inr (add_recommendations validation_results))))"

section \<open>Reference\<close>

datatype duration_verdict = TooShort | OutsideRange | DurationOk

definition duration_verdict_of :: "string \<Rightarrow> num \<Rightarrow> duration_verdict" where
  "duration_verdict_of test_type d =
     (if test_type = ''Sit-ups (1 minute)'' \<and> d < 55 then TooShort
      else if test_type = ''Vertical Jump'' \<and> (d < 3 \<or> 15 < d) then OutsideRange
      else DurationOk)"

datatype resolution_verdict = NotChecked | Meets | Below

definition min_resolution_of :: "string \<Rightarrow> int \<times> int" where
  "min_resolution_of test_type = (if test_type = ''50m Sprint'' then (720, 480) else (640, 480))"

definition resolution_verdict_of :: "string \<Rightarrow> (int \<times> int) option \<Rightarrow> resolution_verdict" where
  "resolution_verdict_of test_type res =
     (case res of
        None \<Rightarrow> NotChecked
      | Some (w, h) \<Rightarrow>
          if fst (min_resolution_of test_type) \<le> w \<and> snd (min_resolution_of test_type) \<le> h
          then Meets else Below)"

definition duration_entry :: "duration_verdict \<Rightarrow> check" where
  "duration_entry v =
     (case v of
        TooShort \<Rightarrow> \<lparr>pass = False, message = ''Video too short for 1-minute sit-up test''\<rparr>
      | OutsideRange \<Rightarrow>
          \<lparr>pass = False, message = ''Video duration should be 3-15 seconds for vertical jump''\<rparr>
      | DurationOk \<Rightarrow> \<lparr>pass = True, message = ''Duration appropriate for test type''\<rparr>)"

definition resolution_entries :: "string \<Rightarrow> resolution_verdict \<Rightarrow> (string, check) pydict" where
  "resolution_entries test_type v =
     (case v of
        NotChecked \<Rightarrow> []
      | Meets \<Rightarrow> [(''resolution'',
                     \<lparr>pass = True, message = ''Resolution meets minimum requirements''\<rparr>)]
      | Below \<Rightarrow> [(''resolution'',
                     \<lparr>pass = False,
                      message = ''Resolution below minimum '' @
                        string_of_int (fst (min_resolution_of test_type)) @ ''x'' @
                        string_of_int (snd (min_resolution_of test_type))\<rparr>)])"

definition validation_spec :: "string \<Rightarrow> duration_verdict \<Rightarrow> resolution_verdict \<Rightarrow> validation_results" where
  "validation_spec test_type dv rv =
     \<lparr>overall_pass = (dv \<noteq> TooShort),
      checks = (''duration'', duration_entry dv) # resolution_entries test_type rv,
      warnings = (if dv = OutsideRange then [''Duration outside recommended range''] else []) @
                 (if rv = Below then [''Low resolution may affect analysis accuracy''] else []),
      recommendations = (if dv = TooShort then general_recommendations else [])\<rparr>"

definition read_duration :: "string \<Rightarrow> pyval \<Rightarrow> py_error + duration_verdict" where
  "read_duration test_type d =
     (if test_type = ''Sit-ups (1 minute)'' \<or> test_type = ''Vertical Jump''
      then and_then (num_of d) (\<lambda>x. Inr (duration_verdict_of test_type x))
      else Inr DurationOk)"

definition parse_pair :: "string \<Rightarrow> (int \<times> int) option" where
  "parse_pair s =
     (case split_on CHR ''x'' s of
        [a, b] \<Rightarrow> (case (py_int a, py_int b) of (Inr x, Inr y) \<Rightarrow> Some (x, y) | _ \<Rightarrow> None)
      | _ \<Rightarrow> None)"

definition read_resolution :: "pyval \<Rightarrow> py_error + (int \<times> int) option" where
  "read_resolution v =
     (case v of
        PyNone \<Rightarrow> Inr None
      | PyInt i \<Rightarrow> if i = 0 then Inr None else Inl TypeError
      | PyFloat x \<Rightarrow> if x = 0 then Inr None else Inl TypeError
      | PyStr s \<Rightarrow>
          if CHR ''x'' \<in> set s
          then (case parse_pair s of Some p \<Rightarrow> Inr (Some p) | None \<Rightarrow> Inl ValueError)
          else Inr None
      | PyList xs \<Rightarrow> if PyStr ''x'' \<in> set xs then Inl AttributeError else Inr None
      | PyDict d \<Rightarrow> if dict_contains d ''x'' then Inl AttributeError else Inr None)"

definition after_duration :: "duration_verdict \<Rightarrow> validation_results" where
  "after_duration dv =
     \<lparr>overall_pass = (dv \<noteq> TooShort),
      checks = [(''duration'', duration_entry dv)],
      warnings = (if dv = OutsideRange then [''Duration outside recommended range''] else []),
      recommendations = []\<rparr>"

lemmas validation_defs [tt_defs] =
  duration_check_def resolution_check_def add_recommendations_def validate_video_requirements_def
  initial_results_def

lemmas reference_defs =
  duration_verdict_of_def resolution_verdict_of_def duration_entry_def resolution_entries_def
  validation_spec_def min_resolution_of_def read_duration_def read_resolution_def
  after_duration_def


section \<open>Stages\<close>

lemma duration_check_initial:
  "duration_check t d initial_results = and_then (read_duration t d) (\<lambda>dv. Inr (after_duration dv))"
  by (cases d)
     (auto simp: duration_check_def read_duration_def after_duration_def initial_results_def
       duration_verdict_of_def duration_entry_def dict_store_def py_lt_def py_gt_def)

lemma unpack_int_pair_Str:
  "unpack_int_pair (PyStr s) = (case parse_pair s of Some p \<Rightarrow> Inr p | None \<Rightarrow> Inl ValueError)"
  by (auto simp: unpack_int_pair_def parse_pair_def and_then_def dest: py_int_Inl
      split: list.splits sum.splits)

lemma unpack_int_pair_not_Str: "(\<forall>s. v \<noteq> PyStr s) \<Longrightarrow> unpack_int_pair v = Inl AttributeError"
  by (cases v) (simp_all add: unpack_int_pair_def)

fun_cases py_split_InrE: "py_split v c = Inr parts"

lemma unpack_int_pair_Inr_iff:
  "unpack_int_pair v = Inr p \<longleftrightarrow> (\<exists>s. v = PyStr s \<and> parse_pair s = Some p)"
proof
  assume r: "unpack_int_pair v = Inr p"
  then obtain parts where "py_split v CHR ''x'' = Inr parts"
    by (auto simp: unpack_int_pair_def and_then_eq_Inr_iff)
  then obtain s where "v = PyStr s" by (rule py_split_InrE)
  with r show "\<exists>s. v = PyStr s \<and> parse_pair s = Some p"
    by (auto simp: unpack_int_pair_Str split: option.splits)
next
  assume "\<exists>s. v = PyStr s \<and> parse_pair s = Some p"
  then show "unpack_int_pair v = Inr p" by (auto simp: unpack_int_pair_Str)
qed

lemma str_of_unpacked: "unpack_int_pair v = Inr p \<Longrightarrow> PyStr (str_of v) = v"
  by (auto simp: unpack_int_pair_Inr_iff str_of_def)

lemma min_resolution_table:
  "dict_get (manager_get_video_requirements self t) ''min_resolution'' (PyStr ''640x480'') =
     PyStr (if t = ''50m Sprint'' then ''720x480'' else ''640x480'')"
  by (simp add: manager_get_video_requirements_def requirements_table_def dict_get_def tt_data)

lemma parse_min_resolution:
  "parse_pair (if t = ''50m Sprint'' then ''720x480'' else ''640x480'') = Some (min_resolution_of t)"
  by (simp add: parse_pair_def min_resolution_of_def literal_defs)

lemma string_of_nat_640: "string_of_nat 640 = ''640''" "string_of_nat 480 = ''480''"
    "string_of_nat 720 = ''720''"
  by (simp_all add: string_of_nat.simps digit_char_def)

lemma min_resolution_text:
  "(if t = ''50m Sprint'' then ''720x480'' else ''640x480'') =
     string_of_int (fst (min_resolution_of t)) @ ''x'' @ string_of_int (snd (min_resolution_of t))"
  by (simp add: min_resolution_of_def string_of_int_def string_of_nat_640)

lemma resolution_check_after_duration:
  assumes "parse_pair m = Some (min_resolution_of t)"
    and "m = string_of_int (fst (min_resolution_of t)) @ ''x'' @ string_of_int (snd (min_resolution_of t))"
  shows "resolution_check (PyStr m) v (after_duration dv) =
     and_then (read_resolution v) (\<lambda>res.
       Inr ((after_duration dv)\<lparr>checks := checks (after_duration dv) @
                                    resolution_entries t (resolution_verdict_of t res),
             warnings := warnings (after_duration dv) @
               (if resolution_verdict_of t res = Below
                then [''Low resolution may affect analysis accuracy''] else [])\<rparr>))"
proof -
  have m: "unpack_int_pair (PyStr m) = Inr (min_resolution_of t)" and "str_of (PyStr m) = m"
    using assms(1) by (simp_all add: unpack_int_pair_Str str_of_def)
  with assms(2) show ?thesis
    by (cases v)
       (auto simp: resolution_check_def read_resolution_def unpack_int_pair_Str
         unpack_int_pair_not_Str resolution_verdict_of_def resolution_entries_def
         after_duration_def dict_store_def case_prod_beta split: option.splits)
qed

lemma add_recommendations_spec:
  "add_recommendations
     ((after_duration dv)\<lparr>checks := checks (after_duration dv) @ resolution_entries t rv,
        warnings := warnings (after_duration dv) @
          (if rv = Below then [''Low resolution may affect analysis accuracy''] else [])\<rparr>) =
   validation_spec t dv rv"
  by (simp add: add_recommendations_def after_duration_def validation_spec_def)

lemma validate_unfold:
  "validate_video_requirements self video_metadata test_type =
     and_then (read_duration test_type (dict_get video_metadata ''duration'' (PyInt 0))) (\<lambda>dv.
     and_then (read_resolution (dict_get video_metadata ''resolution'' (PyStr ''0x0''))) (\<lambda>res.
       Inr (validation_spec test_type dv (resolution_verdict_of test_type res))))"
  unfolding validate_video_requirements_def Let_def duration_check_initial min_resolution_table
  by (cases "read_duration test_type (dict_get video_metadata ''duration'' (PyInt 0))";
      cases "read_resolution (dict_get video_metadata ''resolution'' (PyStr ''0x0''))")
     (simp_all add: resolution_check_after_duration [OF parse_min_resolution min_resolution_text]
        add_recommendations_spec)

section \<open>Reading the metadata\<close>

lemma read_duration_Inl_iff:
  "read_duration t d = Inl e \<longleftrightarrow>
     e = TypeError \<and> (t = ''Sit-ups (1 minute)'' \<or> t = ''Vertical Jump'') \<and> \<not> is_number d"
  by (cases d) (auto simp: read_duration_def is_number_def)

lemma read_duration_Inr_iff:
  "read_duration t d = Inr dv \<longleftrightarrow>
     (if t = ''Sit-ups (1 minute)'' \<or> t = ''Vertical Jump''
      then \<exists>x. num_of d = Inr x \<and> dv = duration_verdict_of t x
      else dv = DurationOk)"
  by (cases d) (auto simp: read_duration_def)

lemma read_duration_total:
  "(\<exists>dv. read_duration t d = Inr dv) \<longleftrightarrow>
     is_number d \<or> (t \<noteq> ''Sit-ups (1 minute)'' \<and> t \<noteq> ''Vertical Jump'')"
  by (cases d) (auto simp: read_duration_def is_number_def)

lemma parse_pair_Some_iff:
  "parse_pair s = Some (w, h) \<longleftrightarrow>
     (\<exists>a b. s = a @ ''x'' @ b \<and> CHR ''x'' \<notin> set a \<and> CHR ''x'' \<notin> set b \<and>
        py_int a = Inr w \<and> py_int b = Inr h)"
proof
  assume "parse_pair s = Some (w, h)"
  then obtain a b where "split_on CHR ''x'' s = [a, b]" and "py_int a = Inr w" and "py_int b = Inr h"
    by (auto simp: parse_pair_def split: list.splits sum.splits)
  then show "\<exists>a b. s = a @ ''x'' @ b \<and> CHR ''x'' \<notin> set a \<and> CHR ''x'' \<notin> set b \<and>
        py_int a = Inr w \<and> py_int b = Inr h"
    by (auto simp: split_on_two_iff)
next
  assume "\<exists>a b. s = a @ ''x'' @ b \<and> CHR ''x'' \<notin> set a \<and> CHR ''x'' \<notin> set b \<and>
        py_int a = Inr w \<and> py_int b = Inr h"
  then obtain a b where "split_on CHR ''x'' s = [a, b]" and "py_int a = Inr w" and "py_int b = Inr h"
    by (auto simp: split_on_two_iff)
  then show "parse_pair s = Some (w, h)" by (simp add: parse_pair_def)
qed

lemma parse_pair_printed [simp]:
  "parse_pair (string_of_int w @ CHR ''x'' # string_of_int h) = Some (w, h)"
  by (simp add: parse_pair_def split_on_append split_on_no_sep)

lemma read_resolution_Inl_iff:
  "read_resolution v = Inl e \<longleftrightarrow>
     (e = TypeError \<and> is_number v \<and> truthy v) \<or>
     (e = ValueError \<and> (\<exists>s. v = PyStr s \<and> CHR ''x'' \<in> set s \<and> parse_pair s = None)) \<or>
     (e = AttributeError \<and>
        ((\<exists>xs. v = PyList xs \<and> PyStr ''x'' \<in> set xs) \<or> (\<exists>d. v = PyDict d \<and> dict_contains d ''x'')))"
  by (cases v) (auto simp: read_resolution_def is_number_def split: option.splits)

section \<open>What the method returns and raises\<close>

text \<open>
  C6 (refinement). \<^verbatim>\<open>validate_video_requirements\<close> returns a result exactly
  when the duration and the resolution of the metadata can be read, and the result is
  then \<open>validation_spec\<close> of the two verdicts: \<^verbatim>\<open>overall_pass\<close> is false only for a
  sit-up video shorter than 55 seconds, \<^verbatim>\<open>checks\<close> holds the duration entry and,
  when the resolution was checked, the resolution entry after it, \<^verbatim>\<open>warnings\<close>
  holds the duration warning before the resolution warning, and the three general
  recommendations are present only when \<^verbatim>\<open>overall_pass\<close> is false.
\<close>

theorem validate_returns_spec:
  "validate_video_requirements self video_metadata test_type = Inr r \<longleftrightarrow>
     (\<exists>dv res. read_duration test_type (dict_get video_metadata ''duration'' (PyInt 0)) = Inr dv \<and>
        read_resolution (dict_get video_metadata ''resolution'' (PyStr ''0x0'')) = Inr res \<and>
        r = validation_spec test_type dv (resolution_verdict_of test_type res))"
  by (auto simp: validate_unfold and_then_eq_Inr_iff)

text \<open>
  C10 (error). The method raises \<^verbatim>\<open>TypeError\<close> exactly when the duration of a
  sit-up or vertical-jump video is not a number (a missing duration is 0; for the other
  test types the duration is never compared), or when the resolution is a number other
  than zero, to which \<^verbatim>\<open>in\<close> does not apply.
\<close>

theorem validate_type_error:
  "validate_video_requirements self video_metadata test_type = Inl TypeError \<longleftrightarrow>
     ((test_type = ''Sit-ups (1 minute)'' \<or> test_type = ''Vertical Jump'') \<and>
        \<not> is_number (dict_get video_metadata ''duration'' (PyInt 0))) \<or>
     (is_number (dict_get video_metadata ''resolution'' (PyStr ''0x0'')) \<and>
        truthy (dict_get video_metadata ''resolution'' (PyStr ''0x0'')))"
  using read_duration_total [of test_type "dict_get video_metadata ''duration'' (PyInt 0)"]
  by (auto simp: validate_unfold and_then_eq_Inl_iff read_duration_Inl_iff read_resolution_Inl_iff)

text \<open>
  C11 (error). The method raises \<^verbatim>\<open>ValueError\<close> exactly when the duration can
  be read and the resolution is a string that contains \<^verbatim>\<open>x\<close> but is not two
  integer literals separated by one \<^verbatim>\<open>x\<close> (\<^verbatim>\<open>'x'\<close>, \<^verbatim>\<open>'1920x'\<close>,
  \<^verbatim>\<open>'4x3x2'\<close>, \<^verbatim>\<open>'max'\<close>).
\<close>

theorem validate_value_error:
  "validate_video_requirements self video_metadata test_type = Inl ValueError \<longleftrightarrow>
     (is_number (dict_get video_metadata ''duration'' (PyInt 0)) \<or>
        (test_type \<noteq> ''Sit-ups (1 minute)'' \<and> test_type \<noteq> ''Vertical Jump'')) \<and>
     (\<exists>s. dict_get video_metadata ''resolution'' (PyStr ''0x0'') = PyStr s \<and> CHR ''x'' \<in> set s \<and>
        parse_pair s = None)"
  using read_duration_total [of test_type "dict_get video_metadata ''duration'' (PyInt 0)"]
  by (auto simp: validate_unfold and_then_eq_Inl_iff read_duration_Inl_iff read_resolution_Inl_iff)

text \<open>
  C31 (error). The method raises \<^verbatim>\<open>AttributeError\<close> exactly when the duration
  can be read and the resolution is a list with the element \<^verbatim>\<open>'x'\<close> or a dict
  with the key \<^verbatim>\<open>'x'\<close>: both pass the membership test and have no
  \<^verbatim>\<open>split\<close>.
\<close>

theorem validate_attribute_error:
  "validate_video_requirements self video_metadata test_type = Inl AttributeError \<longleftrightarrow>
     (is_number (dict_get video_metadata ''duration'' (PyInt 0)) \<or>
        (test_type \<noteq> ''Sit-ups (1 minute)'' \<and> test_type \<noteq> ''Vertical Jump'')) \<and>
     ((\<exists>xs. dict_get video_metadata ''resolution'' (PyStr ''0x0'') = PyList xs \<and> PyStr ''x'' \<in> set xs) \<or>
      (\<exists>d. dict_get video_metadata ''resolution'' (PyStr ''0x0'') = PyDict d \<and> dict_contains d ''x''))"
  using read_duration_total [of test_type "dict_get video_metadata ''duration'' (PyInt 0)"]
  by (auto simp: validate_unfold and_then_eq_Inl_iff read_duration_Inl_iff read_resolution_Inl_iff)

lemma read_duration_number:
  "num_of d = Inr x \<Longrightarrow> read_duration t d = Inr (duration_verdict_of t x)"
  by (auto simp: read_duration_def duration_verdict_of_def)

lemma read_resolution_printed:
  "read_resolution (PyStr (string_of_int w @ CHR ''x'' # string_of_int h)) = Inr (Some (w, h))"
  by (simp add: read_resolution_def)

text \<open>
  C12 (functional). On metadata with a numeric duration and a resolution printed as
  \<^verbatim>\<open>f'{w}x{h}'\<close> the method returns: the duration verdict is that of the
  number, and the resolution passes exactly when \<open>w\<close> and \<open>h\<close> reach the minimum width
  and height that the requirement table holds for the test type (720x480 for the
  sprint, 640x480 otherwise, unknown test types included).
\<close>

theorem validate_well_formed:
  assumes "num_of (dict_get video_metadata ''duration'' (PyInt 0)) = Inr d"
    and "dict_get video_metadata ''resolution'' (PyStr ''0x0'') =
           PyStr (string_of_int w @ ''x'' @ string_of_int h)"
  shows "validate_video_requirements self video_metadata test_type =
           Inr (validation_spec test_type (duration_verdict_of test_type d)
                  (resolution_verdict_of test_type (Some (w, h))))"
  using assms by (simp add: validate_unfold read_duration_number read_resolution_printed)

lemmas print_defs = string_of_int_def string_of_nat.simps digit_char_def

theorem validate_well_formed_witness:
  "validate_video_requirements SampleVideoManager
     [(''duration'', PyInt 60), (''resolution'', PyStr ''1920x1080'')] ''Sit-ups (1 minute)'' =
   Inr \<lparr>overall_pass = True,
        checks = [(''duration'', \<lparr>pass = True, message = ''Duration appropriate for test type''\<rparr>),
                  (''resolution'', \<lparr>pass = True, message = ''Resolution meets minimum requirements''\<rparr>)],
        warnings = [], recommendations = []\<rparr>"
  using validate_well_formed [of "[(''duration'', PyInt 60), (''resolution'', PyStr ''1920x1080'')]"
      60 1920 1080 SampleVideoManager "''Sit-ups (1 minute)''"]
  by (simp add: dict_get_def print_defs reference_defs)

text \<open>
  C20 (functional). Whenever the method returns, \<^verbatim>\<open>overall_pass\<close> is false
  exactly for test type \<^verbatim>\<open>Sit-ups (1 minute)\<close> with a duration below 55: no
  other check can fail the validation.
\<close>

theorem overall_pass_iff:
  assumes "validate_video_requirements self video_metadata test_type = Inr r"
  shows "overall_pass r \<longleftrightarrow>
           \<not> (test_type = ''Sit-ups (1 minute)'' \<and>
              (\<exists>x. num_of (dict_get video_metadata ''duration'' (PyInt 0)) = Inr x \<and> x < 55))"
  using assms
  by (auto simp: validate_unfold and_then_eq_Inr_iff read_duration_Inr_iff validation_spec_def
      duration_verdict_of_def split: if_splits)

theorem overall_pass_iff_witness:
  "validate_video_requirements SampleVideoManager
     [(''duration'', PyInt 30), (''resolution'', PyStr ''HD'')] ''Sit-ups (1 minute)'' =
     Inr (validation_spec ''Sit-ups (1 minute)'' TooShort NotChecked) \<and>
   \<not> overall_pass (validation_spec ''Sit-ups (1 minute)'' TooShort NotChecked)"
  using overall_pass_iff [of SampleVideoManager "[(''duration'', PyInt 30), (''resolution'', PyStr ''HD'')]"
      "''Sit-ups (1 minute)''" "validation_spec ''Sit-ups (1 minute)'' TooShort NotChecked"]
  by (simp add: validate_unfold dict_get_def reference_defs)

text \<open>
  Whenever the method returns, the recommendations are the three general ones if
  \<^verbatim>\<open>overall_pass\<close> is false and empty otherwise.
\<close>

lemma recommendations_iff:
  assumes "validate_video_requirements self video_metadata test_type = Inr r"
  shows "recommendations r = (if overall_pass r then [] else general_recommendations)"
  using assms by (auto simp: validate_unfold and_then_eq_Inr_iff validation_spec_def)

text \<open>
  C21 (safety). A vertical-jump video longer than 15 seconds with no resolution in its
  metadata fails both checks (the missing resolution is read as \<^verbatim>\<open>0x0\<close>) and
  collects both warnings, and is still returned with \<^verbatim>\<open>overall_pass\<close> true and
  without recommendations.
\<close>

theorem failed_checks_pass:
  assumes "15 < d"
  shows "validate_video_requirements self [(''duration'', PyFloat d)] ''Vertical Jump'' =
     Inr \<lparr>overall_pass = True,
          checks = [(''duration'', \<lparr>pass = False,
                       message = ''Video duration should be 3-15 seconds for vertical jump''\<rparr>),
                    (''resolution'', \<lparr>pass = False, message = ''Resolution below minimum 640x480''\<rparr>)],
          warnings = [''Duration outside recommended range'',
                      ''Low resolution may affect analysis accuracy''],
          recommendations = []\<rparr>"
  using assms
  by (simp add: validate_unfold dict_get_def read_duration_def read_resolution_def parse_pair_def
      literal_defs reference_defs print_defs)

theorem failed_checks_pass_witness:
  "validate_video_requirements SampleVideoManager [(''duration'', PyFloat 20)] ''Vertical Jump'' =
     Inr (validation_spec ''Vertical Jump'' OutsideRange Below) \<and>
   overall_pass (validation_spec ''Vertical Jump'' OutsideRange Below) \<and>
   \<not> pass (duration_entry OutsideRange)"
  using failed_checks_pass [of 20 SampleVideoManager]
  by (simp add: reference_defs print_defs)

lemma recommendations_iff_witness:
  "validate_video_requirements SampleVideoManager [(''duration'', PyFloat 54.9)]
     ''Sit-ups (1 minute)'' = Inr (validation_spec ''Sit-ups (1 minute)'' TooShort Below) \<and>
   recommendations (validation_spec ''Sit-ups (1 minute)'' TooShort Below) =
     [''Review video recording requirements'', ''Consider re-recording with improved settings'',
      ''Ensure proper camera setup and lighting'']"
  using recommendations_iff [of SampleVideoManager "[(''duration'', PyFloat 54.9)]"
      "''Sit-ups (1 minute)''" "validation_spec ''Sit-ups (1 minute)'' TooShort Below"]
  by (simp add: validate_unfold dict_get_def read_duration_def read_resolution_def parse_pair_def
      literal_defs reference_defs general_recommendations_def)

section \<open>Catalogue entries and spellings of the resolution\<close>

lemma wf_video_metadata:
  assumes "wf_video v"
  shows "is_str (dict_get (dict_of v) ''duration'' (PyInt 0))"
    and "is_str (dict_get (dict_of v) ''resolution'' (PyStr ''0x0''))"
proof -
  from assms obtain d where v: "v = PyDict d"
    by (cases v) (simp_all add: wf_video_def keys_of_def)
  with assms have k: "''duration'' \<in> set (dict_keys d)" "''resolution'' \<in> set (dict_keys d)"
    by (simp_all add: wf_video_def keys_of_def)
  have g: "dict_get d k x = dict_get d k PyNone" if "k \<in> set (dict_keys d)" for k x
    using that by (auto simp: dict_get_def dict_keys_def map_of_eq_None_iff split: option.splits)
  from assms v show "is_str (dict_get (dict_of v) ''duration'' (PyInt 0))"
    by (simp add: wf_video_def field_def dict_of_def g [OF k(1), of "PyInt 0"])
  from assms v show "is_str (dict_get (dict_of v) ''resolution'' (PyStr ''0x0''))"
    by (simp add: wf_video_def field_def dict_of_def g [OF k(2), of "PyStr ''0x0''"])
qed

lemma is_str_not_number: "is_str v \<Longrightarrow> \<not> is_number v"
  by (cases v) (simp_all add: is_str_def is_number_def)

text \<open>
  C22 (error). The catalogue and the validation disagree on the type of the duration: an
  entry of the shape that the catalogue uses (\<open>wf_video\<close>, duration as a text such as
  \<^verbatim>\<open>'5 seconds'\<close>), passed as metadata, makes the method raise \<^verbatim>\<open>TypeError\<close> for
  the sit-ups and the vertical jump, whose duration is compared with a number, and for
  no other test type.
\<close>

theorem catalogue_entry_type_error:
  assumes "wf_video v"
  shows "validate_video_requirements self (dict_of v) test_type = Inl TypeError \<longleftrightarrow>
           test_type = ''Sit-ups (1 minute)'' \<or> test_type = ''Vertical Jump''"
  using wf_video_metadata [OF assms]
    read_duration_total [of test_type "dict_get (dict_of v) ''duration'' (PyInt 0)"]
  by (auto simp: validate_unfold and_then_eq_Inl_iff read_duration_Inl_iff read_resolution_Inl_iff
      dest: is_str_not_number)

theorem catalogue_entry_type_error_witness:
  "validate_video_requirements SampleVideoManager (dict_of (hd situps_videos)) ''Sit-ups (1 minute)''
     = Inl TypeError
   \<and> validate_video_requirements SampleVideoManager (dict_of (hd situps_videos)) ''Push-ups''
     \<noteq> Inl TypeError"
  using catalogue_entry_type_error [of "hd situps_videos" SampleVideoManager] wf_situps_videos
  by (simp add: situps_videos_def)

lemma read_resolution_sides:
  assumes "py_int a = Inr w" and "py_int b = Inr h"
    and "CHR ''x'' \<notin> set a" and "CHR ''x'' \<notin> set b"
  shows "read_resolution (PyStr (a @ ''x'' @ b)) = Inr (Some (w, h))"
  using assms by (simp add: read_resolution_def parse_pair_def split_on_append split_on_no_sep)

text \<open>
  C29 (equivalence). The two sides of the resolution are read by \<^verbatim>\<open>int\<close>, so the
  method does not depend on how they are spelt: a resolution whose sides \<^verbatim>\<open>int\<close>
  reads as \<open>w\<close> and \<open>h\<close> (with white space around them, a sign, or underscores between
  digits, as in \<^verbatim>\<open>' 1_920 x +1080'\<close>) gives the result of the resolution printed
  as \<^verbatim>\<open>f'{w}x{h}'\<close>, for every other content of the metadata and every test type.
\<close>

theorem resolution_spelling:
  assumes "py_int a = Inr w" and "py_int b = Inr h"
    and "CHR ''x'' \<notin> set a" and "CHR ''x'' \<notin> set b"
  shows "validate_video_requirements self
           (dict_store video_metadata ''resolution'' (PyStr (a @ ''x'' @ b))) test_type
       = validate_video_requirements self
           (dict_store video_metadata ''resolution''
              (PyStr (string_of_int w @ ''x'' @ string_of_int h))) test_type"
  using read_resolution_sides [OF assms] read_resolution_printed [of w h]
  by (simp add: validate_unfold dict_get_def)

theorem resolution_spelling_witness:
  "validate_video_requirements SampleVideoManager
     (dict_store [(''duration'', PyInt 8)] ''resolution'' (PyStr '' 1_920 x +1080'')) ''Vertical Jump''
   = validate_video_requirements SampleVideoManager
       (dict_store [(''duration'', PyInt 8)] ''resolution'' (PyStr ''1920x1080'')) ''Vertical Jump''"
  using resolution_spelling [of "'' 1_920 ''" 1920 "'' +1080''" 1080 SampleVideoManager
      "[(''duration'', PyInt 8)]" "''Vertical Jump''"]
  by (simp add: literal_defs print_defs)

end
