(* ===== verification/Spec2Isabelle.thy ===== *)
theory Spec2Isabelle
  imports Benchmark_Repository Sport_Scorer_F64 Percentile_Classifier Video_Validation
begin

text \<open>
  Verification development for the talent-tracker scoring library.

  \<^bold>\<open>The program.\<close> \<^verbatim>\<open>src/TalentTrakker/data/benchmarks.py\<close> holds static reference
  tables and three pure functions over them:
  \<^item> the benchmark repository (\<^verbatim>\<open>AGE_GROUPS\<close>, \<^verbatim>\<open>GENDER_FACTORS\<close>,
    \<^verbatim>\<open>PERFORMANCE_BENCHMARKS\<close>, \<^verbatim>\<open>get_benchmark\<close>), which resolves an age to an age
    group and returns the threshold table of a test type, age group and gender, or
    default thresholds;
  \<^item> the sport scorer (\<^verbatim>\<open>SPORT_SPECIFIC_BENCHMARKS\<close>,
    \<^verbatim>\<open>get_sport_specific_assessment\<close>), which averages the scores of a sport's
    critical tests by weight and classifies the result into a talent level;
  \<^item> the percentile classifier (\<^verbatim>\<open>PERFORMANCE_PERCENTILES\<close>,
    \<^verbatim>\<open>compare_to_national_standards\<close>), which maps a score to a national percentile
    bracket.
  The functions do not call each other; a caller scores tests against the benchmarks,
  passes the scores to the sport scorer and the composite score to the percentile
  classifier. The tables are shared by name: the critical tests of a sport are test
  types of the benchmark table.

  \<^verbatim>\<open>src/assets/sample_videos.py\<close> holds class \<^verbatim>\<open>SampleVideoManager\<close>, one global
  instance of it and four module-level wrappers:
  \<^item> the sample catalogue (\<^verbatim>\<open>get_sample_videos\<close>, \<^verbatim>\<open>get_test_scenarios\<close>) and the
    tables of recording requirements, common issues and tips
    (\<^verbatim>\<open>get_video_requirements\<close>, \<^verbatim>\<open>get_common_issues\<close>,
    \<^verbatim>\<open>get_recording_tips\<close>), keyed by the same test types as the benchmark table;
  \<^item> the validation of the metadata of a video against the requirements of a test type
    (\<^verbatim>\<open>validate_video_requirements\<close>), which calls \<^verbatim>\<open>get_video_requirements\<close>.

  \<^bold>\<open>The theories.\<close>
  \<^item> \<open>TT_Prelude\<close>: numbers (\<open>num\<close>, rationals); Python dicts as association
    lists in insertion order with membership, \<open>get\<close>, item assignment, unguarded
    subscript (\<open>KeyError\<close> as a value) and comprehension; the exception classes
    \<open>py_error\<close> and the sequencing \<open>and_then\<close> of statements that may raise;
    \<open>sorted_reverse\<close>; the first-match range search \<open>find_range\<close>; weighted sums;
    decimal printing; and the generic lemmas about them, on which the component proofs
    rest.
  \<^item> \<open>Benchmark_Tables\<close>: the record \<open>tiers\<close>, the five tables of
    \<^verbatim>\<open>PERFORMANCE_BENCHMARKS\<close> (one definition per test type), the guarded triple
    subscript \<open>benchmark_lookup\<close>, well-formedness (\<open>wf_benchmarks\<close>) and completeness
    (\<open>complete_benchmarks\<close>) of the tables, proved by evaluation.
  \<^item> \<open>Benchmark_Repository\<close>: \<open>AGE_GROUPS\<close>, \<open>GENDER_FACTORS\<close>, the age-group loop
    \<open>age_group_scan\<close>, \<open>get_benchmark\<close> with its two result shapes (datatype
    \<open>benchmark\<close>), and the abstract age classification \<open>resolveAgeGroup\<close>. Lemmas:
    refinement of the loop to the specification, independence of the iteration order,
    the found and the default branch of the lookup, well-formedness of every result.
  \<^item> \<open>Sport_Scorer\<close>: the records \<open>sport_config\<close> and \<open>assessment\<close>, the table
    \<open>SPORT_SPECIFIC_BENCHMARKS\<close>, the accumulator loop \<open>score_loop\<close>, the level chain
    \<open>talent_of\<close>, \<open>assess_sport\<close> and \<open>get_sport_specific_assessment\<close>. Lemmas:
    the loop equals the weighted mean of the scored critical tests, dependence on the
    critical tests only, the thresholds of each level, monotonicity of the level (over
    the ordered datatype \<open>talent_tier\<close>), the sentinel for an unrecognised sport, the
    breakdown. Its arithmetic is that of the rationals: it is the function as the
    specification reads it.
  \<^item> \<open>Binary64\<close>: the arithmetic of Python's \<^verbatim>\<open>float\<close>: \<open>round_double\<close>, the
    rounding of a rational to the nearest IEEE 754 double with ties to even, and
    \<open>float_add\<close>, \<open>float_mul\<close>, \<open>float_truediv\<close>. Lemmas: the rounding is monotone,
    idempotent and has a relative error of at most \<open>1 / 2 ^ 53\<close>; the steps of a
    running error analysis (\<open>close_to\<close>).
  \<^item> \<open>Sport_Scorer_F64\<close>: the sport scorer as Python runs it, \<open>score_loop_f64\<close>,
    \<open>assess_sport_f64\<close> and \<open>get_sport_specific_assessment_f64\<close>, over the doubles
    and with the division that raises \<open>ZeroDivisionError\<close>; \<open>double_config\<close>, the table
    with its float literals rounded. Lemmas: the function never raises; its composite
    score is the exact weighted mean up to a relative error of \<open>1 / 10 ^ 15\<close> for the
    table, and lies in the range of the scores up to that error; it is monotone in
    the scores; its talent level is that of the exact function unless the exact score
    is that close to a threshold, where it can differ (Basketball, scores 96 and 56:
    84 and Elite Potential exactly, 83.99999999999999 and High Potential in Python).
  \<^item> \<open>Percentile_Classifier\<close>: the records \<open>percentile_entry\<close> and \<open>comparison\<close>,
    the table \<open>PERFORMANCE_PERCENTILES\<close>, the loop \<open>percentile_scan\<close>,
    \<open>compare_with\<close> and \<open>compare_to_national_standards\<close>. Lemmas: no subscript
    fails, refinement to the piecewise specification \<open>national_bracket\<close>,
    monotonicity, and the scores on which the loop finds no bracket.
  \<^item> \<open>Py_Values\<close>: the dynamically typed values \<open>pyval\<close> of the catalogue and of the
    video metadata, and the built-ins that \<^verbatim>\<open>validate_video_requirements\<close> applies
    to them, each with the exception it raises: truthiness, \<^verbatim>\<open><\<close> and
    \<^verbatim>\<open>></\<close> against a number, the short-circuit connectives, \<^verbatim>\<open>in\<close>,
    \<^verbatim>\<open>split\<close> and \<^verbatim>\<open>int\<close>. Lemmas: the parts that splitting returns, and
    that \<^verbatim>\<open>int\<close> reads back the decimal text of every integer.
  \<^item> \<open>Video_Catalog\<close>: the literals of \<^verbatim>\<open>SampleVideoManager\<close> as \<open>pyval\<close> terms,
    the instance as the record \<open>manager\<close>, the lookups with their defaults, the
    global instance and the wrappers. Lemmas: the three branches of
    \<open>get_sample_videos\<close>; the invariant \<open>wf_manager\<close> of a catalogue (no empty test
    type, every entry of the shape \<open>wf_video\<close>), which the catalogue of
    \<^verbatim>\<open>__init__\<close> satisfies and under which every lookup returns well-formed entries
    and the lookup without a test type is the concatenation of the lookups by test
    type; the fallbacks for unknown test types.
  \<^item> \<open>Video_Validation\<close>: the records \<open>check\<close> and \<open>validation_results\<close>, the three
    stages \<open>duration_check\<close>, \<open>resolution_check\<close>, \<open>add_recommendations\<close> and their
    composition \<open>validate_video_requirements\<close>; the reference result
    \<open>validation_spec\<close>. Lemmas: the method returns exactly the reference result, the
    inputs on which it raises each of its three exceptions, the decision behind
    \<^verbatim>\<open>overall_pass\<close>, that every entry of the shape of the catalogue raises
    \<open>TypeError\<close> for the two test types whose duration is checked, and that the result
    does not depend on the spelling of the resolution.
  \<^item> This theory: the properties that span components (the talent level against the
    national percentile of the same composite score; every critical test of every
    sport has benchmark tables).

  \<^bold>\<open>Modelling choices.\<close> Strings are \<open>string\<close> and are taken to be ASCII; Python
  \<open>int\<close> is \<open>int\<close>; a \<^verbatim>\<open>float\<close> is the rational it denotes. Comparisons of floats
  are exact, so the functions that only compare (\<^verbatim>\<open>get_benchmark\<close>,
  \<^verbatim>\<open>compare_to_national_standards\<close>, \<^verbatim>\<open>validate_video_requirements\<close>, the talent
  level chain) are modelled over the rationals without loss. The one function that
  computes with floats, \<^verbatim>\<open>get_sport_specific_assessment\<close>, is modelled twice: over
  the rationals (\<open>Sport_Scorer\<close>, what the specification describes: a weighted mean)
  and over the doubles with every operation rounded (\<open>Sport_Scorer_F64\<close>, what
  Python computes); the second refines the first up to the stated rounding error. In
  the exact model the quotient is total; that the guard \<^verbatim>\<open>total_weight > 0\<close> keeps
  Python from dividing by zero is a lemma of the second. The exponent range of the
  doubles is not bounded in the model (no overflow, no subnormal numbers, no NaN):
  scores and weights are far from both ends. A membership test followed by a subscript of the same
  key (\<^verbatim>\<open>if k in d: ... d[k]\<close>) is one \<open>case\<close> on \<open>map_of\<close>; a subscript without a
  test is \<open>dict_subscript\<close>. Dicts with a fixed set of string keys are records; dicts
  whose values have several types (catalogue entries, requirement dicts, metadata) are
  association lists of \<open>pyval\<close>s. A function that can raise returns
  \<open>py_error + 'a\<close>, and the order of its statements is the order of the \<open>and_then\<close>
  chain, so the first exception wins as in Python. The dict that
  \<^verbatim>\<open>validate_video_requirements\<close> mutates is passed from stage to stage. Every loop
  of the modelled functions runs over a finite list and is a structurally recursive
  \<open>fun\<close> or a \<open>foldl\<close>: no fuel or bound is needed, and every function is total.
  Closed examples are evaluated by the simplifier (\<open>simp\<close>, \<open>code_simp\<close>).

  \<^bold>\<open>Not modelled.\<close> The \<^verbatim>\<open>__main__\<close> block of \<^verbatim>\<open>sample_videos.py\<close>, which
  only prints. Boolean metadata values, non-ASCII digits and white space, and Python's
  limit on the length of an integer literal are outside \<open>pyval\<close> and \<open>py_int\<close>.
  Infinities, NaN, subnormal doubles and integers beyond \<open>2 ^ 53\<close> as scores are outside
  \<open>Binary64\<close>. The
  \<^verbatim>\<open>state\<close> table of \<^verbatim>\<open>PERFORMANCE_PERCENTILES\<close> and \<^verbatim>\<open>GENDER_FACTORS\<close>
  are modelled as data; no function of the source reads them.
\<close>

section \<open>Shared facts\<close>

lemma known_benchmark:
  assumes "dict_contains PERFORMANCE_BENCHMARKS t" and "g \<in> set [''Male'', ''Female'']"
  shows "\<exists>m. get_benchmark t a g = MetricBenchmarks m \<and> wf_metric_table m"
proof -
  have "age_group_of a \<in> set [''Youth'', ''Junior'', ''Adult'', ''Senior'', ''Masters'']"
    using age_group_of_in_names [of a] by (simp add: age_group_names_def)
  from benchmark_lookup_complete [OF complete_PERFORMANCE_BENCHMARKS assms(1) this assms(2)]
  obtain m where m: "benchmark_lookup PERFORMANCE_BENCHMARKS t (age_group_of a) g = Some m"
    by blast
  then have "wf_metric_table m" by (rule benchmark_lookup_wf [OF wf_PERFORMANCE_BENCHMARKS])
  with m show ?thesis by (simp add: get_benchmark_cases)
qed

lemma sport_table_all:
  "list_all (\<lambda>e. P (snd e)) SPORT_SPECIFIC_BENCHMARKS \<Longrightarrow>
   map_of SPORT_SPECIFIC_BENCHMARKS sport = Some config \<Longrightarrow> P config"
  by (fastforce simp: list_all_iff dest: map_of_SomeD)

lemma elite_threshold_ge_80:
  "map_of SPORT_SPECIFIC_BENCHMARKS sport = Some config \<Longrightarrow> 80 \<le> elite_threshold config"
  by (rule sport_table_all [where P = "\<lambda>c. 80 \<le> elite_threshold c"])
     (simp_all add: SPORT_SPECIFIC_BENCHMARKS_def)

lemma talent_threshold_range:
  "map_of SPORT_SPECIFIC_BENCHMARKS sport = Some config \<Longrightarrow>
   70 \<le> talent_threshold config \<and> talent_threshold config \<le> 75"
  by (rule sport_table_all [where P = "\<lambda>c. 70 \<le> talent_threshold c \<and> talent_threshold c \<le> 75"])
     (simp_all add: SPORT_SPECIFIC_BENCHMARKS_def)

lemma critical_tests_known:
  "map_of SPORT_SPECIFIC_BENCHMARKS sport = Some config \<Longrightarrow>
   list_all (dict_contains PERFORMANCE_BENCHMARKS) (critical_tests config)"
  by (rule sport_table_all
        [where P = "\<lambda>c. list_all (dict_contains PERFORMANCE_BENCHMARKS) (critical_tests c)"])
     (simp_all add: SPORT_SPECIFIC_BENCHMARKS_def PERFORMANCE_BENCHMARKS_def)

lemma tier_percentile:
  assumes "map_of SPORT_SPECIFIC_BENCHMARKS sport = Some config"
  shows "\<exists>r. compare_to_national_standards s = Inr r
     \<and> (classify_tier config s = ElitePotential \<longrightarrow> 90 \<le> percentile r)
     \<and> (classify_tier config s = HighPotential \<longrightarrow> 75 \<le> percentile r)
     \<and> (classify_tier config s = ModeratePotential \<longrightarrow> percentile r = 75)
     \<and> (classify_tier config s = Developing \<longrightarrow> percentile r \<le> 50)"
proof -
  obtain r where r: "compare_to_national_standards s = Inr r" "percentile r = national_bracket s"
    using national_percentile by blast
  from assms have e: "80 \<le> elite_threshold config"
    and t: "70 \<le> talent_threshold config \<and> talent_threshold config \<le> 75"
    by (rule elite_threshold_ge_80, rule talent_threshold_range)
  then show ?thesis using r by (auto simp: classify_tier_iffs national_bracket_def)
qed

lemmas tier_names =
  tier_name.simps(4) [symmetric] tier_name.simps(3) [symmetric] tier_name.simps(2) [symmetric]
  tier_name.simps(1) [symmetric]

section \<open>Properties across components\<close>

text \<open>
  C33 (safety). The talent level of a recognised sport and the national percentile of
  the same composite score agree: Elite Potential lies in the percentiles 90 and
  above, High Potential in 75 and above, Moderate Potential in exactly 75, and
  Developing in 50 and below.
\<close>

theorem talent_level_percentile:
  assumes "map_of SPORT_SPECIFIC_BENCHMARKS sport = Some config"
  shows "\<exists>r. compare_to_national_standards
               (sport_score (get_sport_specific_assessment sport test_scores)) = Inr r
     \<and> (talent_level (get_sport_specific_assessment sport test_scores) = ''Elite Potential''
          \<longrightarrow> 90 \<le> percentile r)
     \<and> (talent_level (get_sport_specific_assessment sport test_scores) = ''High Potential''
          \<longrightarrow> 75 \<le> percentile r)
     \<and> (talent_level (get_sport_specific_assessment sport test_scores) = ''Moderate Potential''
          \<longrightarrow> percentile r = 75)
     \<and> (talent_level (get_sport_specific_assessment sport test_scores) = ''Developing''
          \<longrightarrow> percentile r \<le> 50)"
proof -
  from tier_percentile [OF assms, of "sport_score (assess_sport sport config test_scores)"]
  show ?thesis
    unfolding assessment_known [OF assms] talent_level_tier tier_names tier_name_inject .
qed

theorem talent_level_percentile_witness:
  "\<exists>r. compare_to_national_standards
          (sport_score (get_sport_specific_assessment ''Athletics''
             [(''Vertical Jump'', 90), (''50m Sprint'', 80)])) = Inr r
      \<and> 75 \<le> percentile r"
proof -
  have "talent_level (get_sport_specific_assessment ''Athletics''
           [(''Vertical Jump'', 90), (''50m Sprint'', 80)]) = ''High Potential''"
    by (simp add: assessment_known [OF map_of_Athletics] talent_level_tier sport_score_assess
        scored_pairs_def weighted_mean_def classify_tier_def)
  with talent_level_percentile [OF map_of_Athletics,
      of "[(''Vertical Jump'', 90), (''50m Sprint'', 80)]"]
  show ?thesis by auto
qed

text \<open>
  C37 (invariant). The tables refer to each other consistently: every critical test
  of every sport of \<^verbatim>\<open>SPORT_SPECIFIC_BENCHMARKS\<close> is a test type of
  \<^verbatim>\<open>PERFORMANCE_BENCHMARKS\<close>, so for the genders Male and Female \<^verbatim>\<open>get_benchmark\<close>
  returns a real metric table for it at every age, never the default.
\<close>

theorem critical_tests_have_benchmarks:
  assumes "map_of SPORT_SPECIFIC_BENCHMARKS sport = Some config"
    and "t \<in> set (critical_tests config)" and "g \<in> set [''Male'', ''Female'']"
  shows "\<exists>m. get_benchmark t a g = MetricBenchmarks m \<and> wf_metric_table m"
proof -
  from assms(1,2) have "dict_contains PERFORMANCE_BENCHMARKS t"
    using critical_tests_known [of sport config] by (simp add: list_all_iff)
  then show ?thesis using assms(3) by (rule known_benchmark)
qed

theorem critical_tests_have_benchmarks_witness:
  "\<exists>m. get_benchmark ''50m Sprint'' 17 ''Female'' = MetricBenchmarks m \<and> wf_metric_table m"
  by (rule critical_tests_have_benchmarks [OF map_of_Athletics]) simp_all

text \<open>
  C34 (safety). The same agreement holds for what Python computes: for a recognised
  sport the function in double precision returns, the percentile classifier accepts
  its composite score, and Elite Potential lies in the percentiles 90 and above, High
  Potential in 75 and above, Moderate Potential in exactly 75, and Developing in 50
  and below, whatever the rounding did to the score.
\<close>

theorem f64_talent_level_percentile:
  assumes "map_of SPORT_SPECIFIC_BENCHMARKS sport = Some config"
  shows "\<exists>a r. get_sport_specific_assessment_f64 sport test_scores = Inr a
     \<and> compare_to_national_standards (sport_score a) = Inr r
     \<and> (talent_level a = ''Elite Potential'' \<longrightarrow> 90 \<le> percentile r)
     \<and> (talent_level a = ''High Potential'' \<longrightarrow> 75 \<le> percentile r)
     \<and> (talent_level a = ''Moderate Potential'' \<longrightarrow> percentile r = 75)
     \<and> (talent_level a = ''Developing'' \<longrightarrow> percentile r \<le> 50)"
proof -
  obtain a where a: "get_sport_specific_assessment_f64 sport test_scores = Inr a"
    and l: "talent_level a = tier_name (classify_tier config (sport_score a))"
    by (simp add: get_assessment_f64_known [OF assms] assess_sport_f64_Inr
        talent_of_double_config [OF assms] fst_talent_of)
  from tier_percentile [OF assms, of "sport_score a"]
  have "\<exists>r. compare_to_national_standards (sport_score a) = Inr r
     \<and> (talent_level a = ''Elite Potential'' \<longrightarrow> 90 \<le> percentile r)
     \<and> (talent_level a = ''High Potential'' \<longrightarrow> 75 \<le> percentile r)
     \<and> (talent_level a = ''Moderate Potential'' \<longrightarrow> percentile r = 75)
     \<and> (talent_level a = ''Developing'' \<longrightarrow> percentile r \<le> 50)"
    unfolding l tier_names tier_name_inject .
  with a show ?thesis by blast
qed

theorem f64_talent_level_percentile_witness:
  "\<exists>a r. get_sport_specific_assessment_f64 ''Basketball''
            [(''Vertical Jump'', 96), (''50m Sprint'', 56)] = Inr a
     \<and> compare_to_national_standards (sport_score a) = Inr r
     \<and> talent_level a = ''High Potential'' \<and> 75 \<le> percentile r"
proof -
  have "map_of SPORT_SPECIFIC_BENCHMARKS ''Basketball'' \<noteq> None"
    by (simp add: SPORT_SPECIFIC_BENCHMARKS_def)
  then obtain config where "map_of SPORT_SPECIFIC_BENCHMARKS ''Basketball'' = Some config" by blast
  from f64_talent_level_percentile [OF this, of "[(''Vertical Jump'', 96), (''50m Sprint'', 56)]"]
    f64_rounds_below_threshold(1)
  show ?thesis by (auto simp: map_sum_def split: sum.splits)
qed

end
